theory Spec2Isabelle
  imports Complex_Main "HOL-Library.Word"
begin

section \<open>Numbers of the C code\<close>

text \<open>
  The C types \<^verbatim>\<open>float\<close> and \<^verbatim>\<open>double\<close> are embedded as one type: the real numbers
  extended with the special values of IEEE 754 arithmetic (the two infinities and
  not-a-number). The operations \<open>+\<close>, \<open>-\<close>, \<open>*\<close> and \<open>/\<close> on finite values are exact, and
  zero carries no sign (a nonzero finite value divided by zero gives the infinity with
  the sign of the numerator). The special values follow the IEEE rules: \<open>0 / 0\<close>,
  \<open>\<infinity> - \<infinity>\<close>, \<open>0 * \<infinity>\<close> and \<open>\<infinity> / \<infinity>\<close> are NaN, NaN is absorbing, and every ordered
  comparison with NaN is false. The rounding of a result to 24 or 53 bits and its
  overflow to infinity are the functions \<open>to_float\<close> and \<open>to_double\<close> below. The airspeed
  filter and the test of the periodic channels, whose results depend on the rounding,
  apply them after every operation, as a processor that evaluates \<^verbatim>\<open>float\<close> expressions
  in \<^verbatim>\<open>float\<close> and \<^verbatim>\<open>double\<close> expressions in \<^verbatim>\<open>double\<close> does. The dynamics of the simulated
  vehicle are embedded without them; the division of the quaternion by its norm is
  given in both forms.
\<close>

datatype cfloat = Fin real | PInf | NInf | NaN

instantiation cfloat :: "{plus, minus, uminus, times, inverse, ord}"
begin

fun uminus_cfloat :: "cfloat \<Rightarrow> cfloat" where
  "uminus_cfloat (Fin a) = Fin (- a)"
| "uminus_cfloat PInf = NInf"
| "uminus_cfloat NInf = PInf"
| "uminus_cfloat NaN = NaN"

fun plus_cfloat :: "cfloat \<Rightarrow> cfloat \<Rightarrow> cfloat" where
  "plus_cfloat (Fin a) (Fin b) = Fin (a + b)"
| "plus_cfloat NaN y = NaN"
| "plus_cfloat x NaN = NaN"
| "plus_cfloat PInf NInf = NaN"
| "plus_cfloat NInf PInf = NaN"
| "plus_cfloat PInf y = PInf"
| "plus_cfloat x PInf = PInf"
| "plus_cfloat NInf y = NInf"
| "plus_cfloat x NInf = NInf"

definition minus_cfloat :: "cfloat \<Rightarrow> cfloat \<Rightarrow> cfloat" where
  "minus_cfloat x y = x + (- y)"

fun times_cfloat :: "cfloat \<Rightarrow> cfloat \<Rightarrow> cfloat" where
  "times_cfloat (Fin a) (Fin b) = Fin (a * b)"
| "times_cfloat NaN y = NaN"
| "times_cfloat x NaN = NaN"
| "times_cfloat PInf (Fin b) = (if b = 0 then NaN else if 0 < b then PInf else NInf)"
| "times_cfloat NInf (Fin b) = (if b = 0 then NaN else if 0 < b then NInf else PInf)"
| "times_cfloat (Fin a) PInf = (if a = 0 then NaN else if 0 < a then PInf else NInf)"
| "times_cfloat (Fin a) NInf = (if a = 0 then NaN else if 0 < a then NInf else PInf)"
| "times_cfloat PInf PInf = PInf"
| "times_cfloat PInf NInf = NInf"
| "times_cfloat NInf PInf = NInf"
| "times_cfloat NInf NInf = PInf"

fun divide_cfloat :: "cfloat \<Rightarrow> cfloat \<Rightarrow> cfloat" where
  "divide_cfloat (Fin a) (Fin b) =
     (if b \<noteq> 0 then Fin (a / b)
      else if a = 0 then NaN else if 0 < a then PInf else NInf)"
| "divide_cfloat NaN y = NaN"
| "divide_cfloat x NaN = NaN"
| "divide_cfloat (Fin a) PInf = Fin 0"
| "divide_cfloat (Fin a) NInf = Fin 0"
| "divide_cfloat PInf (Fin b) = (if 0 \<le> b then PInf else NInf)"
| "divide_cfloat NInf (Fin b) = (if 0 \<le> b then NInf else PInf)"
| "divide_cfloat PInf PInf = NaN"
| "divide_cfloat PInf NInf = NaN"
| "divide_cfloat NInf PInf = NaN"
| "divide_cfloat NInf NInf = NaN"

definition inverse_cfloat :: "cfloat \<Rightarrow> cfloat" where
  "inverse_cfloat x = Fin 1 div x"

fun less_cfloat :: "cfloat \<Rightarrow> cfloat \<Rightarrow> bool" where
  "less_cfloat (Fin a) (Fin b) = (a < b)"
| "less_cfloat NInf (Fin b) = True"
| "less_cfloat NInf PInf = True"
| "less_cfloat (Fin a) PInf = True"
| "less_cfloat x y = False"

fun less_eq_cfloat :: "cfloat \<Rightarrow> cfloat \<Rightarrow> bool" where
  "less_eq_cfloat (Fin a) (Fin b) = (a \<le> b)"
| "less_eq_cfloat NaN y = False"
| "less_eq_cfloat x NaN = False"
| "less_eq_cfloat NInf y = True"
| "less_eq_cfloat x PInf = True"
| "less_eq_cfloat x y = False"

instance ..

end

text \<open>The C operators \<^verbatim>\<open>==\<close> and \<^verbatim>\<open>!=\<close> on floating values: NaN differs from everything,
  itself included.\<close>

definition feq :: "cfloat \<Rightarrow> cfloat \<Rightarrow> bool" where
  "feq x y = (x \<noteq> NaN \<and> y \<noteq> NaN \<and> x = y)"

definition fneq :: "cfloat \<Rightarrow> cfloat \<Rightarrow> bool" where
  "fneq x y = (\<not> feq x y)"

fun sqrtf :: "cfloat \<Rightarrow> cfloat" where
  "sqrtf (Fin a) = (if 0 \<le> a then Fin (sqrt a) else NaN)"
| "sqrtf PInf = PInf"
| "sqrtf NInf = NaN"
| "sqrtf NaN = NaN"

fun cosf :: "cfloat \<Rightarrow> cfloat" where
  "cosf (Fin a) = Fin (cos a)"
| "cosf x = NaN"

fun sinf :: "cfloat \<Rightarrow> cfloat" where
  "sinf (Fin a) = Fin (sin a)"
| "sinf x = NaN"

subsection \<open>Rounding to binary32 and to binary64\<close>

text \<open>
  Rounding to nearest, ties to even. A real number is rounded to the nearest multiple of
  the unit in the last place of its binade, a tie going to the even multiple. A
  \<^verbatim>\<open>float\<close> has 24 significant bits and binades from -126 to 127, a \<^verbatim>\<open>double\<close> has 53
  significant bits and binades from -1022 to 1023; below the lowest binade the spacing
  stays that of the lowest binade (the subnormal numbers). The binade of a number is
  found by a search upwards from the lowest one.
\<close>

definition round_half_even :: "real \<Rightarrow> int" where
  "round_half_even r =
     (let f = \<lfloor>r\<rfloor>
      in if r - of_int f < 1 / 2 then f
         else if 1 / 2 < r - of_int f then f + 1
         else if even f then f else f + 1)"

fun binade_search :: "nat \<Rightarrow> int \<Rightarrow> real \<Rightarrow> int" where
  "binade_search 0 e x = e"
| "binade_search (Suc n) e x = (if 2 powi (e + 1) \<le> x then binade_search n (e + 1) x else e)"

definition binade :: "real \<Rightarrow> int" where
  "binade x = binade_search 253 (- 126) \<bar>x\<bar>"

definition ulp32 :: "real \<Rightarrow> real" where
  "ulp32 x = 2 powi (binade x - 23)"

definition round32 :: "real \<Rightarrow> real" where
  "round32 x = of_int (round_half_even (x / ulp32 x)) * ulp32 x"

definition binade64 :: "real \<Rightarrow> int" where
  "binade64 x = binade_search 2045 (- 1022) \<bar>x\<bar>"

definition ulp64 :: "real \<Rightarrow> real" where
  "ulp64 x = 2 powi (binade64 x - 52)"

definition round64 :: "real \<Rightarrow> real" where
  "round64 x = of_int (round_half_even (x / ulp64 x)) * ulp64 x"

text \<open>
  The value of a result as a \<^verbatim>\<open>float\<close> and as a \<^verbatim>\<open>double\<close>: a finite result is rounded,
  and overflows to the infinity of its sign when the rounded magnitude reaches \<open>2 ^ 128\<close>
  or \<open>2 ^ 1024\<close>. A constant with the suffix \<^verbatim>\<open>f\<close> is the \<^verbatim>\<open>float\<close> of its decimal value,
  one without suffix the \<^verbatim>\<open>double\<close>.
\<close>

fun to_float :: "cfloat \<Rightarrow> cfloat" where
  "to_float (Fin r) =
     (if 2 ^ 128 \<le> \<bar>round32 r\<bar> then (if 0 < r then PInf else NInf) else Fin (round32 r))"
| "to_float PInf = PInf"
| "to_float NInf = NInf"
| "to_float NaN = NaN"

fun to_double :: "cfloat \<Rightarrow> cfloat" where
  "to_double (Fin r) =
     (if 2 ^ 1024 \<le> \<bar>round64 r\<bar> then (if 0 < r then PInf else NInf) else Fin (round64 r))"
| "to_double PInf = PInf"
| "to_double NInf = NInf"
| "to_double NaN = NaN"

subsection \<open>Integers and arrays\<close>

type_synonym uint32_t = "32 word"

type_synonym vec3 = "cfloat \<times> cfloat \<times> cfloat"
type_synonym quat = "cfloat \<times> cfloat \<times> cfloat \<times> cfloat"
type_synonym mat3 = "vec3 \<times> vec3 \<times> vec3"

text \<open>Element \<open>i\<close> of a C array of three, \<^verbatim>\<open>v[i]\<close>.\<close>

definition e0 :: "'a \<times> 'a \<times> 'a \<Rightarrow> 'a" where "e0 v = fst v"
definition e1 :: "'a \<times> 'a \<times> 'a \<Rightarrow> 'a" where "e1 v = fst (snd v)"
definition e2 :: "'a \<times> 'a \<times> 'a \<Rightarrow> 'a" where "e2 v = snd (snd v)"


section \<open>The airspeed filter (filterair.c)\<close>

text \<open>
  \<^verbatim>\<open>#define IAS2TAS(alt) (1.0f + (0.02f * (alt) / 304.8f))\<close>

  The operands of the macro are \<^verbatim>\<open>float\<close>s (the module applies it to its variable
  \<^verbatim>\<open>altitude\<close>), so each of the product, the quotient and the sum is a \<^verbatim>\<open>float\<close>.
\<close>

definition IAS2TAS :: "cfloat \<Rightarrow> cfloat" where
  "IAS2TAS alt =
     to_float (to_float (Fin 1.0)
               + to_float (to_float (to_float (Fin 0.02) * alt) / to_float (Fin 304.8)))"

text \<open>
  The macro on a finite altitude, as a function on the reals: the constants \<^verbatim>\<open>0.02f\<close> and
  \<^verbatim>\<open>304.8f\<close> are the binary32 numbers \<open>5368709 / 2 ^ 28\<close> and \<open>4993843 / 2 ^ 14\<close>, and
  \<^verbatim>\<open>1.0f\<close> is 1; overflow to infinity is not represented.
\<close>

definition IAS2TAS32 :: "real \<Rightarrow> real" where
  "IAS2TAS32 alt = round32 (1 + round32 (round32 ((5368709 / 2 ^ 28) * alt) / (4993843 / 2 ^ 14)))"

text \<open>The factor as the specification words it, \<open>1 + 0.02 * (altitude in feet) / 1000\<close>:
  the formula of the macro on the real numbers, without any rounding. It is compared
  with the macro in the properties below and is not used by the filter.\<close>

definition IAS2TAS_exact :: "cfloat \<Rightarrow> cfloat" where
  "IAS2TAS_exact alt = Fin 1.0 + (Fin 0.02 * alt / Fin 304.8)"








definition metres_to_feet :: "cfloat \<Rightarrow> cfloat" where
  "metres_to_feet a = a / Fin 0.3048"



section \<open>The simulated sensors module (sensors.c)\<close>

subsection \<open>The environment of the module\<close>

text \<open>
  The enumeration constants of the generated UAVObject headers (systemsettings.h,
  flightstatus.h, airspeedsensor.h) are not among the sources. They are parameters of the
  model: the fields \<^verbatim>\<open>AirframeType\<close>, \<^verbatim>\<open>Armed\<close> and \<^verbatim>\<open>SensorConnected\<close> are bytes, and
  the record below holds the values of the constants that the module names.
\<close>

type_synonym uint8_t = "8 word"

record uavo_consts =
  SYSTEMSETTINGS_AIRFRAMETYPE_FIXEDWING :: uint8_t
  SYSTEMSETTINGS_AIRFRAMETYPE_FIXEDWINGELEVON :: uint8_t
  SYSTEMSETTINGS_AIRFRAMETYPE_FIXEDWINGVTAIL :: uint8_t
  SYSTEMSETTINGS_AIRFRAMETYPE_QUADX :: uint8_t
  SYSTEMSETTINGS_AIRFRAMETYPE_QUADP :: uint8_t
  SYSTEMSETTINGS_AIRFRAMETYPE_VTOL :: uint8_t
  SYSTEMSETTINGS_AIRFRAMETYPE_HEXA :: uint8_t
  SYSTEMSETTINGS_AIRFRAMETYPE_OCTO :: uint8_t
  FLIGHTSTATUS_ARMED_ARMED :: uint8_t
  AIRSPEEDSENSOR_SENSORCONNECTED_TRUE :: uint8_t

text \<open>
  The UAVObjects that the module reads and writes, one field of the record per field of
  an object that the code touches. \<^verbatim>\<open>XyzGet\<close> reads the fields of object \<^verbatim>\<open>Xyz\<close>,
  \<^verbatim>\<open>XyzSet\<close> stores them and is recorded as an event of the tick. The fields of
  \<^verbatim>\<open>GPSPosition\<close> (the conversion of the position to latitude, longitude, altitude, ground
  speed and heading) are not represented: only the event of setting the object is.
\<close>

record uavobjects =
  SystemSettings_AirframeType :: uint8_t
  FlightStatus_Armed :: uint8_t
  ActuatorDesired_Roll :: cfloat
  ActuatorDesired_Pitch :: cfloat
  ActuatorDesired_Yaw :: cfloat
  ActuatorDesired_Throttle :: cfloat
  RateDesired_Roll :: cfloat
  RateDesired_Pitch :: cfloat
  RateDesired_Yaw :: cfloat
  AttitudeActual_q1 :: cfloat
  AttitudeActual_q2 :: cfloat
  AttitudeActual_q3 :: cfloat
  AttitudeActual_q4 :: cfloat
  AttitudeActual_Roll :: cfloat
  AttitudeActual_Pitch :: cfloat
  AttitudeActual_Yaw :: cfloat
  GyrosBias_x :: cfloat
  GyrosBias_y :: cfloat
  GyrosBias_z :: cfloat
  MagBias_x :: cfloat
  MagBias_y :: cfloat
  MagBias_z :: cfloat
  HomeLocation_Be :: vec3
  Accels_x :: cfloat
  Accels_y :: cfloat
  Accels_z :: cfloat
  Accels_temperature :: cfloat
  Gyros_x :: cfloat
  Gyros_y :: cfloat
  Gyros_z :: cfloat
  BaroAltitude_Altitude :: cfloat
  GPSVelocity_North :: cfloat
  GPSVelocity_East :: cfloat
  GPSVelocity_Down :: cfloat
  Magnetometer_x :: cfloat
  Magnetometer_y :: cfloat
  Magnetometer_z :: cfloat
  AirspeedSensor_SensorConnected :: uint8_t
  AirspeedSensor_CalibratedAirspeed :: cfloat
  AttitudeSimulated_q :: quat
  AttitudeSimulated_RPY :: vec3
  AttitudeSimulated_Position :: vec3
  AttitudeSimulated_Velocity :: vec3

datatype uavobject =
    Accels | Gyros | BaroAltitude | GPSPosition | GPSVelocity | Magnetometer | MagBias
  | AttitudeActual | AttitudeSimulated | AirspeedSensor

text \<open>
  The conversions \<^verbatim>\<open>Quaternion2R\<close> and \<^verbatim>\<open>Quaternion2RPY\<close> come from the library
  CoordinateConversions, which is not among the sources: they are parameters of the
  model. \<open>Quaternion2R_dcm\<close> is the usual direction-cosine matrix of a quaternion, for
  the evaluation of the model on concrete inputs.
\<close>

record coord_lib =
  Quaternion2R :: "quat \<Rightarrow> mat3"
  Quaternion2RPY :: "quat \<Rightarrow> vec3"

definition Quaternion2R_dcm :: "quat \<Rightarrow> mat3" where
  "Quaternion2R_dcm qq =
     (case qq of (a, b, c, d) \<Rightarrow>
        ((a * a + b * b - c * c - d * d, Fin 2 * (b * c + a * d), Fin 2 * (b * d - a * c)),
         (Fin 2 * (b * c - a * d), a * a - b * b + c * c - d * d, Fin 2 * (c * d + a * b)),
         (Fin 2 * (b * d + a * c), Fin 2 * (c * d - a * b), a * a - b * b - c * c + d * d)))"

definition coord_lib_dcm :: coord_lib where
  "coord_lib_dcm = \<lparr>Quaternion2R = Quaternion2R_dcm, Quaternion2RPY = (\<lambda>qq. (Fin 0, Fin 0, Fin 0))\<rparr>"

text \<open>
  Modelled from the spec: \<^verbatim>\<open>PIOS_DELAY_GetRaw\<close> and \<^verbatim>\<open>PIOS_DELAY_DiffuS\<close> belong to the
  board support library, which is not among the sources. The raw time is a 32-bit count
  of microseconds, and the elapsed time since a raw time is the wrap-safe difference
  between the clock and that raw time. Every call reads the clock anew: the readings of
  one tick are the fields \<open>clk_\<close> of the record below, one per call site. Likewise
  \<^verbatim>\<open>rand_gauss\<close> draws from the C library's \<^verbatim>\<open>rand\<close>: the samples drawn in one tick are
  the fields \<open>rnd_\<close>, one per call site (three for an array of three).
\<close>

definition PIOS_DELAY_DiffuS :: "uint32_t \<Rightarrow> uint32_t \<Rightarrow> uint32_t" where
  "PIOS_DELAY_DiffuS clock raw = clock - raw"

record tick_env =
  clk_dT :: uint32_t
  clk_last_time :: uint32_t
  clk_baro :: uint32_t
  clk_baro_set :: uint32_t
  clk_airspeed :: uint32_t
  clk_airspeed_set :: uint32_t
  clk_gps :: uint32_t
  clk_gps_set :: uint32_t
  clk_gps_vel :: uint32_t
  clk_gps_vel_set :: uint32_t
  clk_mag :: uint32_t
  clk_mag_set :: uint32_t
  rnd_gyro :: vec3
  rnd_wind :: vec3
  rnd_baro :: cfloat
  rnd_gps_vel_drift :: vec3
  rnd_gps_drift :: vec3

text \<open>Conversions of C: an unsigned 32-bit integer to \<^verbatim>\<open>double\<close>, and the \<^verbatim>\<open>int\<close> value of
  a comparison to \<^verbatim>\<open>float\<close>.\<close>

definition u32_to_float :: "uint32_t \<Rightarrow> cfloat" where
  "u32_to_float w = Fin (real (unat w))"

definition bool_to_float :: "bool \<Rightarrow> cfloat" where
  "bool_to_float b = Fin (if b then 1 else 0)"

definition GRAV :: cfloat where
  "GRAV = Fin 9.81"

subsection \<open>The persistent variables of the dynamic models\<close>

text \<open>The \<^verbatim>\<open>static\<close> variables of \<^verbatim>\<open>simulateModelQuadcopter\<close>; \<^verbatim>\<open>simulateModelAirplane\<close>
  has its own copies of them and one more, \<^verbatim>\<open>last_airspeed_time\<close>.\<close>

record sim_state =
  pos :: vec3
  vel :: vec3
  ned_accel :: vec3
  q :: quat
  rpy :: vec3
  baro_offset :: cfloat
  last_time :: uint32_t
  wind :: vec3
  last_baro_time :: uint32_t
  gps_vel_drift :: vec3
  last_gps_time :: uint32_t
  gps_drift :: vec3
  last_gps_vel_time :: uint32_t
  last_mag_time :: uint32_t

record airplane_state = sim_state +
  last_airspeed_time :: uint32_t

definition zero3 :: vec3 where
  "zero3 = (Fin 0, Fin 0, Fin 0)"

definition quadcopter_init :: sim_state where
  "quadcopter_init =
     \<lparr>pos = zero3, vel = zero3, ned_accel = zero3, q = (Fin 1, Fin 0, Fin 0, Fin 0),
      rpy = zero3, baro_offset = Fin 0.0, last_time = 0, wind = zero3, last_baro_time = 0,
      gps_vel_drift = zero3, last_gps_time = 0, gps_drift = zero3,
      last_gps_vel_time = 1000, last_mag_time = 0\<rparr>"

definition airplane_init :: airplane_state where
  "airplane_init =
     \<lparr>pos = zero3, vel = zero3, ned_accel = zero3, q = (Fin 1, Fin 0, Fin 0, Fin 0),
      rpy = zero3, baro_offset = Fin 0.0, last_time = 0, wind = zero3, last_baro_time = 0,
      gps_vel_drift = zero3, last_gps_time = 0, gps_drift = zero3,
      last_gps_vel_time = 1000, last_mag_time = 0, last_airspeed_time = 0\<rparr>"

subsection \<open>Blocks of code that the two dynamic models share\<close>

text \<open>
  \<^verbatim>\<open>simulateModelQuadcopter\<close> and \<^verbatim>\<open>simulateModelAirplane\<close> contain the same text for the
  steps below; each step is one definition, used by both models.

  The elapsed time since the previous call, floored:
  \<^verbatim>\<open>float dT = (PIOS_DELAY_DiffuS(last_time) / 1e6); if(dT < 1e-3) dT = 2e-3;\<close>
\<close>

definition elapsed_dT :: "uint32_t \<Rightarrow> uint32_t \<Rightarrow> cfloat" where
  "elapsed_dT clock raw =
     (let dT = u32_to_float (PIOS_DELAY_DiffuS clock raw) / Fin 1000000
      in if dT < Fin 0.001 then Fin 0.002 else dT)"

text \<open>
  \<^verbatim>\<open>float thrust = (flightStatus.Armed == FLIGHTSTATUS_ARMED_ARMED) ? actuatorDesired.Throttle * MAX_THRUST : 0;\<close>
  \<^verbatim>\<open>if (thrust < 0) thrust = 0;\<close>
  \<^verbatim>\<open>if (thrust != thrust) thrust = 0;\<close>
\<close>

definition commanded_thrust :: "bool \<Rightarrow> cfloat \<Rightarrow> cfloat \<Rightarrow> cfloat" where
  "commanded_thrust armed Throttle MAX_THRUST =
     (let thrust = (if armed then Throttle * MAX_THRUST else Fin 0);
          thrust1 = (if thrust < Fin 0 then Fin 0 else thrust);
          thrust2 = (if fneq thrust1 thrust1 then Fin 0 else thrust1)
      in thrust2)"

text \<open>The prediction of the attitude: the derivative \<^verbatim>\<open>qdot\<close> and one Euler step
  (\<open>euler_attitude\<close>), then the division of the quaternion by its norm \<^verbatim>\<open>qmag\<close>
  (\<open>normalize_attitude\<close>).\<close>

definition euler_attitude :: "quat \<Rightarrow> vec3 \<Rightarrow> cfloat \<Rightarrow> quat" where
  "euler_attitude qq r dT =
     (case qq of (qa, qb, qc, qd) \<Rightarrow>
      case r of (r0, r1, r2) \<Rightarrow>
        (let qdot0 = ((- qb) * r0 - qc * r1 - qd * r2) * dT * Fin pi / Fin 180 / Fin 2;
             qdot1 = (qa * r0 - qd * r1 + qc * r2) * dT * Fin pi / Fin 180 / Fin 2;
             qdot2 = (qd * r0 + qa * r1 - qb * r2) * dT * Fin pi / Fin 180 / Fin 2;
             qdot3 = ((- qc) * r0 + qb * r1 + qa * r2) * dT * Fin pi / Fin 180 / Fin 2
         in (qa + qdot0, qb + qdot1, qc + qdot2, qd + qdot3)))"

definition normalize_attitude :: "quat \<Rightarrow> quat" where
  "normalize_attitude qq =
     (case qq of (na, nb, nc, nd) \<Rightarrow>
        (let qmag = sqrtf (na * na + nb * nb + nc * nc + nd * nd)
         in (na / qmag, nb / qmag, nc / qmag, nd / qmag)))"

definition predict_attitude :: "quat \<Rightarrow> vec3 \<Rightarrow> cfloat \<Rightarrow> quat" where
  "predict_attitude qq r dT = normalize_attitude (euler_attitude qq r dT)"

text \<open>
  The division by the norm with the rounding of its operations. The quaternion and
  \<^verbatim>\<open>qmag\<close> are \<^verbatim>\<open>float\<close>s, so each product, each sum (taken from left to right) and
  each quotient is a \<^verbatim>\<open>float\<close>; \<^verbatim>\<open>sqrtf\<close> is taken to be correctly rounded, as IEEE 754
  requires of the square root:
  \<^verbatim>\<open>float qmag = sqrtf(q[0]*q[0] + q[1]*q[1] + q[2]*q[2] + q[3]*q[3]);\<close>
  \<^verbatim>\<open>q[0] = q[0] / qmag; q[1] = q[1] / qmag; q[2] = q[2] / qmag; q[3] = q[3] / qmag;\<close>
\<close>

definition normalize_attitude32 :: "quat \<Rightarrow> quat" where
  "normalize_attitude32 qq =
     (case qq of (na, nb, nc, nd) \<Rightarrow>
        (let qmag = to_float (sqrtf (to_float (to_float (to_float (to_float (na * na)
                        + to_float (nb * nb)) + to_float (nc * nc)) + to_float (nd * nd))))
         in (to_float (na / qmag), to_float (nb / qmag), to_float (nc / qmag),
             to_float (nd / qmag))))"

text \<open>The value of \<^verbatim>\<open>qmag\<close> in that computation for finite components, as a function on the
  reals; overflow to infinity is not represented.\<close>

definition qmag32 :: "real \<Rightarrow> real \<Rightarrow> real \<Rightarrow> real \<Rightarrow> real" where
  "qmag32 a b c d =
     round32 (sqrt (round32 (round32 (round32 (round32 (a * a) + round32 (b * b))
                                      + round32 (c * c)) + round32 (d * d))))"

text \<open>A first-order drift process on an array of three:
  \<^verbatim>\<open>v[i] = v[i] * k + rand_gauss() / d\<close>.\<close>

definition drift3 :: "vec3 \<Rightarrow> cfloat \<Rightarrow> vec3 \<Rightarrow> cfloat \<Rightarrow> vec3" where
  "drift3 v k g d = (e0 v * k + e0 g / d, e1 v * k + e1 g / d, e2 v * k + e2 g / d)"

text \<open>
  The friction term, the Euler steps of velocity and position, and the contact with the
  ground, on the triple of \<^verbatim>\<open>pos\<close>, \<^verbatim>\<open>vel\<close> and \<^verbatim>\<open>ned_accel\<close>:
  \<^verbatim>\<open>if(pos[2] > 0) { pos[2] = 0; vel[2] = 0; ned_accel[2] = 0; }\<close>
\<close>

definition apply_friction :: "cfloat \<Rightarrow> vec3 \<Rightarrow> vec3 \<Rightarrow> vec3 \<Rightarrow> vec3" where
  "apply_friction K_FRICTION a v w =
     (e0 a - K_FRICTION * (e0 v - e0 w),
      e1 a - K_FRICTION * (e1 v - e1 w),
      e2 a - K_FRICTION * (e2 v - e2 w))"

definition euler_step :: "vec3 \<Rightarrow> vec3 \<Rightarrow> cfloat \<Rightarrow> vec3" where
  "euler_step x xdot dT = (e0 x + e0 xdot * dT, e1 x + e1 xdot * dT, e2 x + e2 xdot * dT)"

definition ground_contact :: "vec3 \<times> vec3 \<times> vec3 \<Rightarrow> vec3 \<times> vec3 \<times> vec3" where
  "ground_contact pva =
     (case pva of (p, v, a) \<Rightarrow>
        if Fin 0 < e2 p
        then ((e0 p, e1 p, Fin 0), (e0 v, e1 v, Fin 0), (e0 a, e1 a, Fin 0))
        else (p, v, a))"

text \<open>The rotation of the acceleration into the body frame, plus the bias of the
  accelerometer.\<close>

definition body_accels :: "vec3 \<Rightarrow> mat3 \<Rightarrow> vec3 \<Rightarrow> vec3" where
  "body_accels a Rbe bias =
     (e0 a * e0 (e0 Rbe) + e1 a * e1 (e0 Rbe) + e2 a * e2 (e0 Rbe) + e0 bias,
      e0 a * e0 (e1 Rbe) + e1 a * e1 (e1 Rbe) + e2 a * e2 (e1 Rbe) + e1 bias,
      e0 a * e0 (e2 Rbe) + e1 a * e1 (e2 Rbe) + e2 a * e2 (e2 Rbe) + e2 bias)"

text \<open>
  \<^verbatim>\<open>if(baro_offset == 0) { baro_offset = 50; } else { baro_offset += rand_gauss() / 100; }\<close>
\<close>

definition baro_offset_step :: "cfloat \<Rightarrow> cfloat \<Rightarrow> cfloat" where
  "baro_offset_step offset g =
     (if feq offset (Fin 0) then Fin 50 else offset + g / Fin 100)"

text \<open>
  The periods of the channels are \<^verbatim>\<open>float\<close> constants initialised from \<^verbatim>\<open>double\<close>
  expressions:
  \<^verbatim>\<open>const float GPS_PERIOD = 0.1;\<close>
  \<^verbatim>\<open>const float MAG_PERIOD = 1.0 / 75.0;\<close>
  \<^verbatim>\<open>const float BARO_PERIOD = 1.0 / 20.0;\<close>
  (the numbers 1, 20 and 75 are \<^verbatim>\<open>double\<close>s as they stand).
\<close>

definition GPS_PERIOD :: cfloat where
  "GPS_PERIOD = to_float (to_double (Fin 0.1))"

definition MAG_PERIOD :: cfloat where
  "MAG_PERIOD = to_float (to_double (Fin 1.0 / Fin 75.0))"

definition BARO_PERIOD :: cfloat where
  "BARO_PERIOD = to_float (to_double (Fin 1.0 / Fin 20.0))"

text \<open>
  The test of a periodic channel:
  \<^verbatim>\<open>PIOS_DELAY_DiffuS(last_..._time) / 1.0e6 > ..._PERIOD\<close>.
  The elapsed microseconds, an unsigned 32-bit integer, are converted to \<^verbatim>\<open>double\<close>
  exactly and divided by the \<^verbatim>\<open>double\<close> constant \<open>1000000\<close>; the quotient, a \<^verbatim>\<open>double\<close>, is
  compared with the period, which is converted to \<^verbatim>\<open>double\<close> exactly.
\<close>

definition channel_due :: "uint32_t \<Rightarrow> uint32_t \<Rightarrow> cfloat \<Rightarrow> bool" where
  "channel_due clock raw PERIOD =
     (PERIOD < to_double (u32_to_float (PIOS_DELAY_DiffuS clock raw) / Fin 1000000))"

subsection \<open>The estimation of the magnetometer's offset\<close>

text \<open>The branch of \<^verbatim>\<open>magOffsetEstimation\<close> that is compiled (\<^verbatim>\<open>#else\<close>), in four steps:
  the reading without its bias rotated into the earth frame (\<^verbatim>\<open>B_e\<close>), its horizontal part
  in the yaw-aligned frame (\<^verbatim>\<open>xy\<close>), the norm of that part (\<^verbatim>\<open>xy_norm\<close>), and the
  increment of the bias (\<^verbatim>\<open>delta\<close>). The code passes \<^verbatim>\<open>&attitude.q1\<close> to
  \<^verbatim>\<open>Quaternion2R\<close>, which reads the four fields \<^verbatim>\<open>q1\<close> to \<^verbatim>\<open>q4\<close> as an array. The result
  of \<open>magOffsetEstimation\<close> is the reading with the bias removed and the objects with the
  new \<^verbatim>\<open>MagBias\<close>.\<close>

definition mag_earth :: "coord_lib \<Rightarrow> uavobjects \<Rightarrow> vec3 \<Rightarrow> vec3" where
  "mag_earth lib bus m =
     (let R = Quaternion2R lib (AttitudeActual_q1 bus, AttitudeActual_q2 bus,
                                AttitudeActual_q3 bus, AttitudeActual_q4 bus)
      in (e0 (e0 R) * e0 m + e0 (e1 R) * e1 m + e0 (e2 R) * e2 m,
          e1 (e0 R) * e0 m + e1 (e1 R) * e1 m + e1 (e2 R) * e2 m,
          e2 (e0 R) * e0 m + e2 (e1 R) * e1 m + e2 (e2 R) * e2 m))"

definition mag_xy :: "uavobjects \<Rightarrow> vec3 \<Rightarrow> cfloat \<times> cfloat" where
  "mag_xy bus B_e =
     (let cy = cosf (AttitudeActual_Yaw bus * Fin pi / Fin 180.0);
          sy = sinf (AttitudeActual_Yaw bus * Fin pi / Fin 180.0)
      in (cy * e0 B_e + sy * e1 B_e, (- sy) * e0 B_e + cy * e1 B_e))"

definition mag_xy_norm :: "cfloat \<times> cfloat \<Rightarrow> cfloat" where
  "mag_xy_norm xy = sqrtf (fst xy * fst xy + snd xy * snd xy)"

definition mag_delta :: "coord_lib \<Rightarrow> uavobjects \<Rightarrow> vec3 \<Rightarrow> vec3" where
  "mag_delta lib bus m =
     (let Be = HomeLocation_Be bus;
          Rxy = sqrtf (e0 Be * e0 Be + e1 Be * e1 Be);
          Rz = e2 Be;
          rate = Fin 0.01;
          B_e = mag_earth lib bus m;
          xy = mag_xy bus B_e;
          xy_norm = mag_xy_norm xy
      in ((- rate) * (fst xy / xy_norm * Rxy - fst xy),
          (- rate) * (snd xy / xy_norm * Rxy - snd xy),
          (- rate) * (Rz - e2 B_e)))"

definition magOffsetEstimation :: "coord_lib \<Rightarrow> uavobjects \<Rightarrow> vec3 \<Rightarrow> vec3 \<times> uavobjects" where
  "magOffsetEstimation lib bus mag =
     (let m = (e0 mag - MagBias_x bus, e1 mag - MagBias_y bus, e2 mag - MagBias_z bus);
          delta = mag_delta lib bus m
      in (m, bus\<lparr>MagBias_x := MagBias_x bus + e0 delta,
                 MagBias_y := MagBias_y bus + e1 delta,
                 MagBias_z := MagBias_z bus + e2 delta\<rparr>))"

text \<open>The magnetic field of the home location in the body frame.\<close>

definition body_mag :: "vec3 \<Rightarrow> mat3 \<Rightarrow> vec3" where
  "body_mag Be Rbe =
     (e0 Be * e0 (e0 Rbe) + e1 Be * e1 (e0 Rbe) + e2 Be * e2 (e0 Rbe),
      e0 Be * e0 (e1 Rbe) + e1 Be * e1 (e1 Rbe) + e2 Be * e2 (e1 Rbe),
      e0 Be * e0 (e2 Rbe) + e1 Be * e1 (e2 Rbe) + e2 Be * e2 (e2 Rbe))"

subsection \<open>The four variants of the model\<close>

text \<open>The variable \<^verbatim>\<open>accel_bias\<close> of the module and the flag \<^verbatim>\<open>overideAttitude\<close> are
  arguments of the variants that use them. A variant returns the new objects and the
  list of the objects it has set, in the order of the calls; a dynamic model returns its
  new persistent variables as well.\<close>

datatype sensor_sim_type = CONSTANT | MODEL_AGNOSTIC | MODEL_QUADCOPTER | MODEL_AIRPLANE

definition simulateConstant :: "uavobjects \<Rightarrow> uavobjects \<times> uavobject list" where
  "simulateConstant bus =
     (let bus1 = bus\<lparr>Accels_x := Fin 0, Accels_y := Fin 0, Accels_z := - GRAV,
                    Accels_temperature := Fin 0\<rparr>;
          bus2 = bus1\<lparr>Gyros_x := Fin 0 + GyrosBias_x bus1,
                     Gyros_y := Fin 0 + GyrosBias_y bus1,
                     Gyros_z := Fin 0 + GyrosBias_z bus1\<rparr>;
          bus3 = bus2\<lparr>BaroAltitude_Altitude := Fin 1\<rparr>;
          bus4 = bus3\<lparr>Magnetometer_x := Fin 400, Magnetometer_y := Fin 0,
                     Magnetometer_z := Fin 800\<rparr>
      in (bus4, [Accels, Gyros, BaroAltitude, GPSPosition, Magnetometer]))"

definition simulateModelAgnostic :: "coord_lib \<Rightarrow> tick_env \<Rightarrow> uavobjects \<Rightarrow> uavobjects \<times> uavobject list" where
  "simulateModelAgnostic lib env bus =
     (let Rbe = Quaternion2R lib (AttitudeActual_q1 bus, AttitudeActual_q2 bus,
                                  AttitudeActual_q3 bus, AttitudeActual_q4 bus);
          bus1 = bus\<lparr>Accels_x := (- GRAV) * e2 (e0 Rbe),
                    Accels_y := (- GRAV) * e2 (e1 Rbe),
                    Accels_z := (- GRAV) * e2 (e2 Rbe),
                    Accels_temperature := Fin 30\<rparr>;
          bus2 = bus1\<lparr>Gyros_x := RateDesired_Roll bus1 + e0 (rnd_gyro env) + GyrosBias_x bus1,
                     Gyros_y := RateDesired_Pitch bus1 + e1 (rnd_gyro env) + GyrosBias_y bus1,
                     Gyros_z := RateDesired_Yaw bus1 + e2 (rnd_gyro env) + GyrosBias_z bus1\<rparr>;
          bus3 = bus2\<lparr>BaroAltitude_Altitude := Fin 1\<rparr>;
          bus4 = bus3\<lparr>Magnetometer_x := Fin 400, Magnetometer_y := Fin 0,
                     Magnetometer_z := Fin 800\<rparr>
      in (bus4, [Accels, Gyros, BaroAltitude, GPSPosition, Magnetometer]))"

text \<open>The quadcopter. Its low-pass filtered rates \<^verbatim>\<open>rpy\<close> follow the commanded actuator
  values, and its thrust acts along the body's down axis:
  \<^verbatim>\<open>rpy[0] = (flightStatus.Armed == FLIGHTSTATUS_ARMED_ARMED) * actuatorDesired.Roll * 250 * (1 - ACTUATOR_ALPHA) + rpy[0] * ACTUATOR_ALPHA;\<close>
  \<^verbatim>\<open>ned_accel[0] = -thrust * Rbe[2][0]; ... ned_accel[2] = -thrust * Rbe[2][2] + GRAV;\<close>\<close>

definition quadcopter_rates :: "bool \<Rightarrow> uavobjects \<Rightarrow> vec3 \<Rightarrow> vec3" where
  "quadcopter_rates armed bus r =
     (let ACTUATOR_ALPHA = Fin 0.99
      in (bool_to_float armed * ActuatorDesired_Roll bus * Fin 250 * (Fin 1 - ACTUATOR_ALPHA)
            + e0 r * ACTUATOR_ALPHA,
          bool_to_float armed * ActuatorDesired_Pitch bus * Fin 250 * (Fin 1 - ACTUATOR_ALPHA)
            + e1 r * ACTUATOR_ALPHA,
          bool_to_float armed * ActuatorDesired_Yaw bus * Fin 250 * (Fin 1 - ACTUATOR_ALPHA)
            + e2 r * ACTUATOR_ALPHA))"

definition quadcopter_accel :: "cfloat \<Rightarrow> mat3 \<Rightarrow> vec3" where
  "quadcopter_accel thrust Rbe =
     ((- thrust) * e0 (e2 Rbe),
      (- thrust) * e1 (e2 Rbe),
      (- thrust) * e2 (e2 Rbe) + GRAV)"

text \<open>The quadcopter's tick up to the contact with the ground: the result is the elapsed
  time, the thrust, the filtered rates, the new quaternion, its rotation matrix, the wind
  and the predicted position, velocity and acceleration before the contact is tested.\<close>

definition quadcopter_predict ::
  "coord_lib \<Rightarrow> uavo_consts \<Rightarrow> tick_env \<Rightarrow> sim_state \<Rightarrow> uavobjects
   \<Rightarrow> cfloat \<times> cfloat \<times> vec3 \<times> quat \<times> mat3 \<times> vec3 \<times> (vec3 \<times> vec3 \<times> vec3)" where
  "quadcopter_predict lib c env s bus =
     (let MAX_THRUST = GRAV * Fin 2;
          K_FRICTION = Fin 1;
          dT = elapsed_dT (clk_dT env) (last_time s);
          armed = (FlightStatus_Armed bus = FLIGHTSTATUS_ARMED_ARMED c);
          thrust = commanded_thrust armed (ActuatorDesired_Throttle bus) MAX_THRUST;
          rpy1 = quadcopter_rates armed bus (rpy s);
          q1 = predict_attitude (q s) rpy1 dT;
          wind1 = drift3 (wind s) (Fin 0.95) (rnd_wind env) (Fin 10.0);
          Rbe = Quaternion2R lib q1;
          a = quadcopter_accel thrust Rbe;
          a1 = apply_friction K_FRICTION a (vel s) wind1;
          v1 = euler_step (vel s) a1 dT;
          p1 = euler_step (pos s) v1 dT
      in (dT, thrust, rpy1, q1, Rbe, wind1, (p1, v1, a1)))"

definition simulateModelQuadcopter ::
  "coord_lib \<Rightarrow> uavo_consts \<Rightarrow> bool \<Rightarrow> vec3 \<Rightarrow> tick_env \<Rightarrow> sim_state \<Rightarrow> uavobjects
   \<Rightarrow> sim_state \<times> uavobjects \<times> uavobject list" where
  "simulateModelQuadcopter lib c overideAttitude accel_bias env s bus =
     (case quadcopter_predict lib c env s bus of
        (dT, thrust, rpy1, q1, Rbe, wind1, pva) \<Rightarrow>
      case ground_contact pva of (p2, v2, a2) \<Rightarrow>
        (let bus1 = bus\<lparr>Gyros_x := e0 rpy1 + e0 (rnd_gyro env),
                       Gyros_y := e1 rpy1 + e1 (rnd_gyro env),
                       Gyros_z := e2 rpy1 + e2 (rnd_gyro env)\<rparr>;
             bus2 = (if overideAttitude
                     then (case q1 of (qa, qb, qc, qd) \<Rightarrow>
                             bus1\<lparr>AttitudeActual_q1 := qa, AttitudeActual_q2 := qb,
                                  AttitudeActual_q3 := qc, AttitudeActual_q4 := qd\<rparr>)
                     else bus1);
             a3 = (e0 a2, e1 a2, e2 a2 - Fin 9.81);
             acc = body_accels a3 Rbe accel_bias;
             bus3 = bus2\<lparr>Accels_x := e0 acc, Accels_y := e1 acc, Accels_z := e2 acc,
                        Accels_temperature := Fin 30\<rparr>;
             baro_offset1 = baro_offset_step (baro_offset s) (rnd_baro env);
             baro_due = channel_due (clk_baro env) (last_baro_time s) BARO_PERIOD;
             bus4 = (if baro_due then bus3\<lparr>BaroAltitude_Altitude := (- e2 p2) + baro_offset1\<rparr>
                     else bus3);
             last_baro_time1 = (if baro_due then clk_baro_set env else last_baro_time s);
             gps_vel_drift1 = drift3 (gps_vel_drift s) (Fin 0.65) (rnd_gps_vel_drift env) (Fin 5.0);
             gps_due = channel_due (clk_gps env) (last_gps_time s) GPS_PERIOD;
             gps_drift1 = (if gps_due
                           then drift3 (gps_drift s) (Fin 0.95) (rnd_gps_drift env) (Fin 10.0)
                           else gps_drift s);
             last_gps_time1 = (if gps_due then clk_gps_set env else last_gps_time s);
             gps_vel_due = channel_due (clk_gps_vel env) (last_gps_vel_time s) GPS_PERIOD;
             bus6 = (if gps_vel_due
                     then bus4\<lparr>GPSVelocity_North := e0 v2 + e0 gps_vel_drift1,
                               GPSVelocity_East := e1 v2 + e1 gps_vel_drift1,
                               GPSVelocity_Down := e2 v2 + e2 gps_vel_drift1\<rparr>
                     else bus4);
             last_gps_vel_time1 = (if gps_vel_due then clk_gps_vel_set env else last_gps_vel_time s);
             mag_due = channel_due (clk_mag env) (last_mag_time s) MAG_PERIOD;
             mb = magOffsetEstimation lib bus6 (body_mag (HomeLocation_Be bus6) Rbe);
             bus7 = (if mag_due
                     then (snd mb)\<lparr>Magnetometer_x := e0 (fst mb), Magnetometer_y := e1 (fst mb),
                                   Magnetometer_z := e2 (fst mb)\<rparr>
                     else bus6);
             last_mag_time1 = (if mag_due then clk_mag_set env else last_mag_time s);
             bus8 = bus7\<lparr>AttitudeSimulated_q := q1,
                        AttitudeSimulated_RPY := Quaternion2RPY lib q1,
                        AttitudeSimulated_Position := p2,
                        AttitudeSimulated_Velocity := v2\<rparr>;
             ev = [Gyros] @ (if overideAttitude then [AttitudeActual] else []) @ [Accels]
                  @ (if baro_due then [BaroAltitude] else [])
                  @ (if gps_due then [GPSPosition] else [])
                  @ (if gps_vel_due then [GPSVelocity] else [])
                  @ (if mag_due then [MagBias, Magnetometer] else [])
                  @ [AttitudeSimulated];
             s1 = s\<lparr>pos := p2, vel := v2, ned_accel := a3, q := q1, rpy := rpy1,
                    baro_offset := baro_offset1, last_time := clk_last_time env, wind := wind1,
                    last_baro_time := last_baro_time1, gps_vel_drift := gps_vel_drift1,
                    last_gps_time := last_gps_time1, gps_drift := gps_drift1,
                    last_gps_vel_time := last_gps_vel_time1, last_mag_time := last_mag_time1\<rparr>
         in (s1, bus8, ev)))"

text \<open>The airplane. Its filtered rates follow the desired rates, with a coupling of the
  roll angle into the yaw rate; its forces are computed from the airspeed in the body
  frame (forward, sideways, downward), the thrust and the pitch angle.\<close>

definition airplane_rates :: "bool \<Rightarrow> uavobjects \<Rightarrow> vec3 \<Rightarrow> vec3" where
  "airplane_rates armed bus r =
     (let ACTUATOR_ALPHA = Fin 0.8;
          ROLL_HEADING_COUPLING = Fin 0.1;
          roll = AttitudeActual_Roll bus;
          r0 = bool_to_float armed * RateDesired_Roll bus * (Fin 1 - ACTUATOR_ALPHA)
                 + e0 r * ACTUATOR_ALPHA;
          r1 = bool_to_float armed * RateDesired_Pitch bus * (Fin 1 - ACTUATOR_ALPHA)
                 + e1 r * ACTUATOR_ALPHA;
          r2 = bool_to_float armed * RateDesired_Yaw bus * (Fin 1 - ACTUATOR_ALPHA)
                 + e2 r * ACTUATOR_ALPHA
      in (r0, r1, r2 + roll * ROLL_HEADING_COUPLING))"

definition body_airspeed :: "mat3 \<Rightarrow> vec3 \<Rightarrow> vec3" where
  "body_airspeed Rbe airspeed =
     (e0 (e0 Rbe) * e0 airspeed + e1 (e0 Rbe) * e1 airspeed + e2 (e0 Rbe) * e2 airspeed,
      e0 (e1 Rbe) * e0 airspeed + e1 (e1 Rbe) * e1 airspeed + e2 (e1 Rbe) * e2 airspeed,
      e0 (e2 Rbe) * e0 airspeed + e1 (e2 Rbe) * e1 airspeed + e2 (e2 Rbe) * e2 airspeed)"

definition airplane_accel :: "cfloat \<Rightarrow> cfloat \<Rightarrow> mat3 \<Rightarrow> vec3 \<Rightarrow> vec3" where
  "airplane_accel thrust pitch Rbe speeds =
     (let LIFT_SPEED = Fin 8;
          K_FRICTION = Fin 0.2;
          PITCH_THRUST_COUPLING = Fin 0.2;
          forwardAirspeed = e0 speeds;
          sidewaysAirspeed = e1 speeds;
          downwardAirspeed = e2 speeds;
          forces0 = thrust - pitch * PITCH_THRUST_COUPLING - forwardAirspeed * K_FRICTION;
          forces1 = Fin 0 - sidewaysAirspeed * K_FRICTION * Fin 100;
          forces2 = GRAV * (forwardAirspeed - LIFT_SPEED) + downwardAirspeed * K_FRICTION * Fin 100
      in (forces0 * e0 (e0 Rbe) + forces1 * e0 (e1 Rbe) - forces2 * e0 (e2 Rbe),
          forces0 * e1 (e0 Rbe) + forces1 * e1 (e1 Rbe) - forces2 * e1 (e2 Rbe),
          forces0 * e2 (e0 Rbe) + forces1 * e2 (e1 Rbe) - forces2 * e2 (e2 Rbe) + Fin 9.81))"

text \<open>The airplane's tick up to the contact with the ground; the result has the forward
  airspeed in addition to the components of the quadcopter's. The wind is drawn and then
  set to zero.\<close>

definition airplane_predict ::
  "coord_lib \<Rightarrow> uavo_consts \<Rightarrow> tick_env \<Rightarrow> airplane_state \<Rightarrow> uavobjects
   \<Rightarrow> cfloat \<times> cfloat \<times> vec3 \<times> quat \<times> mat3 \<times> vec3 \<times> cfloat \<times> (vec3 \<times> vec3 \<times> vec3)" where
  "airplane_predict lib c env s bus =
     (let MAX_THRUST = Fin 9.81 * Fin 2;
          K_FRICTION = Fin 0.2;
          dT = elapsed_dT (clk_dT env) (last_time s);
          armed = (FlightStatus_Armed bus = FLIGHTSTATUS_ARMED_ARMED c);
          thrust = commanded_thrust armed (ActuatorDesired_Throttle bus) MAX_THRUST;
          pitch = AttitudeActual_Pitch bus;
          rpy1 = airplane_rates armed bus (rpy s);
          q1 = predict_attitude (q s) rpy1 dT;
          wind1 = zero3;
          Rbe = Quaternion2R lib q1;
          airspeed = (e0 (vel s) - e0 wind1, e1 (vel s) - e1 wind1, e2 (vel s) - e2 wind1);
          speeds = body_airspeed Rbe airspeed;
          a = airplane_accel thrust pitch Rbe speeds;
          a1 = apply_friction K_FRICTION a (vel s) wind1;
          v1 = euler_step (vel s) a1 dT;
          p1 = euler_step (pos s) v1 dT
      in (dT, thrust, rpy1, q1, Rbe, wind1, e0 speeds, (p1, v1, a1)))"

definition simulateModelAirplane ::
  "coord_lib \<Rightarrow> uavo_consts \<Rightarrow> bool \<Rightarrow> vec3 \<Rightarrow> tick_env \<Rightarrow> airplane_state \<Rightarrow> uavobjects
   \<Rightarrow> airplane_state \<times> uavobjects \<times> uavobject list" where
  "simulateModelAirplane lib c overideAttitude accel_bias env s bus =
     (case airplane_predict lib c env s bus of
        (dT, thrust, rpy1, q1, Rbe, wind1, forwardAirspeed, pva) \<Rightarrow>
      case ground_contact pva of (p2, v2, a2) \<Rightarrow>
        (let bus1 = bus\<lparr>Gyros_x := e0 rpy1 + e0 (rnd_gyro env),
                       Gyros_y := e1 rpy1 + e1 (rnd_gyro env),
                       Gyros_z := e2 rpy1 + e2 (rnd_gyro env)\<rparr>;
             bus2 = (if overideAttitude
                     then (case q1 of (qa, qb, qc, qd) \<Rightarrow>
                             bus1\<lparr>AttitudeActual_q1 := qa, AttitudeActual_q2 := qb,
                                  AttitudeActual_q3 := qc, AttitudeActual_q4 := qd\<rparr>)
                     else bus1);
             a3 = (e0 a2, e1 a2, e2 a2 - GRAV);
             acc = body_accels a3 Rbe accel_bias;
             bus3 = bus2\<lparr>Accels_x := e0 acc, Accels_y := e1 acc, Accels_z := e2 acc,
                        Accels_temperature := Fin 30\<rparr>;
             baro_offset1 = baro_offset_step (baro_offset s) (rnd_baro env);
             baro_due = channel_due (clk_baro env) (last_baro_time s) BARO_PERIOD;
             bus4 = (if baro_due then bus3\<lparr>BaroAltitude_Altitude := (- e2 p2) + baro_offset1\<rparr>
                     else bus3);
             last_baro_time1 = (if baro_due then clk_baro_set env else last_baro_time s);
             airspeed_due = channel_due (clk_airspeed env) (last_airspeed_time s) BARO_PERIOD;
             bus5 = (if airspeed_due
                     then bus4\<lparr>AirspeedSensor_SensorConnected := AIRSPEEDSENSOR_SENSORCONNECTED_TRUE c,
                               AirspeedSensor_CalibratedAirspeed := forwardAirspeed\<rparr>
                     else bus4);
             last_airspeed_time1 = (if airspeed_due then clk_airspeed_set env
                                    else last_airspeed_time s);
             gps_vel_drift1 = drift3 (gps_vel_drift s) (Fin 0.65) (rnd_gps_vel_drift env) (Fin 5.0);
             gps_due = channel_due (clk_gps env) (last_gps_time s) GPS_PERIOD;
             gps_drift1 = (if gps_due
                           then drift3 (gps_drift s) (Fin 0.95) (rnd_gps_drift env) (Fin 10.0)
                           else gps_drift s);
             last_gps_time1 = (if gps_due then clk_gps_set env else last_gps_time s);
             gps_vel_due = channel_due (clk_gps_vel env) (last_gps_vel_time s) GPS_PERIOD;
             bus6 = (if gps_vel_due
                     then bus5\<lparr>GPSVelocity_North := e0 v2 + e0 gps_vel_drift1,
                               GPSVelocity_East := e1 v2 + e1 gps_vel_drift1,
                               GPSVelocity_Down := e2 v2 + e2 gps_vel_drift1\<rparr>
                     else bus5);
             last_gps_vel_time1 = (if gps_vel_due then clk_gps_vel_set env else last_gps_vel_time s);
             mag_due = channel_due (clk_mag env) (last_mag_time s) MAG_PERIOD;
             Be = HomeLocation_Be bus6;
             mb = magOffsetEstimation lib bus6
                    (Fin 100 + e0 Be * e0 (e0 Rbe) + e1 Be * e1 (e0 Rbe) + e2 Be * e2 (e0 Rbe),
                     Fin 100 + e0 Be * e0 (e1 Rbe) + e1 Be * e1 (e1 Rbe) + e2 Be * e2 (e1 Rbe),
                     Fin 100 + e0 Be * e0 (e2 Rbe) + e1 Be * e1 (e2 Rbe) + e2 Be * e2 (e2 Rbe));
             bus7 = (if mag_due
                     then (snd mb)\<lparr>Magnetometer_x := e0 (fst mb), Magnetometer_y := e1 (fst mb),
                                   Magnetometer_z := e2 (fst mb)\<rparr>
                     else bus6);
             last_mag_time1 = (if mag_due then clk_mag_set env else last_mag_time s);
             bus8 = bus7\<lparr>AttitudeSimulated_q := q1,
                        AttitudeSimulated_RPY := Quaternion2RPY lib q1,
                        AttitudeSimulated_Position := p2,
                        AttitudeSimulated_Velocity := v2\<rparr>;
             ev = [Gyros] @ (if overideAttitude then [AttitudeActual] else []) @ [Accels]
                  @ (if baro_due then [BaroAltitude] else [])
                  @ (if airspeed_due then [AirspeedSensor] else [])
                  @ (if gps_due then [GPSPosition] else [])
                  @ (if gps_vel_due then [GPSVelocity] else [])
                  @ (if mag_due then [MagBias, Magnetometer] else [])
                  @ [AttitudeSimulated];
             s1 = s\<lparr>pos := p2, vel := v2, ned_accel := a3, q := q1, rpy := rpy1,
                    baro_offset := baro_offset1, last_time := clk_last_time env, wind := wind1,
                    last_baro_time := last_baro_time1, gps_vel_drift := gps_vel_drift1,
                    last_gps_time := last_gps_time1, gps_drift := gps_drift1,
                    last_gps_vel_time := last_gps_vel_time1, last_mag_time := last_mag_time1,
                    last_airspeed_time := last_airspeed_time1\<rparr>
         in (s1, bus8, ev)))"

subsection \<open>The body of the task's loop\<close>

text \<open>The first \<^verbatim>\<open>switch\<close> of \<^verbatim>\<open>SensorsTask\<close>. The case labels of a C \<^verbatim>\<open>switch\<close> are
  distinct constants, so the order of the tests below does not matter.\<close>

definition select_sim_type :: "uavo_consts \<Rightarrow> uint8_t \<Rightarrow> sensor_sim_type" where
  "select_sim_type c AirframeType =
     (if AirframeType = SYSTEMSETTINGS_AIRFRAMETYPE_FIXEDWING c
         \<or> AirframeType = SYSTEMSETTINGS_AIRFRAMETYPE_FIXEDWINGELEVON c
         \<or> AirframeType = SYSTEMSETTINGS_AIRFRAMETYPE_FIXEDWINGVTAIL c
      then MODEL_AIRPLANE
      else if AirframeType = SYSTEMSETTINGS_AIRFRAMETYPE_QUADX c
         \<or> AirframeType = SYSTEMSETTINGS_AIRFRAMETYPE_QUADP c
         \<or> AirframeType = SYSTEMSETTINGS_AIRFRAMETYPE_VTOL c
         \<or> AirframeType = SYSTEMSETTINGS_AIRFRAMETYPE_HEXA c
         \<or> AirframeType = SYSTEMSETTINGS_AIRFRAMETYPE_OCTO c
      then MODEL_QUADCOPTER
      else MODEL_AGNOSTIC)"

text \<open>The variables of the module: the selected variant, the accelerometer's bias, the
  override flag and the persistent variables of the two dynamic models.\<close>

record sensors_module =
  sensor_sim_type_var :: sensor_sim_type
  accel_bias :: vec3
  overideAttitude :: bool
  quadcopter :: sim_state
  airplane :: airplane_state

text \<open>One iteration of the loop of \<^verbatim>\<open>SensorsTask\<close>: the selection of the variant from
  \<^verbatim>\<open>SystemSettings.AirframeType\<close>, then the second \<^verbatim>\<open>switch\<close>, which runs the variant.
  The watchdog, the loop's counters and the delay are not represented.\<close>

definition SensorsTask_step ::
  "coord_lib \<Rightarrow> uavo_consts \<Rightarrow> tick_env \<Rightarrow> sensors_module \<Rightarrow> uavobjects
   \<Rightarrow> sensors_module \<times> uavobjects \<times> uavobject list" where
  "SensorsTask_step lib c env m bus =
     (let m1 = m\<lparr>sensor_sim_type_var := select_sim_type c (SystemSettings_AirframeType bus)\<rparr>
      in case sensor_sim_type_var m1 of
           CONSTANT \<Rightarrow>
             (case simulateConstant bus of (bus1, ev) \<Rightarrow> (m1, bus1, ev))
         | MODEL_AGNOSTIC \<Rightarrow>
             (case simulateModelAgnostic lib env bus of (bus1, ev) \<Rightarrow> (m1, bus1, ev))
         | MODEL_QUADCOPTER \<Rightarrow>
             (case simulateModelQuadcopter lib c (overideAttitude m1) (accel_bias m1) env
                     (quadcopter m1) bus of
                (s1, bus1, ev) \<Rightarrow> (m1\<lparr>quadcopter := s1\<rparr>, bus1, ev))
         | MODEL_AIRPLANE \<Rightarrow>
             (case simulateModelAirplane lib c (overideAttitude m1) (accel_bias m1) env
                     (airplane m1) bus of
                (s1, bus1, ev) \<Rightarrow> (m1\<lparr>airplane := s1\<rparr>, bus1, ev)))"


subsection \<open>Notions used by the properties, and example inputs\<close>

text \<open>The airframe types that the first \<^verbatim>\<open>switch\<close> names.\<close>

definition recognised_airframe_types :: "uavo_consts \<Rightarrow> uint8_t set" where
  "recognised_airframe_types c =
     {SYSTEMSETTINGS_AIRFRAMETYPE_FIXEDWING c, SYSTEMSETTINGS_AIRFRAMETYPE_FIXEDWINGELEVON c,
      SYSTEMSETTINGS_AIRFRAMETYPE_FIXEDWINGVTAIL c, SYSTEMSETTINGS_AIRFRAMETYPE_QUADX c,
      SYSTEMSETTINGS_AIRFRAMETYPE_QUADP c, SYSTEMSETTINGS_AIRFRAMETYPE_VTOL c,
      SYSTEMSETTINGS_AIRFRAMETYPE_HEXA c, SYSTEMSETTINGS_AIRFRAMETYPE_OCTO c}"

text \<open>The components of the results of \<open>quadcopter_predict\<close> and \<open>airplane_predict\<close>
  that the properties name: the thrust, and the position, velocity and acceleration
  before the contact with the ground is tested.\<close>

definition quadcopter_thrust ::
  "cfloat \<times> cfloat \<times> vec3 \<times> quat \<times> mat3 \<times> vec3 \<times> (vec3 \<times> vec3 \<times> vec3) \<Rightarrow> cfloat" where
  "quadcopter_thrust r = fst (snd r)"

definition quadcopter_pva ::
  "cfloat \<times> cfloat \<times> vec3 \<times> quat \<times> mat3 \<times> vec3 \<times> (vec3 \<times> vec3 \<times> vec3)
   \<Rightarrow> vec3 \<times> vec3 \<times> vec3" where
  "quadcopter_pva r = snd (snd (snd (snd (snd (snd r)))))"

definition airplane_thrust ::
  "cfloat \<times> cfloat \<times> vec3 \<times> quat \<times> mat3 \<times> vec3 \<times> cfloat \<times> (vec3 \<times> vec3 \<times> vec3) \<Rightarrow> cfloat" where
  "airplane_thrust r = fst (snd r)"

definition airplane_pva ::
  "cfloat \<times> cfloat \<times> vec3 \<times> quat \<times> mat3 \<times> vec3 \<times> cfloat \<times> (vec3 \<times> vec3 \<times> vec3)
   \<Rightarrow> vec3 \<times> vec3 \<times> vec3" where
  "airplane_pva r = snd (snd (snd (snd (snd (snd (snd r))))))"

text \<open>The quaternion of a tick after the Euler step, before it is divided by its norm.\<close>

definition quadcopter_euler :: "uavo_consts \<Rightarrow> tick_env \<Rightarrow> sim_state \<Rightarrow> uavobjects \<Rightarrow> quat" where
  "quadcopter_euler c env s bus =
     euler_attitude (q s)
       (quadcopter_rates (FlightStatus_Armed bus = FLIGHTSTATUS_ARMED_ARMED c) bus (rpy s))
       (elapsed_dT (clk_dT env) (last_time s))"

definition airplane_euler :: "uavo_consts \<Rightarrow> tick_env \<Rightarrow> airplane_state \<Rightarrow> uavobjects \<Rightarrow> quat" where
  "airplane_euler c env s bus =
     euler_attitude (q s)
       (airplane_rates (FlightStatus_Armed bus = FLIGHTSTATUS_ARMED_ARMED c) bus (rpy s))
       (elapsed_dT (clk_dT env) (last_time s))"

text \<open>The squared norm of a quaternion, and the quaternions whose components are finite
  and whose squared norm is within \<open>tol\<close> of 1.\<close>

definition quat_norm2 :: "quat \<Rightarrow> cfloat" where
  "quat_norm2 qq = (case qq of (a, b, c, d) \<Rightarrow> a * a + b * b + c * c + d * d)"

fun unit_norm_within :: "real \<Rightarrow> quat \<Rightarrow> bool" where
  "unit_norm_within tol (Fin a, Fin b, Fin c, Fin d) =
     (\<bar>a * a + b * b + c * c + d * d - 1\<bar> \<le> tol)"
| "unit_norm_within tol qq = False"

text \<open>The time in seconds between a raw time and a reading of the clock.\<close>

definition elapsed_seconds :: "uint32_t \<Rightarrow> uint32_t \<Rightarrow> real" where
  "elapsed_seconds clock raw = real (unat (clock - raw)) / 1000000"

text \<open>Example inputs: values for the enumeration constants, objects that are all zero
  (disarmed, no command, level attitude, no home location), and a tick whose clock
  readings and random samples are all zero.\<close>

definition consts_example :: uavo_consts where
  "consts_example =
     \<lparr>SYSTEMSETTINGS_AIRFRAMETYPE_FIXEDWING = 0,
      SYSTEMSETTINGS_AIRFRAMETYPE_FIXEDWINGELEVON = 1,
      SYSTEMSETTINGS_AIRFRAMETYPE_FIXEDWINGVTAIL = 2,
      SYSTEMSETTINGS_AIRFRAMETYPE_QUADX = 5,
      SYSTEMSETTINGS_AIRFRAMETYPE_QUADP = 6,
      SYSTEMSETTINGS_AIRFRAMETYPE_VTOL = 3,
      SYSTEMSETTINGS_AIRFRAMETYPE_HEXA = 7,
      SYSTEMSETTINGS_AIRFRAMETYPE_OCTO = 8,
      FLIGHTSTATUS_ARMED_ARMED = 2,
      AIRSPEEDSENSOR_SENSORCONNECTED_TRUE = 1\<rparr>"

definition bus_zero :: uavobjects where
  "bus_zero =
     \<lparr>SystemSettings_AirframeType = 5, FlightStatus_Armed = 0,
      ActuatorDesired_Roll = Fin 0, ActuatorDesired_Pitch = Fin 0, ActuatorDesired_Yaw = Fin 0,
      ActuatorDesired_Throttle = Fin 0,
      RateDesired_Roll = Fin 0, RateDesired_Pitch = Fin 0, RateDesired_Yaw = Fin 0,
      AttitudeActual_q1 = Fin 1, AttitudeActual_q2 = Fin 0, AttitudeActual_q3 = Fin 0,
      AttitudeActual_q4 = Fin 0,
      AttitudeActual_Roll = Fin 0, AttitudeActual_Pitch = Fin 0, AttitudeActual_Yaw = Fin 0,
      GyrosBias_x = Fin 0, GyrosBias_y = Fin 0, GyrosBias_z = Fin 0,
      MagBias_x = Fin 0, MagBias_y = Fin 0, MagBias_z = Fin 0,
      HomeLocation_Be = zero3,
      Accels_x = Fin 0, Accels_y = Fin 0, Accels_z = Fin 0, Accels_temperature = Fin 0,
      Gyros_x = Fin 0, Gyros_y = Fin 0, Gyros_z = Fin 0,
      BaroAltitude_Altitude = Fin 0,
      GPSVelocity_North = Fin 0, GPSVelocity_East = Fin 0, GPSVelocity_Down = Fin 0,
      Magnetometer_x = Fin 0, Magnetometer_y = Fin 0, Magnetometer_z = Fin 0,
      AirspeedSensor_SensorConnected = 0, AirspeedSensor_CalibratedAirspeed = Fin 0,
      AttitudeSimulated_q = (Fin 1, Fin 0, Fin 0, Fin 0), AttitudeSimulated_RPY = zero3,
      AttitudeSimulated_Position = zero3, AttitudeSimulated_Velocity = zero3\<rparr>"

definition env_zero :: tick_env where
  "env_zero =
     \<lparr>clk_dT = 0, clk_last_time = 0, clk_baro = 0, clk_baro_set = 0, clk_airspeed = 0,
      clk_airspeed_set = 0, clk_gps = 0, clk_gps_set = 0, clk_gps_vel = 0, clk_gps_vel_set = 0,
      clk_mag = 0, clk_mag_set = 0,
      rnd_gyro = zero3, rnd_wind = zero3, rnd_baro = Fin 0, rnd_gps_vel_drift = zero3,
      rnd_gps_drift = zero3\<rparr>"

text \<open>A tick in which every reading of the clock is \<open>t\<close> and every random sample is
  zero.\<close>

definition env_at :: "uint32_t \<Rightarrow> tick_env" where
  "env_at t =
     \<lparr>clk_dT = t, clk_last_time = t, clk_baro = t, clk_baro_set = t, clk_airspeed = t,
      clk_airspeed_set = t, clk_gps = t, clk_gps_set = t, clk_gps_vel = t, clk_gps_vel_set = t,
      clk_mag = t, clk_mag_set = t,
      rnd_gyro = zero3, rnd_wind = zero3, rnd_baro = Fin 0, rnd_gps_vel_drift = zero3,
      rnd_gps_drift = zero3\<rparr>"

definition module_init :: sensors_module where
  "module_init =
     \<lparr>sensor_sim_type_var = CONSTANT, accel_bias = zero3, overideAttitude = False,
      quadcopter = quadcopter_init, airplane = airplane_init\<rparr>"


section \<open>Properties of the rounding\<close>

lemma rhe_cases: "round_half_even r = \<lfloor>r\<rfloor> \<or> round_half_even r = \<lfloor>r\<rfloor> + 1"
  by (simp add: round_half_even_def Let_def)

lemma rhe_of_int [simp]: "round_half_even (of_int k) = k"
  by (simp add: round_half_even_def)

lemma rhe_mono:
  assumes "r \<le> s"
  shows "round_half_even r \<le> round_half_even s"
proof (cases "\<lfloor>r\<rfloor> = \<lfloor>s\<rfloor>")
  case True
  then show ?thesis
    using assms by (auto simp: round_half_even_def Let_def)
next
  case False
  then have "\<lfloor>r\<rfloor> < \<lfloor>s\<rfloor>"
    using assms floor_mono [of r s] by linarith
  moreover have "round_half_even r \<le> \<lfloor>r\<rfloor> + 1"
    using rhe_cases [of r] by linarith
  moreover have "\<lfloor>s\<rfloor> \<le> round_half_even s"
    using rhe_cases [of s] by linarith
  ultimately show ?thesis by linarith
qed

lemma rhe_le: "r \<le> of_int k \<Longrightarrow> round_half_even r \<le> k"
  using rhe_mono [of r "of_int k"] by simp

lemma rhe_ge: "of_int k \<le> r \<Longrightarrow> k \<le> round_half_even r"
  using rhe_mono [of "of_int k" r] by simp

lemma rhe_minus: "round_half_even (- r) = - round_half_even r"
proof (cases "r = of_int \<lfloor>r\<rfloor>")
  case True
  then obtain k where "r = of_int k" ..
  then show ?thesis
    by (simp flip: of_int_minus)
next
  case False
  then have fl: "\<lfloor>- r\<rfloor> = - \<lfloor>r\<rfloor> - 1"
    by (metis ceiling_def ceiling_altdef diff_minus_eq_add minus_add_cancel minus_diff_eq uminus_add_conv_diff)
  show ?thesis
    unfolding round_half_even_def Let_def fl
    by (cases "even \<lfloor>r\<rfloor>") (auto simp: algebra_simps)
qed

lemma binade_search_ge: "e \<le> binade_search n e x"
proof (induction n arbitrary: e)
  case 0
  show ?case by simp
next
  case (Suc n)
  show ?case
    using Suc [of "e + 1"] by simp
qed

lemma binade_search_le: "binade_search n e x \<le> e + int n"
proof (induction n arbitrary: e)
  case 0
  show ?case by simp
next
  case (Suc n)
  show ?case
    using Suc [of "e + 1"] by simp
qed

lemma binade_search_lower:
  "e < binade_search n e x \<Longrightarrow> 2 powi (binade_search n e x) \<le> x"
proof (induction n arbitrary: e)
  case 0
  then show ?case by simp
next
  case (Suc n)
  then have up: "2 powi (e + 1) \<le> x" and r: "binade_search (Suc n) e x = binade_search n (e + 1) x"
    by (auto split: if_splits)
  show ?case
  proof (cases "e + 1 < binade_search n (e + 1) x")
    case True
    then show ?thesis using Suc.IH [of "e + 1"] r by simp
  next
    case False
    then have "binade_search n (e + 1) x = e + 1"
      using binade_search_ge [of "e + 1" n x] by linarith
    then show ?thesis using up r by simp
  qed
qed

lemma binade_search_upper:
  "binade_search n e x < e + int n \<Longrightarrow> x < 2 powi (binade_search n e x + 1)"
proof (induction n arbitrary: e)
  case 0
  then show ?case by simp
next
  case (Suc n)
  show ?case
  proof (cases "2 powi (e + 1) \<le> x")
    case True
    then have r: "binade_search (Suc n) e x = binade_search n (e + 1) x" by simp
    with Suc.prems have "binade_search n (e + 1) x < (e + 1) + int n" by simp
    from Suc.IH [OF this] show ?thesis using r by simp
  next
    case False
    then show ?thesis by simp
  qed
qed

lemma binade_search_mono:
  "x \<le> y \<Longrightarrow> binade_search n e x \<le> binade_search n e y"
proof (induction n arbitrary: e)
  case 0
  show ?case by simp
next
  case (Suc n)
  show ?case
  proof (cases "2 powi (e + 1) \<le> x")
    case True
    with Suc.prems have "2 powi (e + 1) \<le> y" by linarith
    with True show ?thesis using Suc.IH [OF Suc.prems, of "e + 1"] by simp
  next
    case False
    then show ?thesis using binade_search_ge [of e "Suc n" y] by simp
  qed
qed

lemma binade_bounds: "- 126 \<le> binade x" "binade x \<le> 127"
  using binade_search_ge [of "- 126" 253 "\<bar>x\<bar>"] binade_search_le [of 253 "- 126" "\<bar>x\<bar>"]
  by (simp_all add: binade_def)

lemma binade_lower: "- 126 < binade x \<Longrightarrow> 2 powi (binade x) \<le> \<bar>x\<bar>"
  unfolding binade_def by (rule binade_search_lower)

lemma binade_upper: "binade x < 127 \<Longrightarrow> \<bar>x\<bar> < 2 powi (binade x + 1)"
  unfolding binade_def by (rule binade_search_upper) simp

lemma binade_mono: "\<bar>x\<bar> \<le> \<bar>y\<bar> \<Longrightarrow> binade x \<le> binade y"
  unfolding binade_def by (rule binade_search_mono)

lemma binade_minus [simp]: "binade (- x) = binade x"
  by (simp add: binade_def)

lemma binade_eqI:
  assumes "2 powi e \<le> \<bar>x\<bar>" "\<bar>x\<bar> < 2 powi (e + 1)" "- 126 \<le> e" "e \<le> 127"
  shows "binade x = e"
proof (rule ccontr)
  assume ne: "binade x \<noteq> e"
  show False
  proof (cases "binade x < e")
    case True
    then have "binade x < 127" using assms(4) by linarith
    then have "\<bar>x\<bar> < 2 powi (binade x + 1)" by (rule binade_upper)
    also have "\<dots> \<le> 2 powi e"
      using True by (intro power_int_increasing) auto
    finally show False using assms(1) by linarith
  next
    case False
    with ne have gt: "e < binade x" by linarith
    then have "- 126 < binade x" using assms(3) by linarith
    then have "2 powi (binade x) \<le> \<bar>x\<bar>" by (rule binade_lower)
    moreover have "(2::real) powi (e + 1) \<le> 2 powi (binade x)"
      using gt by (intro power_int_increasing) auto
    ultimately show False using assms(2) by linarith
  qed
qed

lemma binade_small: "\<bar>x\<bar> < 2 powi (- 125) \<Longrightarrow> binade x = - 126"
proof (rule ccontr)
  assume a: "\<bar>x\<bar> < 2 powi (- 125)" and ne: "binade x \<noteq> - 126"
  then have gt: "- 126 < binade x" using binade_bounds(1) [of x] by linarith
  then have "2 powi (binade x) \<le> \<bar>x\<bar>" by (rule binade_lower)
  moreover have "(2::real) powi (- 125) \<le> 2 powi (binade x)"
    using gt by (intro power_int_increasing) auto
  ultimately show False using a by linarith
qed

lemma ulp32_pos [simp]: "0 < ulp32 x"
  by (simp add: ulp32_def)

lemma ulp32_nonneg [simp]: "0 \<le> ulp32 x"
  by (simp add: ulp32_def)

lemma ulp32_minus [simp]: "ulp32 (- x) = ulp32 x"
  by (simp add: ulp32_def)

lemma round32_minus: "round32 (- x) = - round32 x"
  by (simp add: round32_def rhe_minus)

lemma round32_nonneg: "0 \<le> x \<Longrightarrow> 0 \<le> round32 x"
proof -
  assume "0 \<le> x"
  then have "of_int 0 \<le> x / ulp32 x" by simp
  then have "0 \<le> round_half_even (x / ulp32 x)" by (rule rhe_ge)
  then show ?thesis by (simp add: round32_def)
qed

lemma two_powi_split: "(2::real) powi (e + 1) = 2 ^ 24 * 2 powi (e - 23)"
proof -
  have eq: "e + 1 = 24 + (e - 23)" by simp
  show ?thesis
    by (subst eq, subst power_int_add) auto
qed

lemma two_powi_split': "(2::real) powi e = 2 ^ 23 * 2 powi (e - 23)"
proof -
  have eq: "e = 23 + (e - 23)" by simp
  show ?thesis
    by (subst eq, subst power_int_add) auto
qed

lemma round32_upper:
  assumes "0 \<le> x" "binade x < 127"
  shows "round32 x \<le> 2 powi (binade x + 1)"
proof -
  have "x < 2 powi (binade x + 1)"
    using binade_upper [OF assms(2)] assms(1) by simp
  then have "x < 2 ^ 24 * ulp32 x"
    by (simp add: two_powi_split ulp32_def)
  then have "x / ulp32 x \<le> of_int (2 ^ 24)"
    by (simp add: pos_divide_le_eq)
  then have "round_half_even (x / ulp32 x) \<le> 2 ^ 24" by (rule rhe_le)
  then have "real_of_int (round_half_even (x / ulp32 x)) \<le> 2 ^ 24"
    by (metis of_int_le_iff of_int_numeral of_int_power)
  then have "round32 x \<le> 2 ^ 24 * ulp32 x"
    by (simp add: round32_def)
  then show ?thesis
    by (simp add: two_powi_split ulp32_def)
qed

lemma round32_lower:
  assumes "0 \<le> x" "- 126 < binade x"
  shows "2 powi (binade x) \<le> round32 x"
proof -
  have "2 powi (binade x) \<le> x"
    using binade_lower [OF assms(2)] assms(1) by simp
  then have "2 ^ 23 * ulp32 x \<le> x"
    using two_powi_split' [of "binade x"] by (simp add: ulp32_def)
  then have "of_int (2 ^ 23) \<le> x / ulp32 x"
    by (simp add: pos_le_divide_eq)
  then have "2 ^ 23 \<le> round_half_even (x / ulp32 x)" by (rule rhe_ge)
  then have "2 ^ 23 \<le> real_of_int (round_half_even (x / ulp32 x))"
    by (metis of_int_le_iff of_int_numeral of_int_power)
  then have "2 ^ 23 * ulp32 x \<le> round32 x"
    by (simp add: round32_def)
  then show ?thesis
    using two_powi_split' [of "binade x"] by (simp add: ulp32_def)
qed

lemma round32_mono_nonneg:
  assumes "0 \<le> x" "x \<le> y"
  shows "round32 x \<le> round32 y"
proof (cases "binade x = binade y")
  case True
  then have u: "ulp32 x = ulp32 y" by (simp add: ulp32_def)
  have "x / ulp32 y \<le> y / ulp32 y"
    using assms(2) by (simp add: divide_right_mono)
  then have "round_half_even (x / ulp32 y) \<le> round_half_even (y / ulp32 y)"
    by (rule rhe_mono)
  then show ?thesis
    by (simp add: round32_def u)
next
  case False
  have "binade x \<le> binade y"
    using assms by (intro binade_mono) simp
  with False have lt: "binade x < binade y" by linarith
  have y0: "0 \<le> y" using assms by linarith
  have "round32 x \<le> 2 powi (binade x + 1)"
    using assms(1) lt binade_bounds(2) [of y] by (intro round32_upper) auto
  also have "\<dots> \<le> 2 powi (binade y)"
    using lt by (intro power_int_increasing) auto
  also have "\<dots> \<le> round32 y"
    using y0 lt binade_bounds(1) [of x] by (intro round32_lower) auto
  finally show ?thesis .
qed

lemma round32_mono:
  assumes "x \<le> y"
  shows "round32 x \<le> round32 y"
proof -
  consider "0 \<le> x" | "y \<le> 0" | "x < 0" "0 < y" by linarith
  then show ?thesis
  proof cases
    case 1
    then show ?thesis using assms by (rule round32_mono_nonneg)
  next
    case 2
    then have "round32 (- y) \<le> round32 (- x)"
      using assms by (intro round32_mono_nonneg) auto
    then show ?thesis by (simp add: round32_minus)
  next
    case 3
    have "0 \<le> round32 (- x)" using 3 by (intro round32_nonneg) auto
    moreover have "0 \<le> round32 y" using 3 by (intro round32_nonneg) auto
    ultimately show ?thesis by (simp add: round32_minus)
  qed
qed

lemma rhe_0 [simp]: "round_half_even 0 = 0"
  by (simp add: round_half_even_def)

lemma round32_0 [simp]: "round32 0 = 0"
  by (simp add: round32_def)

lemma rhe_2_23: "round_half_even 8388608 = 8388608"
  by (simp add: round_half_even_def)

lemma round32_two_powi:
  assumes "- 126 \<le> k" "k \<le> 127"
  shows "round32 (2 powi k) = 2 powi k"
proof -
  have b: "binade (2 powi k) = k"
    using assms by (intro binade_eqI) (auto intro!: power_int_strict_increasing)
  have s: "(2::real) powi k = 8388608 * 2 powi (k - 23)"
    using two_powi_split' [of k] by simp
  have q: "(2::real) powi k / 2 powi (k - 23) = 8388608"
    by (subst s) simp
  have "round32 (2 powi k) =
          of_int (round_half_even (2 powi k / 2 powi (k - 23))) * 2 powi (k - 23)"
    by (simp only: round32_def ulp32_def b)
  also have "\<dots> = 8388608 * 2 powi (k - 23)"
    by (simp only: q rhe_2_23)
  also have "\<dots> = 2 powi k"
    by (rule s [symmetric])
  finally show ?thesis .
qed

lemma round32_1 [simp]: "round32 1 = 1"
  using round32_two_powi [of 0] by simp

lemma round32_tie_above_1: "round32 (1 + 1 / 2 ^ 24) = 1"
proof -
  have b: "binade (1 + 1 / 2 ^ 24) = 0"
    by (intro binade_eqI) auto
  have q: "(1 + 1 / 2 ^ 24) / 2 powi (0 - 23) = (16777217 / 2 :: real)"
    by (simp add: power_int_minus field_simps)
  have r: "round_half_even (16777217 / 2) = 8388608"
  proof -
    have "\<lfloor>16777217 / 2 :: real\<rfloor> = 8388608" by linarith
    then show ?thesis
      by (simp add: round_half_even_def Let_def)
  qed
  have "round32 (1 + 1 / 2 ^ 24) =
          of_int (round_half_even ((1 + 1 / 2 ^ 24) / 2 powi (0 - 23))) * 2 powi (0 - 23)"
    by (simp only: round32_def ulp32_def b)
  also have "\<dots> = of_int 8388608 * 2 powi (0 - 23)"
    by (simp only: q r)
  also have "\<dots> = 1"
    by (simp add: power_int_minus)
  finally show ?thesis .
qed

lemma round32_le_two_powi:
  assumes "x \<le> 2 powi k" "- 126 \<le> k" "k \<le> 127"
  shows "round32 x \<le> 2 powi k"
  using round32_mono [OF assms(1)] round32_two_powi [OF assms(2,3)] by simp

lemma round32_exact:
  assumes "x / ulp32 x = of_int m"
  shows "round32 x = x"
proof -
  have "round32 x = of_int m * ulp32 x"
    by (simp only: round32_def assms rhe_of_int)
  also have "\<dots> = (x / ulp32 x) * ulp32 x"
    by (simp only: assms)
  also have "\<dots> = x"
  proof -
    have "ulp32 x \<noteq> 0"
      using ulp32_pos [of x] by linarith
    then show ?thesis
      by simp
  qed
  finally show ?thesis .
qed

lemma round32_17_16: "round32 (17 / 16) = 17 / 16"
proof -
  have b: "binade (17 / 16) = 0"
    by (intro binade_eqI) auto
  have "(17 / 16) / ulp32 (17 / 16) = (of_int 8912896 :: real)"
    by (simp add: ulp32_def b power_int_minus)
  then show ?thesis
    by (rule round32_exact)
qed

lemma round32_20: "round32 20 = 20"
proof -
  have b: "binade 20 = 4"
    by (intro binade_eqI) auto
  have "20 / ulp32 20 = (of_int 10485760 :: real)"
    by (simp add: ulp32_def b power_int_minus)
  then show ?thesis
    by (rule round32_exact)
qed

lemma binade64_bounds: "- 1022 \<le> binade64 x" "binade64 x \<le> 1023"
  using binade_search_ge [of "- 1022" 2045 "\<bar>x\<bar>"] binade_search_le [of 2045 "- 1022" "\<bar>x\<bar>"]
  by (simp_all add: binade64_def)

lemma binade64_lower: "- 1022 < binade64 x \<Longrightarrow> 2 powi (binade64 x) \<le> \<bar>x\<bar>"
  unfolding binade64_def by (rule binade_search_lower)

lemma binade64_upper: "binade64 x < 1023 \<Longrightarrow> \<bar>x\<bar> < 2 powi (binade64 x + 1)"
  unfolding binade64_def by (rule binade_search_upper) simp

lemma binade64_mono: "\<bar>x\<bar> \<le> \<bar>y\<bar> \<Longrightarrow> binade64 x \<le> binade64 y"
  unfolding binade64_def by (rule binade_search_mono)

lemma binade64_minus [simp]: "binade64 (- x) = binade64 x"
  by (simp add: binade64_def)

lemma binade64_eqI:
  assumes "2 powi e \<le> \<bar>x\<bar>" "\<bar>x\<bar> < 2 powi (e + 1)" "- 1022 \<le> e" "e \<le> 1023"
  shows "binade64 x = e"
proof (rule ccontr)
  assume ne: "binade64 x \<noteq> e"
  show False
  proof (cases "binade64 x < e")
    case True
    then have "binade64 x < 1023" using assms(4) by linarith
    then have "\<bar>x\<bar> < 2 powi (binade64 x + 1)" by (rule binade64_upper)
    also have "\<dots> \<le> 2 powi e"
      using True by (intro power_int_increasing) auto
    finally show False using assms(1) by linarith
  next
    case False
    with ne have gt: "e < binade64 x" by linarith
    then have "- 1022 < binade64 x" using assms(3) by linarith
    then have "2 powi (binade64 x) \<le> \<bar>x\<bar>" by (rule binade64_lower)
    moreover have "(2::real) powi (e + 1) \<le> 2 powi (binade64 x)"
      using gt by (intro power_int_increasing) auto
    ultimately show False using assms(2) by linarith
  qed
qed

lemma binade64_small: "\<bar>x\<bar> < 2 powi (- 1021) \<Longrightarrow> binade64 x = - 1022"
proof (rule ccontr)
  assume a: "\<bar>x\<bar> < 2 powi (- 1021)" and ne: "binade64 x \<noteq> - 1022"
  then have gt: "- 1022 < binade64 x" using binade64_bounds(1) [of x] by linarith
  then have "2 powi (binade64 x) \<le> \<bar>x\<bar>" by (rule binade64_lower)
  moreover have "(2::real) powi (- 1021) \<le> 2 powi (binade64 x)"
    using gt by (intro power_int_increasing) auto
  ultimately show False using a by linarith
qed

lemma ulp64_pos [simp]: "0 < ulp64 x"
  by (simp add: ulp64_def)

lemma ulp64_nonneg [simp]: "0 \<le> ulp64 x"
  by (simp add: ulp64_def)

lemma ulp64_minus [simp]: "ulp64 (- x) = ulp64 x"
  by (simp add: ulp64_def)

lemma round64_minus: "round64 (- x) = - round64 x"
  by (simp add: round64_def rhe_minus)

lemma round64_nonneg: "0 \<le> x \<Longrightarrow> 0 \<le> round64 x"
proof -
  assume "0 \<le> x"
  then have "of_int 0 \<le> x / ulp64 x" by simp
  then have "0 \<le> round_half_even (x / ulp64 x)" by (rule rhe_ge)
  then show ?thesis by (simp add: round64_def)
qed

lemma two_powi_split64: "(2::real) powi (e + 1) = 2 ^ 53 * 2 powi (e - 52)"
proof -
  have eq: "e + 1 = 53 + (e - 52)" by simp
  show ?thesis
    by (subst eq, subst power_int_add) auto
qed

lemma two_powi_split64': "(2::real) powi e = 2 ^ 52 * 2 powi (e - 52)"
proof -
  have eq: "e = 52 + (e - 52)" by simp
  show ?thesis
    by (subst eq, subst power_int_add) auto
qed

lemma round64_upper:
  assumes "0 \<le> x" "binade64 x < 1023"
  shows "round64 x \<le> 2 powi (binade64 x + 1)"
proof -
  have "x < 2 powi (binade64 x + 1)"
    using binade64_upper [OF assms(2)] assms(1) by simp
  then have "x < 2 ^ 53 * ulp64 x"
    by (simp add: two_powi_split64 ulp64_def)
  then have "x / ulp64 x \<le> of_int (2 ^ 53)"
    by (simp add: pos_divide_le_eq)
  then have "round_half_even (x / ulp64 x) \<le> 2 ^ 53" by (rule rhe_le)
  then have "real_of_int (round_half_even (x / ulp64 x)) \<le> 2 ^ 53"
    by (metis of_int_le_iff of_int_numeral of_int_power)
  then have "round64 x \<le> 2 ^ 53 * ulp64 x"
    by (simp add: round64_def)
  then show ?thesis
    by (simp add: two_powi_split64 ulp64_def)
qed

lemma round64_lower:
  assumes "0 \<le> x" "- 1022 < binade64 x"
  shows "2 powi (binade64 x) \<le> round64 x"
proof -
  have "2 powi (binade64 x) \<le> x"
    using binade64_lower [OF assms(2)] assms(1) by simp
  then have "2 ^ 52 * ulp64 x \<le> x"
    using two_powi_split64' [of "binade64 x"] by (simp add: ulp64_def)
  then have "of_int (2 ^ 52) \<le> x / ulp64 x"
    by (simp add: pos_le_divide_eq)
  then have "2 ^ 52 \<le> round_half_even (x / ulp64 x)" by (rule rhe_ge)
  then have "2 ^ 52 \<le> real_of_int (round_half_even (x / ulp64 x))"
    by (metis of_int_le_iff of_int_numeral of_int_power)
  then have "2 ^ 52 * ulp64 x \<le> round64 x"
    by (simp add: round64_def)
  then show ?thesis
    using two_powi_split64' [of "binade64 x"] by (simp add: ulp64_def)
qed

lemma round64_mono_nonneg:
  assumes "0 \<le> x" "x \<le> y"
  shows "round64 x \<le> round64 y"
proof (cases "binade64 x = binade64 y")
  case True
  then have u: "ulp64 x = ulp64 y" by (simp add: ulp64_def)
  have "x / ulp64 y \<le> y / ulp64 y"
    using assms(2) by (simp add: divide_right_mono)
  then have "round_half_even (x / ulp64 y) \<le> round_half_even (y / ulp64 y)"
    by (rule rhe_mono)
  then show ?thesis
    by (simp add: round64_def u)
next
  case False
  have "binade64 x \<le> binade64 y"
    using assms by (intro binade64_mono) simp
  with False have lt: "binade64 x < binade64 y" by linarith
  have y0: "0 \<le> y" using assms by linarith
  have "round64 x \<le> 2 powi (binade64 x + 1)"
    using assms(1) lt binade64_bounds(2) [of y] by (intro round64_upper) auto
  also have "\<dots> \<le> 2 powi (binade64 y)"
    using lt by (intro power_int_increasing) auto
  also have "\<dots> \<le> round64 y"
    using y0 lt binade64_bounds(1) [of x] by (intro round64_lower) auto
  finally show ?thesis .
qed

lemma round64_mono:
  assumes "x \<le> y"
  shows "round64 x \<le> round64 y"
proof -
  consider "0 \<le> x" | "y \<le> 0" | "x < 0" "0 < y" by linarith
  then show ?thesis
  proof cases
    case 1
    then show ?thesis using assms by (rule round64_mono_nonneg)
  next
    case 2
    then have "round64 (- y) \<le> round64 (- x)"
      using assms by (intro round64_mono_nonneg) auto
    then show ?thesis by (simp add: round64_minus)
  next
    case 3
    have "0 \<le> round64 (- x)" using 3 by (intro round64_nonneg) auto
    moreover have "0 \<le> round64 y" using 3 by (intro round64_nonneg) auto
    ultimately show ?thesis by (simp add: round64_minus)
  qed
qed

lemma round64_exact:
  assumes "x / ulp64 x = of_int m"
  shows "round64 x = x"
proof -
  have "round64 x = of_int m * ulp64 x"
    by (simp only: round64_def assms rhe_of_int)
  also have "\<dots> = (x / ulp64 x) * ulp64 x"
    by (simp only: assms)
  also have "\<dots> = x"
  proof -
    have "ulp64 x \<noteq> 0"
      using ulp64_pos [of x] by linarith
    then show ?thesis
      by simp
  qed
  finally show ?thesis .
qed

lemma round32_eval:
  assumes "binade x = e" "round_half_even (x / 2 powi (e - 23)) = m"
  shows "round32 x = of_int m * 2 powi (e - 23)"
  using assms by (simp add: round32_def ulp32_def)

lemma round64_eval:
  assumes "binade64 x = e" "round_half_even (x / 2 powi (e - 52)) = m"
  shows "round64 x = of_int m * 2 powi (e - 52)"
  using assms by (simp add: round64_def ulp64_def)

lemma round32_0_02: "round32 0.02 = 5368709 / 2 ^ 28"
proof -
  have b: "binade 0.02 = - 6"
    by (rule binade_eqI) (simp_all add: power_int_minus)
  have r: "round_half_even (0.02 / 2 powi (- 6 - 23)) = 10737418"
    by (simp add: round_half_even_def Let_def power_int_minus)
  show ?thesis
    using round32_eval [OF b r] by (simp add: power_int_minus)
qed

lemma round32_304_8: "round32 304.8 = 4993843 / 2 ^ 14"
proof -
  have b: "binade 304.8 = 8"
    by (rule binade_eqI) (simp_all add: power_int_minus)
  have r: "round_half_even (304.8 / 2 powi (8 - 23)) = 9987686"
    by (simp add: round_half_even_def Let_def power_int_minus)
  show ?thesis
    using round32_eval [OF b r] by (simp add: power_int_minus)
qed

lemma round64_0_1: "round64 0.1 = 3602879701896397 / 2 ^ 55"
proof -
  have b: "binade64 0.1 = - 4"
    by (rule binade64_eqI) (simp_all add: power_int_minus)
  have r: "round_half_even (0.1 / 2 powi (- 4 - 52)) = 7205759403792794"
    by (simp add: round_half_even_def Let_def power_int_minus)
  show ?thesis
    using round64_eval [OF b r] by (simp add: power_int_minus)
qed

lemma round32_GPS: "round32 (3602879701896397 / 2 ^ 55) = 13421773 / 2 ^ 27"
proof -
  have b: "binade (3602879701896397 / 2 ^ 55) = - 4"
    by (rule binade_eqI) (simp_all add: power_int_minus)
  have r: "round_half_even ((3602879701896397 / 2 ^ 55) / 2 powi (- 4 - 23)) = 13421773"
    by (simp add: round_half_even_def Let_def power_int_minus)
  show ?thesis
    using round32_eval [OF b r] by (simp add: power_int_minus)
qed

lemma round64_1_75: "round64 (1 / 75) = 7686143364045647 / 2 ^ 59"
proof -
  have b: "binade64 (1 / 75) = - 7"
    by (rule binade64_eqI) (simp_all add: power_int_minus)
  have r: "round_half_even ((1 / 75) / 2 powi (- 7 - 52)) = 7686143364045647"
    by (simp add: round_half_even_def Let_def power_int_minus)
  show ?thesis
    using round64_eval [OF b r] by (simp add: power_int_minus)
qed

lemma round32_MAG: "round32 (7686143364045647 / 2 ^ 59) = 7158279 / 2 ^ 29"
proof -
  have b: "binade (7686143364045647 / 2 ^ 59) = - 7"
    by (rule binade_eqI) (simp_all add: power_int_minus)
  have r: "round_half_even ((7686143364045647 / 2 ^ 59) / 2 powi (- 7 - 23)) = 14316558"
    by (simp add: round_half_even_def Let_def power_int_minus)
  show ?thesis
    using round32_eval [OF b r] by (simp add: power_int_minus)
qed

lemma round64_1_20: "round64 (1 / 20) = 3602879701896397 / 2 ^ 56"
proof -
  have b: "binade64 (1 / 20) = - 5"
    by (rule binade64_eqI) (simp_all add: power_int_minus)
  have r: "round_half_even ((1 / 20) / 2 powi (- 5 - 52)) = 7205759403792794"
    by (simp add: round_half_even_def Let_def power_int_minus)
  show ?thesis
    using round64_eval [OF b r] by (simp add: power_int_minus)
qed

lemma round32_BARO: "round32 (3602879701896397 / 2 ^ 56) = 13421773 / 2 ^ 28"
proof -
  have b: "binade (3602879701896397 / 2 ^ 56) = - 5"
    by (rule binade_eqI) (simp_all add: power_int_minus)
  have r: "round_half_even ((3602879701896397 / 2 ^ 56) / 2 powi (- 5 - 23)) = 13421773"
    by (simp add: round_half_even_def Let_def power_int_minus)
  show ?thesis
    using round32_eval [OF b r] by (simp add: power_int_minus)
qed

lemma round64_fixed:
  assumes "binade64 x = e" "x / 2 powi (e - 52) = of_int m"
  shows "round64 x = x"
  by (rule round64_exact [of x m]) (simp add: ulp64_def assms)

lemma round64_threshold:
  fixes n K :: nat
  assumes "round64 p = p" "round64 d = d" "p < d"
    and "real K / 1000000 \<le> p" "d \<le> real (Suc K) / 1000000"
  shows "p < round64 (real n / 1000000) \<longleftrightarrow> K < n"
proof
  assume a: "p < round64 (real n / 1000000)"
  show "K < n"
  proof (rule ccontr)
    assume "\<not> K < n"
    then have "real n / 1000000 \<le> real K / 1000000"
      by (simp add: divide_right_mono)
    then have "real n / 1000000 \<le> p"
      using assms(4) by linarith
    then have "round64 (real n / 1000000) \<le> round64 p"
      by (rule round64_mono)
    then show False
      using a assms(1) by linarith
  qed
next
  assume "K < n"
  then have "real (Suc K) / 1000000 \<le> real n / 1000000"
    by (simp add: divide_right_mono)
  then have "d \<le> real n / 1000000"
    using assms(5) by linarith
  then have "round64 d \<le> round64 (real n / 1000000)"
    by (rule round64_mono)
  then show "p < round64 (real n / 1000000)"
    using assms(2,3) by linarith
qed

lemma real_period_threshold:
  fixes n K :: nat
  assumes "real K / 1000000 < p" "p \<le> real (Suc K) / 1000000"
  shows "p \<le> real n / 1000000 \<longleftrightarrow> K < n"
proof
  assume a: "p \<le> real n / 1000000"
  then have "real K / 1000000 < real n / 1000000"
    using assms(1) by linarith
  then show "K < n"
    by simp
next
  assume "K < n"
  then have "real (Suc K) / 1000000 \<le> real n / 1000000"
    by (simp add: divide_right_mono)
  then show "p \<le> real n / 1000000"
    using assms(2) by linarith
qed

lemma round64_GPS_fixed:
  "round64 (13421773 / 2 ^ 27) = 13421773 / 2 ^ 27"
  "round64 (13421774 / 2 ^ 27) = 13421774 / 2 ^ 27"
proof -
  have b: "binade64 (13421773 / 2 ^ 27) = - 4" "binade64 (13421774 / 2 ^ 27) = - 4"
    by (rule binade64_eqI; simp add: power_int_minus)+
  show "round64 (13421773 / 2 ^ 27) = 13421773 / 2 ^ 27"
    by (rule round64_fixed [OF b(1), of "13421773 * 2 ^ 29"]) (simp add: power_int_minus)
  show "round64 (13421774 / 2 ^ 27) = 13421774 / 2 ^ 27"
    by (rule round64_fixed [OF b(2), of "13421774 * 2 ^ 29"]) (simp add: power_int_minus)
qed

lemma round64_BARO_fixed:
  "round64 (13421773 / 2 ^ 28) = 13421773 / 2 ^ 28"
  "round64 (13421774 / 2 ^ 28) = 13421774 / 2 ^ 28"
proof -
  have b: "binade64 (13421773 / 2 ^ 28) = - 5" "binade64 (13421774 / 2 ^ 28) = - 5"
    by (rule binade64_eqI; simp add: power_int_minus)+
  show "round64 (13421773 / 2 ^ 28) = 13421773 / 2 ^ 28"
    by (rule round64_fixed [OF b(1), of "13421773 * 2 ^ 29"]) (simp add: power_int_minus)
  show "round64 (13421774 / 2 ^ 28) = 13421774 / 2 ^ 28"
    by (rule round64_fixed [OF b(2), of "13421774 * 2 ^ 29"]) (simp add: power_int_minus)
qed

lemma round64_MAG_fixed:
  "round64 (7158279 / 2 ^ 29) = 7158279 / 2 ^ 29"
  "round64 (7158280 / 2 ^ 29) = 7158280 / 2 ^ 29"
proof -
  have b: "binade64 (7158279 / 2 ^ 29) = - 7" "binade64 (7158280 / 2 ^ 29) = - 7"
    by (rule binade64_eqI; simp add: power_int_minus)+
  show "round64 (7158279 / 2 ^ 29) = 7158279 / 2 ^ 29"
    by (rule round64_fixed [OF b(1), of "7158279 * 2 ^ 30"]) (simp add: power_int_minus)
  show "round64 (7158280 / 2 ^ 29) = 7158280 / 2 ^ 29"
    by (rule round64_fixed [OF b(2), of "7158280 * 2 ^ 30"]) (simp add: power_int_minus)
qed

lemma period_tests:
  fixes n :: nat
  shows "13421773 / 2 ^ 27 < round64 (real n / 1000000) \<longleftrightarrow> 100000 < n"
    and "13421773 / 2 ^ 28 < round64 (real n / 1000000) \<longleftrightarrow> 50000 < n"
    and "7158279 / 2 ^ 29 < round64 (real n / 1000000) \<longleftrightarrow> 13333 < n"
proof -
  show "13421773 / 2 ^ 27 < round64 (real n / 1000000) \<longleftrightarrow> 100000 < n"
    by (rule round64_threshold [OF round64_GPS_fixed]) simp_all
  show "13421773 / 2 ^ 28 < round64 (real n / 1000000) \<longleftrightarrow> 50000 < n"
    by (rule round64_threshold [OF round64_BARO_fixed]) simp_all
  show "7158279 / 2 ^ 29 < round64 (real n / 1000000) \<longleftrightarrow> 13333 < n"
    by (rule round64_threshold [OF round64_MAG_fixed]) simp_all
qed

lemma period_reached:
  fixes n :: nat
  shows "13421773 / 2 ^ 27 \<le> real n / 1000000 \<longleftrightarrow> 100000 < n"
    and "13421773 / 2 ^ 28 \<le> real n / 1000000 \<longleftrightarrow> 50000 < n"
    and "7158279 / 2 ^ 29 \<le> real n / 1000000 \<longleftrightarrow> 13333 < n"
proof -
  show "13421773 / 2 ^ 27 \<le> real n / 1000000 \<longleftrightarrow> 100000 < n"
    by (rule real_period_threshold) simp_all
  show "13421773 / 2 ^ 28 \<le> real n / 1000000 \<longleftrightarrow> 50000 < n"
    by (rule real_period_threshold) simp_all
  show "7158279 / 2 ^ 29 \<le> real n / 1000000 \<longleftrightarrow> 13333 < n"
    by (rule real_period_threshold) simp_all
qed

lemma rhe_err: "\<bar>of_int (round_half_even r) - r\<bar> \<le> 1 / 2"
  unfolding round_half_even_def Let_def by (auto; linarith)

lemma round32_err_ulp: "\<bar>round32 x - x\<bar> \<le> ulp32 x / 2"
proof -
  have "ulp32 x \<noteq> 0"
    using ulp32_pos [of x] by linarith
  then have "round32 x - x = (of_int (round_half_even (x / ulp32 x)) - x / ulp32 x) * ulp32 x"
    by (simp add: round32_def field_simps)
  then have "\<bar>round32 x - x\<bar> = \<bar>of_int (round_half_even (x / ulp32 x)) - x / ulp32 x\<bar> * ulp32 x"
    by (simp add: abs_mult)
  also have "\<dots> \<le> (1 / 2) * ulp32 x"
    by (intro mult_right_mono rhe_err) simp
  finally show ?thesis by simp
qed

lemma ulp32_le: "ulp32 x \<le> \<bar>x\<bar> / 2 ^ 23 + 1 / 2 ^ 149"
proof (cases "- 126 < binade x")
  case True
  then have "2 powi (binade x) \<le> \<bar>x\<bar>" by (rule binade_lower)
  then have "2 ^ 23 * ulp32 x \<le> \<bar>x\<bar>"
    using two_powi_split' [of "binade x"] by (simp add: ulp32_def)
  then show ?thesis by (simp add: field_simps)
next
  case False
  then have "binade x = - 126" using binade_bounds(1) [of x] by linarith
  then have "ulp32 x = 1 / 2 ^ 149"
    by (simp add: ulp32_def power_int_minus)
  then show ?thesis by simp
qed

lemma round32_err: "\<bar>round32 x - x\<bar> \<le> \<bar>x\<bar> / 2 ^ 24 + 1 / 2 ^ 150"
  using round32_err_ulp [of x] ulp32_le [of x] by simp


subsection \<open>Results without overflow\<close>

lemma round32_abs_le_two_powi:
  assumes "\<bar>x\<bar> \<le> 2 powi k" "- 126 \<le> k" "k \<le> 127"
  shows "\<bar>round32 x\<bar> \<le> 2 powi k"
proof -
  have "x \<le> 2 powi k" "- x \<le> 2 powi k"
    using assms(1) by (simp_all add: abs_le_iff)
  then have "round32 x \<le> 2 powi k" "round32 (- x) \<le> 2 powi k"
    using assms(2,3) by (auto intro: round32_le_two_powi)
  then show ?thesis
    by (simp add: round32_minus abs_le_iff)
qed

lemma to_float_Fin:
  assumes "\<bar>x\<bar> \<le> 2 powi k" "- 126 \<le> k" "k \<le> 127"
  shows "to_float (Fin x) = Fin (round32 x)"
proof -
  have "\<bar>round32 x\<bar> \<le> 2 powi k"
    using assms by (rule round32_abs_le_two_powi)
  also have "\<dots> \<le> 2 powi 127"
    using assms(3) by (intro power_int_increasing) auto
  also have "\<dots> < 2 ^ 128"
    by simp
  finally show ?thesis
    by simp
qed

lemma float_constants:
  "to_float (Fin 1.0) = Fin 1"
  "to_float (Fin 0.02) = Fin (5368709 / 2 ^ 28)"
  "to_float (Fin 304.8) = Fin (4993843 / 2 ^ 14)"
proof -
  show "to_float (Fin 1.0) = Fin 1"
    by simp
  have "to_float (Fin 0.02) = Fin (round32 0.02)"
    by (rule to_float_Fin [of _ 0]) simp_all
  then show "to_float (Fin 0.02) = Fin (5368709 / 2 ^ 28)"
    by (simp only: round32_0_02)
  have "to_float (Fin 304.8) = Fin (round32 304.8)"
    by (rule to_float_Fin [of _ 9]) simp_all
  then show "to_float (Fin 304.8) = Fin (4993843 / 2 ^ 14)"
    by (simp only: round32_304_8)
qed


section \<open>Properties of the airspeed filter\<close>

lemma IAS2TAS_exact_Fin: "IAS2TAS_exact (Fin a) = Fin (1 + 0.02 * a / 304.8)"
  by (simp add: IAS2TAS_exact_def)

lemma IAS2TAS_exact_special:
  "IAS2TAS_exact PInf = PInf" "IAS2TAS_exact NInf = NInf" "IAS2TAS_exact NaN = NaN"
  by (simp_all add: IAS2TAS_exact_def)

lemma IAS2TAS_exact_spec:
  "IAS2TAS_exact alt = Fin 1 + Fin 0.02 * metres_to_feet alt / Fin 1000"
  by (cases alt) (simp_all add: IAS2TAS_exact_def metres_to_feet_def)




subsection \<open>The correction factor in exact arithmetic\<close>

lemma IAS2TAS_exact_strictly_increasing:
  "IAS2TAS_exact (Fin 0) = Fin 1.0 \<and> (\<forall>a b. a < b \<longrightarrow> IAS2TAS_exact a < IAS2TAS_exact b)"
proof (intro conjI allI impI)
  show "IAS2TAS_exact (Fin 0) = Fin 1.0"
    by (simp add: IAS2TAS_exact_Fin)
next
  fix a b :: cfloat
  assume "a < b"
  then show "IAS2TAS_exact a < IAS2TAS_exact b"
    by (cases a; cases b)
      (simp_all add: IAS2TAS_exact_Fin IAS2TAS_exact_special divide_strict_right_mono)
qed

subsection \<open>The correction factor with its rounding\<close>

lemma IAS2TAS32_mono:
  assumes "a \<le> b"
  shows "IAS2TAS32 a \<le> IAS2TAS32 b"
proof -
  have "(5368709 / 2 ^ 28) * a \<le> (5368709 / 2 ^ 28) * b"
    using assms by (intro mult_left_mono) auto
  then have "round32 ((5368709 / 2 ^ 28) * a) \<le> round32 ((5368709 / 2 ^ 28) * b)"
    by (rule round32_mono)
  then have "round32 ((5368709 / 2 ^ 28) * a) / (4993843 / 2 ^ 14)
               \<le> round32 ((5368709 / 2 ^ 28) * b) / (4993843 / 2 ^ 14)"
    by (intro divide_right_mono) auto
  then have "round32 (round32 ((5368709 / 2 ^ 28) * a) / (4993843 / 2 ^ 14))
               \<le> round32 (round32 ((5368709 / 2 ^ 28) * b) / (4993843 / 2 ^ 14))"
    by (rule round32_mono)
  then have "1 + round32 (round32 ((5368709 / 2 ^ 28) * a) / (4993843 / 2 ^ 14))
               \<le> 1 + round32 (round32 ((5368709 / 2 ^ 28) * b) / (4993843 / 2 ^ 14))"
    by simp
  then show ?thesis
    unfolding IAS2TAS32_def by (rule round32_mono)
qed

lemma IAS2TAS32_0: "IAS2TAS32 0 = 1"
  by (simp add: IAS2TAS32_def)

lemma IAS2TAS32_flat:
  assumes "0 \<le> alt" "alt \<le> 1 / 2048"
  shows "IAS2TAS32 alt = 1"
proof -
  let ?x1 = "(5368709 / 2 ^ 28) * alt"
  let ?r1 = "round32 ?x1"
  let ?x2 = "?r1 / (4993843 / 2 ^ 14)"
  let ?r2 = "round32 ?x2"
  have x1: "0 \<le> ?x1" "?x1 \<le> 2 powi (- 16)"
    using assms by (simp_all add: power_int_minus field_simps)
  have r1: "0 \<le> ?r1" "?r1 \<le> 2 powi (- 16)"
    by (rule round32_nonneg [OF x1(1)], rule round32_le_two_powi [OF x1(2)]) simp_all
  have x2: "0 \<le> ?x2" "?x2 \<le> 2 powi (- 24)"
    using r1 by (simp_all add: power_int_minus field_simps)
  have r2: "0 \<le> ?r2" "?r2 \<le> 2 powi (- 24)"
    by (rule round32_nonneg [OF x2(1)], rule round32_le_two_powi [OF x2(2)]) simp_all
  have lo: "1 \<le> round32 (1 + ?r2)"
    using round32_mono [of 1 "1 + ?r2"] r2(1) by simp
  have "1 + ?r2 \<le> 1 + 1 / 2 ^ 24"
    using r2(2) by (simp add: power_int_minus field_simps)
  then have "round32 (1 + ?r2) \<le> round32 (1 + 1 / 2 ^ 24)"
    by (rule round32_mono)
  then have hi: "round32 (1 + ?r2) \<le> 1"
    by (simp only: round32_tie_above_1)
  show ?thesis
    unfolding IAS2TAS32_def using lo hi by (rule antisym [rotated])
qed

lemma IAS2TAS32_1024: "17 / 16 \<le> IAS2TAS32 1024"
proof -
  let ?x1 = "(5368709 / 2 ^ 28) * (1024::real)"
  let ?r1 = "round32 ?x1"
  let ?x2 = "?r1 / (4993843 / 2 ^ 14)"
  let ?r2 = "round32 ?x2"
  have "round32 20 \<le> ?r1"
    by (rule round32_mono) simp
  then have r1: "20 \<le> ?r1"
    by (simp only: round32_20)
  then have x2: "2 powi (- 4) \<le> ?x2"
    by (simp add: power_int_minus field_simps)
  have "round32 (2 powi (- 4)) \<le> ?r2"
    using x2 by (rule round32_mono)
  then have r2: "1 / 16 \<le> ?r2"
    using round32_two_powi [of "- 4"] by (simp add: power_int_minus)
  have "round32 (17 / 16) \<le> round32 (1 + ?r2)"
    using r2 by (intro round32_mono) simp
  then show ?thesis
    by (simp only: round32_17_16 IAS2TAS32_def)
qed

subsection \<open>The correction factor as a function of the altitude\<close>

text \<open>
  C9, as stated: the altitude-correction factor \<open>IAS2TAS\<close> is exactly 1.0 at altitude 0
  and strictly increasing in the altitude. As computed in binary32 it is not strictly
  increasing: the altitude \<open>1 / 2048\<close> m is above 0 and its factor, like that of 0, is
  exactly 1, because \<open>0.02f * alt / 304.8f\<close> is then below half the spacing of the
  binary32 numbers above 1.
\<close>

theorem IAS2TAS32_not_strict_counterexample:
  "(0::real) < 1 / 2048 \<and> IAS2TAS32 0 = 1 \<and> IAS2TAS32 (1 / 2048) = 1
   \<and> \<not> IAS2TAS32 0 < IAS2TAS32 (1 / 2048)"
  by (simp add: IAS2TAS32_0 IAS2TAS32_flat)

text \<open>
  C9, as amended: the altitude-correction factor \<open>IAS2TAS\<close> is exactly 1.0 at altitude 0
  and is non-decreasing in the altitude; it is strictly increasing in exact arithmetic
  only (\<open>IAS2TAS_exact\<close>).
\<close>

theorem IAS2TAS_nondecreasing:
  "IAS2TAS32 0 = 1 \<and> (\<forall>a b. a \<le> b \<longrightarrow> IAS2TAS32 a \<le> IAS2TAS32 b)
   \<and> IAS2TAS_exact (Fin 0) = Fin 1
   \<and> (\<forall>a b. a < b \<longrightarrow> IAS2TAS_exact a < IAS2TAS_exact b)"
  using IAS2TAS32_0 IAS2TAS32_mono IAS2TAS_exact_strictly_increasing by simp

theorem IAS2TAS_nondecreasing_witness:
  "(0::real) \<le> 1024 \<and> IAS2TAS32 0 = 1 \<and> IAS2TAS32 0 \<le> IAS2TAS32 1024 \<and> 1 < IAS2TAS32 1024
   \<and> Fin 0 < Fin 304.8 \<and> IAS2TAS_exact (Fin 0) = Fin 1
   \<and> IAS2TAS_exact (Fin 304.8) = Fin 1.02
   \<and> IAS2TAS_exact (Fin 0) < IAS2TAS_exact (Fin 304.8)"
proof -
  have h: "(0::real) \<le> 1024" "Fin 0 < Fin 304.8"
    by simp_all
  from IAS2TAS_nondecreasing h have "IAS2TAS32 0 = 1" "IAS2TAS32 0 \<le> IAS2TAS32 1024"
    "IAS2TAS_exact (Fin 0) < IAS2TAS_exact (Fin 304.8)"
    by blast+
  moreover have "1 < IAS2TAS32 1024"
    using IAS2TAS32_1024 by simp
  ultimately show ?thesis
    by (simp add: IAS2TAS_exact_Fin)
qed

subsection \<open>The accuracy of the correction factor\<close>



subsection \<open>The macro on the values of the C type\<close>


lemma IAS2TAS_special: "IAS2TAS PInf = PInf" "IAS2TAS NInf = NInf" "IAS2TAS NaN = NaN"
  unfolding IAS2TAS_def float_constants by simp_all


subsection \<open>The filter\<close>







section \<open>Properties of the simulated sensors\<close>

lemma e_simps [simp]: "e0 (a, b, c) = a" "e1 (a, b, c) = b" "e2 (a, b, c) = c"
  by (simp_all add: e0_def e1_def e2_def)

subsection \<open>The selection of the variant\<close>

lemma select_sim_type_default:
  "t \<notin> recognised_airframe_types c \<Longrightarrow> select_sim_type c t = MODEL_AGNOSTIC"
  by (simp add: select_sim_type_def recognised_airframe_types_def)

text \<open>
  C6. If the configured airframe type is none of the fixed-wing and multirotor values
  that the task names, one iteration of the task selects the variant \<open>MODEL_AGNOSTIC\<close> and
  runs \<open>simulateModelAgnostic\<close>, and nothing else: the persistent variables of the other
  variants are untouched.
\<close>

theorem unknown_airframe_runs_agnostic:
  assumes "SystemSettings_AirframeType bus \<notin> recognised_airframe_types c"
  shows "SensorsTask_step lib c env m bus =
           (m\<lparr>sensor_sim_type_var := MODEL_AGNOSTIC\<rparr>,
            fst (simulateModelAgnostic lib env bus), snd (simulateModelAgnostic lib env bus))"
  using assms
  by (simp add: SensorsTask_step_def select_sim_type_default case_prod_beta)

theorem unknown_airframe_runs_agnostic_witness:
  "SystemSettings_AirframeType (bus_zero\<lparr>SystemSettings_AirframeType := 255\<rparr>)
     \<notin> recognised_airframe_types consts_example
   \<and> SensorsTask_step coord_lib_dcm consts_example env_zero module_init
         (bus_zero\<lparr>SystemSettings_AirframeType := 255\<rparr>) =
       (module_init\<lparr>sensor_sim_type_var := MODEL_AGNOSTIC\<rparr>,
        fst (simulateModelAgnostic coord_lib_dcm env_zero (bus_zero\<lparr>SystemSettings_AirframeType := 255\<rparr>)),
        [Accels, Gyros, BaroAltitude, GPSPosition, Magnetometer])"
proof -
  have h: "SystemSettings_AirframeType (bus_zero\<lparr>SystemSettings_AirframeType := 255\<rparr>)
             \<notin> recognised_airframe_types consts_example"
    by (simp add: recognised_airframe_types_def consts_example_def)
  show ?thesis
    using h unknown_airframe_runs_agnostic [OF h, of coord_lib_dcm env_zero module_init]
    by (simp add: simulateModelAgnostic_def Let_def)
qed

subsection \<open>The contact with the ground\<close>

lemma ground_contact_pos: "\<not> Fin 0 < e2 (fst (ground_contact pva))"
  by (cases pva) (auto simp: ground_contact_def)

lemma ground_contact_fired:
  "Fin 0 < e2 (fst pva) \<Longrightarrow>
     e2 (fst (ground_contact pva)) = Fin 0 \<and> e2 (fst (snd (ground_contact pva))) = Fin 0"
  by (cases pva) (auto simp: ground_contact_def)

lemma quadcopter_pos_vel:
  "pos (fst (simulateModelQuadcopter lib c ov ab env s bus)) =
     fst (ground_contact (quadcopter_pva (quadcopter_predict lib c env s bus)))"
  "vel (fst (simulateModelQuadcopter lib c ov ab env s bus)) =
     fst (snd (ground_contact (quadcopter_pva (quadcopter_predict lib c env s bus))))"
  by (simp_all add: simulateModelQuadcopter_def quadcopter_pva_def Let_def case_prod_beta)

lemma airplane_pos_vel:
  "pos (fst (simulateModelAirplane lib c ov ab env s bus)) =
     fst (ground_contact (airplane_pva (airplane_predict lib c env s bus)))"
  "vel (fst (simulateModelAirplane lib c ov ab env s bus)) =
     fst (snd (ground_contact (airplane_pva (airplane_predict lib c env s bus))))"
  by (simp_all add: simulateModelAirplane_def airplane_pva_def Let_def case_prod_beta)

lemma predict_attitude_rest:
  "predict_attitude (Fin 1, Fin 0, Fin 0, Fin 0) (Fin 0, Fin 0, Fin 0) (Fin d) =
     (Fin 1, Fin 0, Fin 0, Fin 0)"
  by (simp add: predict_attitude_def euler_attitude_def normalize_attitude_def Let_def
      minus_cfloat_def)

lemmas rest_defs =
  quadcopter_rates_def quadcopter_accel_def airplane_rates_def body_airspeed_def
  airplane_accel_def elapsed_dT_def PIOS_DELAY_DiffuS_def u32_to_float_def env_zero_def bus_zero_def
  consts_example_def commanded_thrust_def fneq_def feq_def bool_to_float_def zero3_def
  predict_attitude_rest drift3_def coord_lib_dcm_def Quaternion2R_dcm_def GRAV_def
  apply_friction_def euler_step_def minus_cfloat_def

lemma quadcopter_predict_rest:
  "quadcopter_predict coord_lib_dcm consts_example env_zero quadcopter_init bus_zero =
     (Fin 0.002, Fin 0, zero3, (Fin 1, Fin 0, Fin 0, Fin 0),
      ((Fin 1, Fin 0, Fin 0), (Fin 0, Fin 1, Fin 0), (Fin 0, Fin 0, Fin 1)), zero3,
      ((Fin 0, Fin 0, Fin 0.00003924), (Fin 0, Fin 0, Fin 0.01962), (Fin 0, Fin 0, Fin 9.81)))"
  by (simp add: quadcopter_predict_def Let_def quadcopter_init_def rest_defs)

lemma airplane_predict_rest:
  "airplane_predict coord_lib_dcm consts_example env_zero airplane_init bus_zero =
     (Fin 0.002, Fin 0, zero3, (Fin 1, Fin 0, Fin 0, Fin 0),
      ((Fin 1, Fin 0, Fin 0), (Fin 0, Fin 1, Fin 0), (Fin 0, Fin 0, Fin 1)), zero3, Fin 0,
      ((Fin 0, Fin 0, Fin 0.00035316), (Fin 0, Fin 0, Fin 0.17658), (Fin 0, Fin 0, Fin 88.29)))"
  by (simp add: airplane_predict_def Let_def airplane_init_def rest_defs)

text \<open>
  C3. In every tick of the quadcopter and of the airplane, the vertical (down) position
  after the contact test is not below the ground (\<open>pos[2] > 0\<close> is false), and whenever
  the predicted position has crossed the ground plane (the test fires), the vertical
  position and the vertical velocity are exactly zero afterwards.
\<close>

theorem ground_contact_clamp:
  "\<not> Fin 0 < e2 (pos (fst (simulateModelQuadcopter lib c ov ab env s bus)))
   \<and> (Fin 0 < e2 (fst (quadcopter_pva (quadcopter_predict lib c env s bus)))
        \<longrightarrow> e2 (pos (fst (simulateModelQuadcopter lib c ov ab env s bus))) = Fin 0
          \<and> e2 (vel (fst (simulateModelQuadcopter lib c ov ab env s bus))) = Fin 0)
   \<and> \<not> Fin 0 < e2 (pos (fst (simulateModelAirplane lib c ov ab env sa bus)))
   \<and> (Fin 0 < e2 (fst (airplane_pva (airplane_predict lib c env sa bus)))
        \<longrightarrow> e2 (pos (fst (simulateModelAirplane lib c ov ab env sa bus))) = Fin 0
          \<and> e2 (vel (fst (simulateModelAirplane lib c ov ab env sa bus))) = Fin 0)"
  unfolding quadcopter_pos_vel airplane_pos_vel
  using ground_contact_pos ground_contact_fired by blast

theorem ground_contact_clamp_witness:
  "Fin 0 < e2 (fst (quadcopter_pva
       (quadcopter_predict coord_lib_dcm consts_example env_zero quadcopter_init bus_zero)))
   \<and> e2 (pos (fst (simulateModelQuadcopter coord_lib_dcm consts_example False zero3 env_zero
         quadcopter_init bus_zero))) = Fin 0
   \<and> e2 (vel (fst (simulateModelQuadcopter coord_lib_dcm consts_example False zero3 env_zero
         quadcopter_init bus_zero))) = Fin 0
   \<and> Fin 0 < e2 (fst (airplane_pva
       (airplane_predict coord_lib_dcm consts_example env_zero airplane_init bus_zero)))
   \<and> e2 (pos (fst (simulateModelAirplane coord_lib_dcm consts_example False zero3 env_zero
         airplane_init bus_zero))) = Fin 0
   \<and> e2 (vel (fst (simulateModelAirplane coord_lib_dcm consts_example False zero3 env_zero
         airplane_init bus_zero))) = Fin 0"
proof -
  have hq: "Fin 0 < e2 (fst (quadcopter_pva
       (quadcopter_predict coord_lib_dcm consts_example env_zero quadcopter_init bus_zero)))"
    by (simp add: quadcopter_predict_rest quadcopter_pva_def)
  have ha: "Fin 0 < e2 (fst (airplane_pva
       (airplane_predict coord_lib_dcm consts_example env_zero airplane_init bus_zero)))"
    by (simp add: airplane_predict_rest airplane_pva_def)
  show ?thesis
    using hq ha
      ground_contact_clamp [of coord_lib_dcm consts_example False zero3 env_zero
        quadcopter_init bus_zero airplane_init]
    by blast
qed

subsection \<open>The thrust\<close>

lemma commanded_thrust_eq:
  "commanded_thrust armed T M = (if armed \<and> Fin 0 \<le> T * M then T * M else Fin 0)"
  by (cases "T * M") (auto simp: commanded_thrust_def Let_def fneq_def feq_def)

text \<open>
  C5, as amended. In every tick of the quadcopter and of the airplane, the thrust of the
  force model is the commanded throttle times the maximum thrust when the vehicle is armed
  and that product is not negative (an infinite product is kept); the thrust is zero when
  the vehicle is not armed, when the product is negative, and when the product is NaN.
\<close>

theorem thrust_armed_nonnegative_or_zero:
  "quadcopter_thrust (quadcopter_predict lib c env s bus) =
     (if FlightStatus_Armed bus = FLIGHTSTATUS_ARMED_ARMED c
         \<and> Fin 0 \<le> ActuatorDesired_Throttle bus * (GRAV * Fin 2)
      then ActuatorDesired_Throttle bus * (GRAV * Fin 2) else Fin 0)
   \<and> airplane_thrust (airplane_predict lib c env sa bus) =
     (if FlightStatus_Armed bus = FLIGHTSTATUS_ARMED_ARMED c
         \<and> Fin 0 \<le> ActuatorDesired_Throttle bus * (Fin 9.81 * Fin 2)
      then ActuatorDesired_Throttle bus * (Fin 9.81 * Fin 2) else Fin 0)"
  by (simp add: quadcopter_thrust_def quadcopter_predict_def airplane_thrust_def
      airplane_predict_def Let_def commanded_thrust_eq)

text \<open>The claim as stated fails for an armed vehicle with a negative throttle command:
  the thrust is zero, not the scaled throttle.\<close>

theorem thrust_negative_throttle_counterexample:
  "FlightStatus_Armed (bus_zero\<lparr>FlightStatus_Armed := 2, ActuatorDesired_Throttle := Fin (- 0.5)\<rparr>)
     = FLIGHTSTATUS_ARMED_ARMED consts_example
   \<and> ActuatorDesired_Throttle
        (bus_zero\<lparr>FlightStatus_Armed := 2, ActuatorDesired_Throttle := Fin (- 0.5)\<rparr>) * (GRAV * Fin 2)
     = Fin (- 9.81)
   \<and> quadcopter_thrust (quadcopter_predict coord_lib_dcm consts_example env_zero quadcopter_init
        (bus_zero\<lparr>FlightStatus_Armed := 2, ActuatorDesired_Throttle := Fin (- 0.5)\<rparr>)) = Fin 0
   \<and> airplane_thrust (airplane_predict coord_lib_dcm consts_example env_zero airplane_init
        (bus_zero\<lparr>FlightStatus_Armed := 2, ActuatorDesired_Throttle := Fin (- 0.5)\<rparr>)) = Fin 0"
  by (simp add: quadcopter_thrust_def quadcopter_predict_def airplane_thrust_def
      airplane_predict_def Let_def commanded_thrust_def fneq_def feq_def GRAV_def
      consts_example_def bus_zero_def)

theorem thrust_armed_nonnegative_or_zero_witness:
  "quadcopter_thrust (quadcopter_predict coord_lib_dcm consts_example env_zero quadcopter_init
        (bus_zero\<lparr>FlightStatus_Armed := 2, ActuatorDesired_Throttle := Fin 0.5\<rparr>)) = Fin 9.81
   \<and> airplane_thrust (airplane_predict coord_lib_dcm consts_example env_zero airplane_init
        (bus_zero\<lparr>FlightStatus_Armed := 2, ActuatorDesired_Throttle := NaN\<rparr>)) = Fin 0"
  using thrust_armed_nonnegative_or_zero [of coord_lib_dcm consts_example env_zero quadcopter_init
      "bus_zero\<lparr>FlightStatus_Armed := 2, ActuatorDesired_Throttle := Fin 0.5\<rparr>"]
    thrust_armed_nonnegative_or_zero [of coord_lib_dcm consts_example env_zero quadcopter_init
      "bus_zero\<lparr>FlightStatus_Armed := 2, ActuatorDesired_Throttle := NaN\<rparr>" airplane_init]
  by (simp add: GRAV_def consts_example_def bus_zero_def)

subsection \<open>Arithmetic with NaN\<close>

lemma NaN_absorbs [simp]:
  "x + NaN = NaN" "NaN + x = NaN" "x * NaN = NaN" "NaN * x = NaN"
  "x / NaN = NaN" "NaN / x = NaN" "x - NaN = NaN" "NaN - x = NaN"
  by (cases x; simp add: minus_cfloat_def)+

lemma zero_div_zero: "Fin 0 / Fin 0 = NaN"
  by simp

subsection \<open>The estimation of the magnetometer's offset\<close>

lemma mag_delta_zero_horizontal:
  assumes "mag_xy bus (mag_earth lib bus m) = (Fin 0, Fin 0)"
  shows "mag_xy_norm (mag_xy bus (mag_earth lib bus m)) = Fin 0"
    and "e0 (mag_delta lib bus m) = NaN"
    and "e1 (mag_delta lib bus m) = NaN"
  using assms by (simp_all add: mag_delta_def mag_xy_norm_def Let_def)

text \<open>
  C10. The update of the magnetometer's bias has no guard against a zero horizontal
  component: whenever the bias-removed reading, rotated into the earth frame and
  yaw-aligned, has the horizontal part \<open>(0, 0)\<close>, the norm \<open>xy_norm\<close> is zero, the update
  divides zero by zero, the increments \<open>delta[0]\<close> and \<open>delta[1]\<close> are NaN, and so are the
  new \<open>MagBias.x\<close> and \<open>MagBias.y\<close>.
\<close>

theorem magOffsetEstimation_zero_norm:
  assumes "mag_xy bus (mag_earth lib bus
             (e0 mag - MagBias_x bus, e1 mag - MagBias_y bus, e2 mag - MagBias_z bus))
           = (Fin 0, Fin 0)"
  shows "mag_xy_norm (mag_xy bus (mag_earth lib bus
             (e0 mag - MagBias_x bus, e1 mag - MagBias_y bus, e2 mag - MagBias_z bus))) = Fin 0
         \<and> e0 (mag_delta lib bus
             (e0 mag - MagBias_x bus, e1 mag - MagBias_y bus, e2 mag - MagBias_z bus)) = NaN
         \<and> e1 (mag_delta lib bus
             (e0 mag - MagBias_x bus, e1 mag - MagBias_y bus, e2 mag - MagBias_z bus)) = NaN
         \<and> MagBias_x (snd (magOffsetEstimation lib bus mag)) = NaN
         \<and> MagBias_y (snd (magOffsetEstimation lib bus mag)) = NaN"
  using mag_delta_zero_horizontal [OF assms]
  by (simp add: magOffsetEstimation_def Let_def)

theorem magOffsetEstimation_zero_norm_witness:
  "mag_xy bus_zero (mag_earth coord_lib_dcm bus_zero
       (e0 (Fin 0, Fin 0, Fin 400) - MagBias_x bus_zero,
        e1 (Fin 0, Fin 0, Fin 400) - MagBias_y bus_zero,
        e2 (Fin 0, Fin 0, Fin 400) - MagBias_z bus_zero)) = (Fin 0, Fin 0)
   \<and> MagBias_x (snd (magOffsetEstimation coord_lib_dcm bus_zero (Fin 0, Fin 0, Fin 400))) = NaN
   \<and> MagBias_y (snd (magOffsetEstimation coord_lib_dcm bus_zero (Fin 0, Fin 0, Fin 400))) = NaN"
proof -
  have h: "mag_xy bus_zero (mag_earth coord_lib_dcm bus_zero
       (e0 (Fin 0, Fin 0, Fin 400) - MagBias_x bus_zero,
        e1 (Fin 0, Fin 0, Fin 400) - MagBias_y bus_zero,
        e2 (Fin 0, Fin 0, Fin 400) - MagBias_z bus_zero)) = (Fin 0, Fin 0)"
    by (simp add: mag_xy_def mag_earth_def Let_def bus_zero_def coord_lib_dcm_def
        Quaternion2R_dcm_def minus_cfloat_def)
  show ?thesis
    using h magOffsetEstimation_zero_norm [OF h] by blast
qed

subsection \<open>The gyroscope reading and the gyroscope bias\<close>

lemma constant_gyros:
  "Gyros_x (fst (simulateConstant bus)) = Fin 0 + GyrosBias_x bus"
  "Gyros_y (fst (simulateConstant bus)) = Fin 0 + GyrosBias_y bus"
  "Gyros_z (fst (simulateConstant bus)) = Fin 0 + GyrosBias_z bus"
  by (simp_all add: simulateConstant_def Let_def)

lemma agnostic_gyros:
  "Gyros_x (fst (simulateModelAgnostic lib env bus)) =
     RateDesired_Roll bus + e0 (rnd_gyro env) + GyrosBias_x bus"
  "Gyros_y (fst (simulateModelAgnostic lib env bus)) =
     RateDesired_Pitch bus + e1 (rnd_gyro env) + GyrosBias_y bus"
  "Gyros_z (fst (simulateModelAgnostic lib env bus)) =
     RateDesired_Yaw bus + e2 (rnd_gyro env) + GyrosBias_z bus"
  by (simp_all add: simulateModelAgnostic_def Let_def)

lemma magOffsetEstimation_gyros:
  "Gyros_x (snd (magOffsetEstimation lib bus mag)) = Gyros_x bus"
  "Gyros_y (snd (magOffsetEstimation lib bus mag)) = Gyros_y bus"
  "Gyros_z (snd (magOffsetEstimation lib bus mag)) = Gyros_z bus"
  by (simp_all add: magOffsetEstimation_def Let_def)

lemma quadcopter_rpy:
  "rpy (fst (simulateModelQuadcopter lib c ov ab env s bus)) =
     fst (snd (snd (quadcopter_predict lib c env s bus)))"
  by (simp add: simulateModelQuadcopter_def Let_def case_prod_beta)

lemma airplane_rpy:
  "rpy (fst (simulateModelAirplane lib c ov ab env s bus)) =
     fst (snd (snd (airplane_predict lib c env s bus)))"
  by (simp add: simulateModelAirplane_def Let_def case_prod_beta)

lemma quadcopter_gyros:
  "Gyros_x (fst (snd (simulateModelQuadcopter lib c ov ab env s bus))) =
     e0 (rpy (fst (simulateModelQuadcopter lib c ov ab env s bus))) + e0 (rnd_gyro env)"
  "Gyros_y (fst (snd (simulateModelQuadcopter lib c ov ab env s bus))) =
     e1 (rpy (fst (simulateModelQuadcopter lib c ov ab env s bus))) + e1 (rnd_gyro env)"
  "Gyros_z (fst (snd (simulateModelQuadcopter lib c ov ab env s bus))) =
     e2 (rpy (fst (simulateModelQuadcopter lib c ov ab env s bus))) + e2 (rnd_gyro env)"
  unfolding quadcopter_rpy
  by (simp_all add: simulateModelQuadcopter_def Let_def case_prod_beta magOffsetEstimation_gyros)

lemma airplane_gyros:
  "Gyros_x (fst (snd (simulateModelAirplane lib c ov ab env s bus))) =
     e0 (rpy (fst (simulateModelAirplane lib c ov ab env s bus))) + e0 (rnd_gyro env)"
  "Gyros_y (fst (snd (simulateModelAirplane lib c ov ab env s bus))) =
     e1 (rpy (fst (simulateModelAirplane lib c ov ab env s bus))) + e1 (rnd_gyro env)"
  "Gyros_z (fst (snd (simulateModelAirplane lib c ov ab env s bus))) =
     e2 (rpy (fst (simulateModelAirplane lib c ov ab env s bus))) + e2 (rnd_gyro env)"
  unfolding airplane_rpy
  by (simp_all add: simulateModelAirplane_def Let_def case_prod_beta magOffsetEstimation_gyros)

lemma quadcopter_predict_ignores_GyrosBias:
  "quadcopter_predict lib c env s (bus\<lparr>GyrosBias_x := bx, GyrosBias_y := by, GyrosBias_z := bz\<rparr>)
     = quadcopter_predict lib c env s bus"
  by (simp add: quadcopter_predict_def quadcopter_rates_def)

lemma airplane_predict_ignores_GyrosBias:
  "airplane_predict lib c env s (bus\<lparr>GyrosBias_x := bx, GyrosBias_y := by, GyrosBias_z := bz\<rparr>)
     = airplane_predict lib c env s bus"
  by (simp add: airplane_predict_def airplane_rates_def)

subsection \<open>The periodic channels\<close>

text \<open>
  The values of the periods: the binary32 numbers nearest to the binary64 numbers nearest
  to 0.1, 1/75 and 1/20. Each is a little above the decimal value.
\<close>

lemma to_doubleI: "round64 x = y \<Longrightarrow> \<bar>y\<bar> < 2 ^ 1024 \<Longrightarrow> to_double (Fin x) = Fin y"
  by simp

lemma to_floatI: "round32 x = y \<Longrightarrow> \<bar>y\<bar> < 2 ^ 128 \<Longrightarrow> to_float (Fin x) = Fin y"
  by simp

lemma period_values:
  "GPS_PERIOD = Fin (13421773 / 2 ^ 27)"
  "MAG_PERIOD = Fin (7158279 / 2 ^ 29)"
  "BARO_PERIOD = Fin (13421773 / 2 ^ 28)"
proof -
  have g: "to_double (Fin 0.1) = Fin (3602879701896397 / 2 ^ 55)"
    by (rule to_doubleI [OF round64_0_1]) simp
  have g': "to_float (Fin (3602879701896397 / 2 ^ 55)) = Fin (13421773 / 2 ^ 27)"
    by (rule to_floatI [OF round32_GPS]) simp
  show "GPS_PERIOD = Fin (13421773 / 2 ^ 27)"
    unfolding GPS_PERIOD_def g g' by (rule refl)
  have q: "Fin 1.0 / Fin 75.0 = Fin (1 / 75)" "Fin 1.0 / Fin 20.0 = Fin (1 / 20)"
    by simp_all
  have m: "to_double (Fin (1 / 75)) = Fin (7686143364045647 / 2 ^ 59)"
    by (rule to_doubleI [OF round64_1_75]) simp
  have m': "to_float (Fin (7686143364045647 / 2 ^ 59)) = Fin (7158279 / 2 ^ 29)"
    by (rule to_floatI [OF round32_MAG]) simp
  show "MAG_PERIOD = Fin (7158279 / 2 ^ 29)"
    unfolding MAG_PERIOD_def q m m' by (rule refl)
  have b: "to_double (Fin (1 / 20)) = Fin (3602879701896397 / 2 ^ 56)"
    by (rule to_doubleI [OF round64_1_20]) simp
  have b': "to_float (Fin (3602879701896397 / 2 ^ 56)) = Fin (13421773 / 2 ^ 28)"
    by (rule to_floatI [OF round32_BARO]) simp
  show "BARO_PERIOD = Fin (13421773 / 2 ^ 28)"
    unfolding BARO_PERIOD_def q b b' by (rule refl)
qed

text \<open>The quotient of the elapsed microseconds by \<open>1000000\<close> does not overflow.\<close>

lemma round64_8192: "round64 8192 = 8192"
proof -
  have b: "binade64 8192 = 13"
    by (rule binade64_eqI) simp_all
  show ?thesis
    by (rule round64_fixed [OF b, of "2 ^ 52"]) (simp add: power_int_minus)
qed

lemma to_double_elapsed:
  fixes w :: uint32_t
  shows "to_double (Fin (real (unat w) / 1000000)) = Fin (round64 (real (unat w) / 1000000))"
proof -
  have "unat w < 2 ^ 32"
    using unsigned_less [of w] by simp
  then have "real (unat w) < 2 ^ 32"
    by (metis of_nat_less_iff of_nat_numeral of_nat_power)
  then have le: "real (unat w) / 1000000 \<le> 8192"
    by simp
  have "0 \<le> round64 (real (unat w) / 1000000)"
    by (intro round64_nonneg divide_nonneg_nonneg of_nat_0_le_iff) simp
  moreover have "round64 (real (unat w) / 1000000) \<le> 8192"
    using round64_mono [OF le] by (simp only: round64_8192)
  ultimately show ?thesis
    by simp
qed

lemma decimal_thresholds:
  fixes n :: nat
  shows "1 / 10 < real n / 1000000 \<longleftrightarrow> 100000 < n"
    and "1 / 20 < real n / 1000000 \<longleftrightarrow> 50000 < n"
    and "1 / 75 < real n / 1000000 \<longleftrightarrow> 13333 < n"
proof -
  have "1 / 10 < real n / 1000000 \<longleftrightarrow> real (100000::nat) < real n"
    by (simp add: field_simps)
  then show "1 / 10 < real n / 1000000 \<longleftrightarrow> 100000 < n"
    by (simp only: of_nat_less_iff)
  have "1 / 20 < real n / 1000000 \<longleftrightarrow> real (50000::nat) < real n"
    by (simp add: field_simps)
  then show "1 / 20 < real n / 1000000 \<longleftrightarrow> 50000 < n"
    by (simp only: of_nat_less_iff)
  have "1 / 75 < real n / 1000000 \<longleftrightarrow> real (40000::nat) < real (3 * n)"
    by (simp add: field_simps)
  also have "\<dots> \<longleftrightarrow> 40000 < 3 * n"
    by (simp only: of_nat_less_iff)
  also have "\<dots> \<longleftrightarrow> 13333 < n"
    by arith
  finally show "1 / 75 < real n / 1000000 \<longleftrightarrow> 13333 < n" .
qed

text \<open>
  The elapsed time is a whole number of microseconds and no such number equals a period,
  so the test of a channel, which is strict, holds exactly when the elapsed time has
  reached the period; it holds from 100001, 50001 and 13334 microseconds on, as it would
  for the decimal values of the periods.
\<close>

lemma channel_due_seconds:
  "channel_due clock raw GPS_PERIOD \<longleftrightarrow> 1 / 10 < elapsed_seconds clock raw"
  "channel_due clock raw BARO_PERIOD \<longleftrightarrow> 1 / 20 < elapsed_seconds clock raw"
  "channel_due clock raw MAG_PERIOD \<longleftrightarrow> 1 / 75 < elapsed_seconds clock raw"
proof -
  have q: "u32_to_float (PIOS_DELAY_DiffuS clock raw) / Fin 1000000
             = Fin (real (unat (clock - raw)) / 1000000)"
    by (simp add: u32_to_float_def PIOS_DELAY_DiffuS_def)
  show "channel_due clock raw GPS_PERIOD \<longleftrightarrow> 1 / 10 < elapsed_seconds clock raw"
    unfolding channel_due_def q to_double_elapsed period_values less_cfloat.simps
      elapsed_seconds_def period_tests decimal_thresholds by (rule refl)
  show "channel_due clock raw BARO_PERIOD \<longleftrightarrow> 1 / 20 < elapsed_seconds clock raw"
    unfolding channel_due_def q to_double_elapsed period_values less_cfloat.simps
      elapsed_seconds_def period_tests decimal_thresholds by (rule refl)
  show "channel_due clock raw MAG_PERIOD \<longleftrightarrow> 1 / 75 < elapsed_seconds clock raw"
    unfolding channel_due_def q to_double_elapsed period_values less_cfloat.simps
      elapsed_seconds_def period_tests decimal_thresholds by (rule refl)
qed

lemma period_reached_seconds:
  "GPS_PERIOD \<le> Fin (elapsed_seconds clock raw) \<longleftrightarrow> 1 / 10 < elapsed_seconds clock raw"
  "BARO_PERIOD \<le> Fin (elapsed_seconds clock raw) \<longleftrightarrow> 1 / 20 < elapsed_seconds clock raw"
  "MAG_PERIOD \<le> Fin (elapsed_seconds clock raw) \<longleftrightarrow> 1 / 75 < elapsed_seconds clock raw"
  unfolding period_values less_eq_cfloat.simps elapsed_seconds_def period_reached
    decimal_thresholds by (rule refl)+

lemma quadcopter_events:
  "snd (snd (simulateModelQuadcopter lib c ov ab env s bus)) =
     [Gyros] @ (if ov then [AttitudeActual] else []) @ [Accels]
     @ (if 1 / 20 < elapsed_seconds (clk_baro env) (last_baro_time s) then [BaroAltitude] else [])
     @ (if 1 / 10 < elapsed_seconds (clk_gps env) (last_gps_time s) then [GPSPosition] else [])
     @ (if 1 / 10 < elapsed_seconds (clk_gps_vel env) (last_gps_vel_time s) then [GPSVelocity] else [])
     @ (if 1 / 75 < elapsed_seconds (clk_mag env) (last_mag_time s) then [MagBias, Magnetometer] else [])
     @ [AttitudeSimulated]"
  by (simp add: simulateModelQuadcopter_def Let_def case_prod_beta channel_due_seconds)

lemma quadcopter_timers:
  "last_baro_time (fst (simulateModelQuadcopter lib c ov ab env s bus)) =
     (if 1 / 20 < elapsed_seconds (clk_baro env) (last_baro_time s)
      then clk_baro_set env else last_baro_time s)"
  "last_gps_time (fst (simulateModelQuadcopter lib c ov ab env s bus)) =
     (if 1 / 10 < elapsed_seconds (clk_gps env) (last_gps_time s)
      then clk_gps_set env else last_gps_time s)"
  "last_gps_vel_time (fst (simulateModelQuadcopter lib c ov ab env s bus)) =
     (if 1 / 10 < elapsed_seconds (clk_gps_vel env) (last_gps_vel_time s)
      then clk_gps_vel_set env else last_gps_vel_time s)"
  "last_mag_time (fst (simulateModelQuadcopter lib c ov ab env s bus)) =
     (if 1 / 75 < elapsed_seconds (clk_mag env) (last_mag_time s)
      then clk_mag_set env else last_mag_time s)"
  by (simp_all add: simulateModelQuadcopter_def Let_def case_prod_beta channel_due_seconds)

lemma airplane_events:
  "snd (snd (simulateModelAirplane lib c ov ab env s bus)) =
     [Gyros] @ (if ov then [AttitudeActual] else []) @ [Accels]
     @ (if 1 / 20 < elapsed_seconds (clk_baro env) (last_baro_time s) then [BaroAltitude] else [])
     @ (if 1 / 20 < elapsed_seconds (clk_airspeed env) (last_airspeed_time s) then [AirspeedSensor] else [])
     @ (if 1 / 10 < elapsed_seconds (clk_gps env) (last_gps_time s) then [GPSPosition] else [])
     @ (if 1 / 10 < elapsed_seconds (clk_gps_vel env) (last_gps_vel_time s) then [GPSVelocity] else [])
     @ (if 1 / 75 < elapsed_seconds (clk_mag env) (last_mag_time s) then [MagBias, Magnetometer] else [])
     @ [AttitudeSimulated]"
  by (simp add: simulateModelAirplane_def Let_def case_prod_beta channel_due_seconds)

lemma airplane_timers:
  "last_baro_time (fst (simulateModelAirplane lib c ov ab env s bus)) =
     (if 1 / 20 < elapsed_seconds (clk_baro env) (last_baro_time s)
      then clk_baro_set env else last_baro_time s)"
  "last_airspeed_time (fst (simulateModelAirplane lib c ov ab env s bus)) =
     (if 1 / 20 < elapsed_seconds (clk_airspeed env) (last_airspeed_time s)
      then clk_airspeed_set env else last_airspeed_time s)"
  "last_gps_time (fst (simulateModelAirplane lib c ov ab env s bus)) =
     (if 1 / 10 < elapsed_seconds (clk_gps env) (last_gps_time s)
      then clk_gps_set env else last_gps_time s)"
  "last_gps_vel_time (fst (simulateModelAirplane lib c ov ab env s bus)) =
     (if 1 / 10 < elapsed_seconds (clk_gps_vel env) (last_gps_vel_time s)
      then clk_gps_vel_set env else last_gps_vel_time s)"
  "last_mag_time (fst (simulateModelAirplane lib c ov ab env s bus)) =
     (if 1 / 75 < elapsed_seconds (clk_mag env) (last_mag_time s)
      then clk_mag_set env else last_mag_time s)"
  by (simp_all add: simulateModelAirplane_def Let_def case_prod_beta channel_due_seconds)

lemma quadcopter_emits:
  "BaroAltitude \<in> set (snd (snd (simulateModelQuadcopter lib c ov ab env s bus)))
     \<longleftrightarrow> 1 / 20 < elapsed_seconds (clk_baro env) (last_baro_time s)"
  "GPSPosition \<in> set (snd (snd (simulateModelQuadcopter lib c ov ab env s bus)))
     \<longleftrightarrow> 1 / 10 < elapsed_seconds (clk_gps env) (last_gps_time s)"
  "GPSVelocity \<in> set (snd (snd (simulateModelQuadcopter lib c ov ab env s bus)))
     \<longleftrightarrow> 1 / 10 < elapsed_seconds (clk_gps_vel env) (last_gps_vel_time s)"
  "Magnetometer \<in> set (snd (snd (simulateModelQuadcopter lib c ov ab env s bus)))
     \<longleftrightarrow> 1 / 75 < elapsed_seconds (clk_mag env) (last_mag_time s)"
  by (simp_all add: quadcopter_events)

lemma airplane_emits:
  "BaroAltitude \<in> set (snd (snd (simulateModelAirplane lib c ov ab env s bus)))
     \<longleftrightarrow> 1 / 20 < elapsed_seconds (clk_baro env) (last_baro_time s)"
  "AirspeedSensor \<in> set (snd (snd (simulateModelAirplane lib c ov ab env s bus)))
     \<longleftrightarrow> 1 / 20 < elapsed_seconds (clk_airspeed env) (last_airspeed_time s)"
  "GPSPosition \<in> set (snd (snd (simulateModelAirplane lib c ov ab env s bus)))
     \<longleftrightarrow> 1 / 10 < elapsed_seconds (clk_gps env) (last_gps_time s)"
  "GPSVelocity \<in> set (snd (snd (simulateModelAirplane lib c ov ab env s bus)))
     \<longleftrightarrow> 1 / 10 < elapsed_seconds (clk_gps_vel env) (last_gps_vel_time s)"
  "Magnetometer \<in> set (snd (snd (simulateModelAirplane lib c ov ab env s bus)))
     \<longleftrightarrow> 1 / 75 < elapsed_seconds (clk_mag env) (last_mag_time s)"
  by (simp_all add: airplane_events)

text \<open>
  C4. In every tick of the quadcopter and of the airplane, each scheduled channel
  (barometer, airspeed, GNSS position, GNSS velocity, magnetometer) emits if and only if
  the time since its own last emission has reached its period (\<open>BARO_PERIOD\<close> for the
  barometer and the airspeed, \<open>GPS_PERIOD\<close> for the two GNSS channels, \<open>MAG_PERIOD\<close> for the
  magnetometer), and its timestamp becomes the reading of the clock taken at the emission
  if it emits and keeps its value otherwise. The constant and the agnostic variants have
  no scheduled channel: they publish every reading in every tick.
\<close>

theorem channel_emits_iff_period_reached:
  "(BaroAltitude \<in> set (snd (snd (simulateModelQuadcopter lib c ov ab env s bus)))
      \<longleftrightarrow> BARO_PERIOD \<le> Fin (elapsed_seconds (clk_baro env) (last_baro_time s)))
   \<and> (GPSPosition \<in> set (snd (snd (simulateModelQuadcopter lib c ov ab env s bus)))
      \<longleftrightarrow> GPS_PERIOD \<le> Fin (elapsed_seconds (clk_gps env) (last_gps_time s)))
   \<and> (GPSVelocity \<in> set (snd (snd (simulateModelQuadcopter lib c ov ab env s bus)))
      \<longleftrightarrow> GPS_PERIOD \<le> Fin (elapsed_seconds (clk_gps_vel env) (last_gps_vel_time s)))
   \<and> (Magnetometer \<in> set (snd (snd (simulateModelQuadcopter lib c ov ab env s bus)))
      \<longleftrightarrow> MAG_PERIOD \<le> Fin (elapsed_seconds (clk_mag env) (last_mag_time s)))
   \<and> last_baro_time (fst (simulateModelQuadcopter lib c ov ab env s bus)) =
       (if BaroAltitude \<in> set (snd (snd (simulateModelQuadcopter lib c ov ab env s bus)))
        then clk_baro_set env else last_baro_time s)
   \<and> last_gps_time (fst (simulateModelQuadcopter lib c ov ab env s bus)) =
       (if GPSPosition \<in> set (snd (snd (simulateModelQuadcopter lib c ov ab env s bus)))
        then clk_gps_set env else last_gps_time s)
   \<and> last_gps_vel_time (fst (simulateModelQuadcopter lib c ov ab env s bus)) =
       (if GPSVelocity \<in> set (snd (snd (simulateModelQuadcopter lib c ov ab env s bus)))
        then clk_gps_vel_set env else last_gps_vel_time s)
   \<and> last_mag_time (fst (simulateModelQuadcopter lib c ov ab env s bus)) =
       (if Magnetometer \<in> set (snd (snd (simulateModelQuadcopter lib c ov ab env s bus)))
        then clk_mag_set env else last_mag_time s)
   \<and> (BaroAltitude \<in> set (snd (snd (simulateModelAirplane lib c ov ab env sa bus)))
      \<longleftrightarrow> BARO_PERIOD \<le> Fin (elapsed_seconds (clk_baro env) (last_baro_time sa)))
   \<and> (AirspeedSensor \<in> set (snd (snd (simulateModelAirplane lib c ov ab env sa bus)))
      \<longleftrightarrow> BARO_PERIOD \<le> Fin (elapsed_seconds (clk_airspeed env) (last_airspeed_time sa)))
   \<and> (GPSPosition \<in> set (snd (snd (simulateModelAirplane lib c ov ab env sa bus)))
      \<longleftrightarrow> GPS_PERIOD \<le> Fin (elapsed_seconds (clk_gps env) (last_gps_time sa)))
   \<and> (GPSVelocity \<in> set (snd (snd (simulateModelAirplane lib c ov ab env sa bus)))
      \<longleftrightarrow> GPS_PERIOD \<le> Fin (elapsed_seconds (clk_gps_vel env) (last_gps_vel_time sa)))
   \<and> (Magnetometer \<in> set (snd (snd (simulateModelAirplane lib c ov ab env sa bus)))
      \<longleftrightarrow> MAG_PERIOD \<le> Fin (elapsed_seconds (clk_mag env) (last_mag_time sa)))
   \<and> last_baro_time (fst (simulateModelAirplane lib c ov ab env sa bus)) =
       (if BaroAltitude \<in> set (snd (snd (simulateModelAirplane lib c ov ab env sa bus)))
        then clk_baro_set env else last_baro_time sa)
   \<and> last_airspeed_time (fst (simulateModelAirplane lib c ov ab env sa bus)) =
       (if AirspeedSensor \<in> set (snd (snd (simulateModelAirplane lib c ov ab env sa bus)))
        then clk_airspeed_set env else last_airspeed_time sa)
   \<and> last_gps_time (fst (simulateModelAirplane lib c ov ab env sa bus)) =
       (if GPSPosition \<in> set (snd (snd (simulateModelAirplane lib c ov ab env sa bus)))
        then clk_gps_set env else last_gps_time sa)
   \<and> last_gps_vel_time (fst (simulateModelAirplane lib c ov ab env sa bus)) =
       (if GPSVelocity \<in> set (snd (snd (simulateModelAirplane lib c ov ab env sa bus)))
        then clk_gps_vel_set env else last_gps_vel_time sa)
   \<and> last_mag_time (fst (simulateModelAirplane lib c ov ab env sa bus)) =
       (if Magnetometer \<in> set (snd (snd (simulateModelAirplane lib c ov ab env sa bus)))
        then clk_mag_set env else last_mag_time sa)"
  unfolding quadcopter_emits airplane_emits quadcopter_timers airplane_timers
    period_reached_seconds
  by simp

text \<open>The first tick of the quadcopter with the clock at 100001 microseconds: the GNSS
  position is emitted and its timestamp is set, the GNSS velocity, whose timestamp
  starts at 1000, is not. With the clock at 100000 microseconds the elapsed time, a tenth
  of a second, is still below \<open>GPS_PERIOD\<close>, and the GNSS position is not emitted.\<close>

theorem channel_emits_iff_period_reached_witness:
  "GPSPosition \<in> set (snd (snd (simulateModelQuadcopter coord_lib_dcm consts_example False zero3
         (env_at 100001) quadcopter_init bus_zero)))
   \<and> last_gps_time (fst (simulateModelQuadcopter coord_lib_dcm consts_example False zero3
         (env_at 100001) quadcopter_init bus_zero)) = 100001
   \<and> GPSVelocity \<notin> set (snd (snd (simulateModelQuadcopter coord_lib_dcm consts_example False zero3
         (env_at 100001) quadcopter_init bus_zero)))
   \<and> last_gps_vel_time (fst (simulateModelQuadcopter coord_lib_dcm consts_example False zero3
         (env_at 100001) quadcopter_init bus_zero)) = 1000
   \<and> elapsed_seconds (clk_gps (env_at 100000)) (last_gps_time quadcopter_init) = 1 / 10
   \<and> Fin (1 / 10) < GPS_PERIOD
   \<and> GPSPosition \<notin> set (snd (snd (simulateModelQuadcopter coord_lib_dcm consts_example False zero3
         (env_at 100000) quadcopter_init bus_zero)))
   \<and> last_gps_time (fst (simulateModelQuadcopter coord_lib_dcm consts_example False zero3
         (env_at 100000) quadcopter_init bus_zero)) = 0"
proof -
  have e: "elapsed_seconds (clk_gps (env_at 100001)) (last_gps_time quadcopter_init) = 100001 / 1000000"
    "elapsed_seconds (clk_gps_vel (env_at 100001)) (last_gps_vel_time quadcopter_init) = 99001 / 1000000"
    "elapsed_seconds (clk_gps (env_at 100000)) (last_gps_time quadcopter_init) = 1 / 10"
    by (simp_all add: elapsed_seconds_def env_at_def quadcopter_init_def)
  have p: "GPS_PERIOD \<le> Fin (100001 / 1000000)" "\<not> GPS_PERIOD \<le> Fin (99001 / 1000000)"
    "\<not> GPS_PERIOD \<le> Fin (1 / 10)" "Fin (1 / 10) < GPS_PERIOD"
    unfolding period_values by simp_all
  show ?thesis
    using channel_emits_iff_period_reached [of coord_lib_dcm consts_example False zero3
        "env_at 100001" quadcopter_init bus_zero]
      channel_emits_iff_period_reached [of coord_lib_dcm consts_example False zero3
        "env_at 100000" quadcopter_init bus_zero]
    unfolding e by (simp add: p env_at_def quadcopter_init_def)
qed

subsection \<open>The barometric altitude\<close>

lemma magOffsetEstimation_baro:
  "BaroAltitude_Altitude (snd (magOffsetEstimation lib bus mag)) = BaroAltitude_Altitude bus"
  by (simp add: magOffsetEstimation_def Let_def)

lemma quadcopter_baro_offset:
  "baro_offset (fst (simulateModelQuadcopter lib c ov ab env s bus)) =
     baro_offset_step (baro_offset s) (rnd_baro env)"
  by (simp add: simulateModelQuadcopter_def Let_def case_prod_beta)

lemma airplane_baro_offset:
  "baro_offset (fst (simulateModelAirplane lib c ov ab env s bus)) =
     baro_offset_step (baro_offset s) (rnd_baro env)"
  by (simp add: simulateModelAirplane_def Let_def case_prod_beta)

lemma quadcopter_baro_altitude:
  "BaroAltitude_Altitude (fst (snd (simulateModelQuadcopter lib c ov ab env s bus))) =
     (if 1 / 20 < elapsed_seconds (clk_baro env) (last_baro_time s)
      then (- e2 (pos (fst (simulateModelQuadcopter lib c ov ab env s bus))))
             + baro_offset (fst (simulateModelQuadcopter lib c ov ab env s bus))
      else BaroAltitude_Altitude bus)"
  unfolding quadcopter_pos_vel quadcopter_baro_offset
  by (simp add: simulateModelQuadcopter_def Let_def case_prod_beta channel_due_seconds
      magOffsetEstimation_baro quadcopter_pva_def)

lemma airplane_baro_altitude:
  "BaroAltitude_Altitude (fst (snd (simulateModelAirplane lib c ov ab env s bus))) =
     (if 1 / 20 < elapsed_seconds (clk_baro env) (last_baro_time s)
      then (- e2 (pos (fst (simulateModelAirplane lib c ov ab env s bus))))
             + baro_offset (fst (simulateModelAirplane lib c ov ab env s bus))
      else BaroAltitude_Altitude bus)"
  unfolding airplane_pos_vel airplane_baro_offset
  by (simp add: simulateModelAirplane_def Let_def case_prod_beta channel_due_seconds
      magOffsetEstimation_baro airplane_pva_def)

text \<open>
  C8, as amended. In every tick of the quadcopter and of the airplane, the drift offset
  of the barometer is updated, whether or not the barometer emits: it becomes 50 when
  it is exactly zero (as it is before the first tick) and grows by a hundredth of a
  Gaussian sample otherwise. A barometric altitude emitted in the tick is the negated
  vertical (down) position plus that updated offset.
\<close>

theorem baro_altitude_offset_every_tick:
  "baro_offset (fst (simulateModelQuadcopter lib c ov ab env s bus)) =
     (if feq (baro_offset s) (Fin 0) then Fin 50 else baro_offset s + rnd_baro env / Fin 100)
   \<and> (BaroAltitude \<in> set (snd (snd (simulateModelQuadcopter lib c ov ab env s bus)))
        \<longrightarrow> BaroAltitude_Altitude (fst (snd (simulateModelQuadcopter lib c ov ab env s bus))) =
              (- e2 (pos (fst (simulateModelQuadcopter lib c ov ab env s bus))))
                + baro_offset (fst (simulateModelQuadcopter lib c ov ab env s bus)))
   \<and> baro_offset (fst (simulateModelAirplane lib c ov ab env sa bus)) =
     (if feq (baro_offset sa) (Fin 0) then Fin 50 else baro_offset sa + rnd_baro env / Fin 100)
   \<and> (BaroAltitude \<in> set (snd (snd (simulateModelAirplane lib c ov ab env sa bus)))
        \<longrightarrow> BaroAltitude_Altitude (fst (snd (simulateModelAirplane lib c ov ab env sa bus))) =
              (- e2 (pos (fst (simulateModelAirplane lib c ov ab env sa bus))))
                + baro_offset (fst (simulateModelAirplane lib c ov ab env sa bus)))"
  unfolding quadcopter_emits airplane_emits quadcopter_baro_altitude airplane_baro_altitude
  by (simp add: quadcopter_baro_offset airplane_baro_offset baro_offset_step_def)

text \<open>The first two ticks of the quadcopter, at 49000 and at 51000 microseconds, at rest
  and disarmed. The barometer does not emit in the first tick and emits in the second.\<close>

lemma magOffsetEstimation_commands:
  "FlightStatus_Armed (snd (magOffsetEstimation lib bus mag)) = FlightStatus_Armed bus"
  "ActuatorDesired_Roll (snd (magOffsetEstimation lib bus mag)) = ActuatorDesired_Roll bus"
  "ActuatorDesired_Pitch (snd (magOffsetEstimation lib bus mag)) = ActuatorDesired_Pitch bus"
  "ActuatorDesired_Yaw (snd (magOffsetEstimation lib bus mag)) = ActuatorDesired_Yaw bus"
  "ActuatorDesired_Throttle (snd (magOffsetEstimation lib bus mag)) = ActuatorDesired_Throttle bus"
  by (simp_all add: magOffsetEstimation_def Let_def)

lemma quadcopter_keeps_commands:
  "FlightStatus_Armed (fst (snd (simulateModelQuadcopter lib c ov ab env s bus))) = FlightStatus_Armed bus"
  "ActuatorDesired_Roll (fst (snd (simulateModelQuadcopter lib c ov ab env s bus))) = ActuatorDesired_Roll bus"
  "ActuatorDesired_Pitch (fst (snd (simulateModelQuadcopter lib c ov ab env s bus))) = ActuatorDesired_Pitch bus"
  "ActuatorDesired_Yaw (fst (snd (simulateModelQuadcopter lib c ov ab env s bus))) = ActuatorDesired_Yaw bus"
  "ActuatorDesired_Throttle (fst (snd (simulateModelQuadcopter lib c ov ab env s bus))) = ActuatorDesired_Throttle bus"
  by (simp_all add: simulateModelQuadcopter_def Let_def case_prod_beta magOffsetEstimation_commands)

lemma quadcopter_predict_after_tick:
  "quadcopter_predict lib c env s (fst (snd (simulateModelQuadcopter lib2 c2 ov ab env2 s2 bus))) =
     quadcopter_predict lib c env s bus"
  by (simp add: quadcopter_predict_def quadcopter_rates_def quadcopter_keeps_commands)

lemma quadcopter_dynamic_state:
  "q (fst (simulateModelQuadcopter lib c ov ab env s bus)) =
     fst (snd (snd (snd (quadcopter_predict lib c env s bus))))"
  "wind (fst (simulateModelQuadcopter lib c ov ab env s bus)) =
     fst (snd (snd (snd (snd (snd (quadcopter_predict lib c env s bus))))))"
  "last_time (fst (simulateModelQuadcopter lib c ov ab env s bus)) = clk_last_time env"
  by (simp_all add: simulateModelQuadcopter_def Let_def case_prod_beta)

lemma quadcopter_predict_first:
  "quadcopter_predict coord_lib_dcm consts_example (env_at 49000) quadcopter_init bus_zero =
     (Fin 0.049, Fin 0, zero3, (Fin 1, Fin 0, Fin 0, Fin 0),
      ((Fin 1, Fin 0, Fin 0), (Fin 0, Fin 1, Fin 0), (Fin 0, Fin 0, Fin 1)), zero3,
      ((Fin 0, Fin 0, Fin 0.02355381), (Fin 0, Fin 0, Fin 0.48069), (Fin 0, Fin 0, Fin 9.81)))"
  by (simp add: quadcopter_predict_def Let_def quadcopter_init_def rest_defs env_at_def)

lemma quadcopter_first_tick_state:
  "pos (fst (simulateModelQuadcopter coord_lib_dcm consts_example False zero3 (env_at 49000)
       quadcopter_init bus_zero)) = zero3"
  "vel (fst (simulateModelQuadcopter coord_lib_dcm consts_example False zero3 (env_at 49000)
       quadcopter_init bus_zero)) = zero3"
  "q (fst (simulateModelQuadcopter coord_lib_dcm consts_example False zero3 (env_at 49000)
       quadcopter_init bus_zero)) = (Fin 1, Fin 0, Fin 0, Fin 0)"
  "rpy (fst (simulateModelQuadcopter coord_lib_dcm consts_example False zero3 (env_at 49000)
       quadcopter_init bus_zero)) = zero3"
  "wind (fst (simulateModelQuadcopter coord_lib_dcm consts_example False zero3 (env_at 49000)
       quadcopter_init bus_zero)) = zero3"
  "last_time (fst (simulateModelQuadcopter coord_lib_dcm consts_example False zero3 (env_at 49000)
       quadcopter_init bus_zero)) = 49000"
  unfolding quadcopter_pos_vel quadcopter_rpy quadcopter_dynamic_state quadcopter_predict_first
  by (simp_all add: quadcopter_pva_def ground_contact_def zero3_def env_at_def)

lemma quadcopter_first_tick_baro:
  "baro_offset (fst (simulateModelQuadcopter coord_lib_dcm consts_example False zero3 (env_at 49000)
       quadcopter_init bus_zero)) = Fin 50"
  "last_baro_time (fst (simulateModelQuadcopter coord_lib_dcm consts_example False zero3
       (env_at 49000) quadcopter_init bus_zero)) = 0"
  by (simp_all add: quadcopter_baro_offset quadcopter_timers baro_offset_step_def feq_def
      elapsed_seconds_def quadcopter_init_def env_at_def)

lemma quadcopter_predict_second:
  "quadcopter_predict coord_lib_dcm consts_example ((env_at 51000)\<lparr>rnd_baro := Fin 1\<rparr>)
     (fst (simulateModelQuadcopter coord_lib_dcm consts_example False zero3 (env_at 49000)
            quadcopter_init bus_zero))
     (fst (snd (simulateModelQuadcopter coord_lib_dcm consts_example False zero3 (env_at 49000)
            quadcopter_init bus_zero))) =
     (Fin 0.002, Fin 0, zero3, (Fin 1, Fin 0, Fin 0, Fin 0),
      ((Fin 1, Fin 0, Fin 0), (Fin 0, Fin 1, Fin 0), (Fin 0, Fin 0, Fin 1)), zero3,
      ((Fin 0, Fin 0, Fin 0.00003924), (Fin 0, Fin 0, Fin 0.01962), (Fin 0, Fin 0, Fin 9.81)))"
  unfolding quadcopter_predict_after_tick
  unfolding quadcopter_predict_def quadcopter_first_tick_state
  by (simp add: Let_def rest_defs env_at_def)

text \<open>The claim as stated fails for these two ticks: the offset is set to 50 in the first
  tick, in which nothing is emitted, and at the first emission, in the second tick, the
  offset has already drifted to 50.01, so that the first emitted altitude is 50.01 at
  the vertical position 0.\<close>

theorem baro_first_emission_counterexample:
  "BaroAltitude \<notin> set (snd (snd (simulateModelQuadcopter coord_lib_dcm consts_example False zero3
       (env_at 49000) quadcopter_init bus_zero)))
   \<and> BaroAltitude \<in> set (snd (snd (simulateModelQuadcopter coord_lib_dcm consts_example False zero3
       ((env_at 51000)\<lparr>rnd_baro := Fin 1\<rparr>)
       (fst (simulateModelQuadcopter coord_lib_dcm consts_example False zero3 (env_at 49000)
              quadcopter_init bus_zero))
       (fst (snd (simulateModelQuadcopter coord_lib_dcm consts_example False zero3 (env_at 49000)
              quadcopter_init bus_zero))))))
   \<and> e2 (pos (fst (simulateModelQuadcopter coord_lib_dcm consts_example False zero3
       ((env_at 51000)\<lparr>rnd_baro := Fin 1\<rparr>)
       (fst (simulateModelQuadcopter coord_lib_dcm consts_example False zero3 (env_at 49000)
              quadcopter_init bus_zero))
       (fst (snd (simulateModelQuadcopter coord_lib_dcm consts_example False zero3 (env_at 49000)
              quadcopter_init bus_zero)))))) = Fin 0
   \<and> BaroAltitude_Altitude (fst (snd (simulateModelQuadcopter coord_lib_dcm consts_example False zero3
       ((env_at 51000)\<lparr>rnd_baro := Fin 1\<rparr>)
       (fst (simulateModelQuadcopter coord_lib_dcm consts_example False zero3 (env_at 49000)
              quadcopter_init bus_zero))
       (fst (snd (simulateModelQuadcopter coord_lib_dcm consts_example False zero3 (env_at 49000)
              quadcopter_init bus_zero)))))) = Fin 50.01"
  unfolding quadcopter_emits quadcopter_baro_altitude quadcopter_pos_vel quadcopter_baro_offset
    quadcopter_predict_second quadcopter_first_tick_baro
  by (simp add: elapsed_seconds_def env_at_def quadcopter_init_def quadcopter_pva_def
      ground_contact_def baro_offset_step_def feq_def)

theorem baro_altitude_offset_every_tick_witness:
  "BaroAltitude \<in> set (snd (snd (simulateModelQuadcopter coord_lib_dcm consts_example False zero3
       (env_at 60000) quadcopter_init bus_zero)))
   \<and> baro_offset (fst (simulateModelQuadcopter coord_lib_dcm consts_example False zero3
       (env_at 60000) quadcopter_init bus_zero)) = Fin 50
   \<and> BaroAltitude_Altitude (fst (snd (simulateModelQuadcopter coord_lib_dcm consts_example False zero3
       (env_at 60000) quadcopter_init bus_zero))) =
     (- e2 (pos (fst (simulateModelQuadcopter coord_lib_dcm consts_example False zero3
       (env_at 60000) quadcopter_init bus_zero)))) + Fin 50"
proof -
  have h: "BaroAltitude \<in> set (snd (snd (simulateModelQuadcopter coord_lib_dcm consts_example
       False zero3 (env_at 60000) quadcopter_init bus_zero)))"
    by (simp add: quadcopter_emits elapsed_seconds_def env_at_def quadcopter_init_def)
  have z: "feq (baro_offset quadcopter_init) (Fin 0)"
    by (simp add: feq_def quadcopter_init_def)
  show ?thesis
    using h z
      baro_altitude_offset_every_tick [of coord_lib_dcm consts_example False zero3
        "env_at 60000" quadcopter_init bus_zero]
    by simp
qed

subsection \<open>The gyroscope bias in the dynamic models\<close>

lemma gyros_ignore_GyrosBias:
  "Gyros_x (fst (snd (simulateModelQuadcopter lib c ov ab env s
       (bus\<lparr>GyrosBias_x := bx, GyrosBias_y := by, GyrosBias_z := bz\<rparr>)))) =
   Gyros_x (fst (snd (simulateModelQuadcopter lib c ov ab env s bus)))"
  "Gyros_y (fst (snd (simulateModelQuadcopter lib c ov ab env s
       (bus\<lparr>GyrosBias_x := bx, GyrosBias_y := by, GyrosBias_z := bz\<rparr>)))) =
   Gyros_y (fst (snd (simulateModelQuadcopter lib c ov ab env s bus)))"
  "Gyros_z (fst (snd (simulateModelQuadcopter lib c ov ab env s
       (bus\<lparr>GyrosBias_x := bx, GyrosBias_y := by, GyrosBias_z := bz\<rparr>)))) =
   Gyros_z (fst (snd (simulateModelQuadcopter lib c ov ab env s bus)))"
  "Gyros_x (fst (snd (simulateModelAirplane lib c ov ab env sa
       (bus\<lparr>GyrosBias_x := bx, GyrosBias_y := by, GyrosBias_z := bz\<rparr>)))) =
   Gyros_x (fst (snd (simulateModelAirplane lib c ov ab env sa bus)))"
  "Gyros_y (fst (snd (simulateModelAirplane lib c ov ab env sa
       (bus\<lparr>GyrosBias_x := bx, GyrosBias_y := by, GyrosBias_z := bz\<rparr>)))) =
   Gyros_y (fst (snd (simulateModelAirplane lib c ov ab env sa bus)))"
  "Gyros_z (fst (snd (simulateModelAirplane lib c ov ab env sa
       (bus\<lparr>GyrosBias_x := bx, GyrosBias_y := by, GyrosBias_z := bz\<rparr>)))) =
   Gyros_z (fst (snd (simulateModelAirplane lib c ov ab env sa bus)))"
  by (simp_all add: quadcopter_gyros airplane_gyros quadcopter_rpy airplane_rpy
      quadcopter_predict_ignores_GyrosBias airplane_predict_ignores_GyrosBias)

lemma quadcopter_rates_of_tick:
  "rpy (fst (simulateModelQuadcopter lib c ov ab env s bus)) =
     quadcopter_rates (FlightStatus_Armed bus = FLIGHTSTATUS_ARMED_ARMED c) bus (rpy s)"
  unfolding quadcopter_rpy by (simp add: quadcopter_predict_def Let_def)

lemma airplane_rates_of_tick:
  "rpy (fst (simulateModelAirplane lib c ov ab env s bus)) =
     airplane_rates (FlightStatus_Armed bus = FLIGHTSTATUS_ARMED_ARMED c) bus (rpy s)"
  unfolding airplane_rpy by (simp add: airplane_predict_def Let_def)

text \<open>
  C7, as stated: in every variant the published gyroscope reading includes the current
  gyroscope bias estimate as an addend. In the first tick of the quadcopter and of the
  airplane, at rest, with no command and no noise and with the bias estimate
  \<open>(1, 2, 3)\<close>, the filtered rates are zero and the published reading is \<open>(0, 0, 0)\<close>, not
  \<open>(1, 2, 3)\<close>: the bias estimate is not added.
\<close>

theorem gyros_without_bias_counterexample:
  "(GyrosBias_x (bus_zero\<lparr>GyrosBias_x := Fin 1, GyrosBias_y := Fin 2, GyrosBias_z := Fin 3\<rparr>),
    GyrosBias_y (bus_zero\<lparr>GyrosBias_x := Fin 1, GyrosBias_y := Fin 2, GyrosBias_z := Fin 3\<rparr>),
    GyrosBias_z (bus_zero\<lparr>GyrosBias_x := Fin 1, GyrosBias_y := Fin 2, GyrosBias_z := Fin 3\<rparr>))
     = (Fin 1, Fin 2, Fin 3)
   \<and> rnd_gyro env_zero = (Fin 0, Fin 0, Fin 0)
   \<and> rpy (fst (simulateModelQuadcopter coord_lib_dcm consts_example False zero3 env_zero
          quadcopter_init (bus_zero\<lparr>GyrosBias_x := Fin 1, GyrosBias_y := Fin 2, GyrosBias_z := Fin 3\<rparr>)))
     = (Fin 0, Fin 0, Fin 0)
   \<and> (Gyros_x (fst (snd (simulateModelQuadcopter coord_lib_dcm consts_example False zero3 env_zero
          quadcopter_init (bus_zero\<lparr>GyrosBias_x := Fin 1, GyrosBias_y := Fin 2, GyrosBias_z := Fin 3\<rparr>)))),
       Gyros_y (fst (snd (simulateModelQuadcopter coord_lib_dcm consts_example False zero3 env_zero
          quadcopter_init (bus_zero\<lparr>GyrosBias_x := Fin 1, GyrosBias_y := Fin 2, GyrosBias_z := Fin 3\<rparr>)))),
       Gyros_z (fst (snd (simulateModelQuadcopter coord_lib_dcm consts_example False zero3 env_zero
          quadcopter_init (bus_zero\<lparr>GyrosBias_x := Fin 1, GyrosBias_y := Fin 2, GyrosBias_z := Fin 3\<rparr>)))))
     = (Fin 0, Fin 0, Fin 0)
   \<and> rpy (fst (simulateModelAirplane coord_lib_dcm consts_example False zero3 env_zero
          airplane_init (bus_zero\<lparr>GyrosBias_x := Fin 1, GyrosBias_y := Fin 2, GyrosBias_z := Fin 3\<rparr>)))
     = (Fin 0, Fin 0, Fin 0)
   \<and> (Gyros_x (fst (snd (simulateModelAirplane coord_lib_dcm consts_example False zero3 env_zero
          airplane_init (bus_zero\<lparr>GyrosBias_x := Fin 1, GyrosBias_y := Fin 2, GyrosBias_z := Fin 3\<rparr>)))),
       Gyros_y (fst (snd (simulateModelAirplane coord_lib_dcm consts_example False zero3 env_zero
          airplane_init (bus_zero\<lparr>GyrosBias_x := Fin 1, GyrosBias_y := Fin 2, GyrosBias_z := Fin 3\<rparr>)))),
       Gyros_z (fst (snd (simulateModelAirplane coord_lib_dcm consts_example False zero3 env_zero
          airplane_init (bus_zero\<lparr>GyrosBias_x := Fin 1, GyrosBias_y := Fin 2, GyrosBias_z := Fin 3\<rparr>)))))
     = (Fin 0, Fin 0, Fin 0)"
  unfolding quadcopter_gyros airplane_gyros quadcopter_rpy
    airplane_rpy quadcopter_predict_ignores_GyrosBias airplane_predict_ignores_GyrosBias
    quadcopter_predict_rest airplane_predict_rest
  by (simp add: bus_zero_def env_zero_def zero3_def)

text \<open>
  C7, as amended. In the constant and in the agnostic variant the published gyroscope
  reading includes the current gyroscope bias estimate as an addend: it is the bias
  estimate added to zero, and added to the desired rate plus noise. In the quadcopter and
  in the airplane variant the published reading is the filtered rate plus noise, and
  neither it nor the filtered rate depends on the gyroscope bias estimate.
\<close>

theorem gyros_bias_addend_in_simple_variants:
  "(Gyros_x (fst (simulateConstant bus)), Gyros_y (fst (simulateConstant bus)),
    Gyros_z (fst (simulateConstant bus)))
     = (Fin 0 + GyrosBias_x bus, Fin 0 + GyrosBias_y bus, Fin 0 + GyrosBias_z bus)
   \<and> (Gyros_x (fst (simulateModelAgnostic lib env bus)),
       Gyros_y (fst (simulateModelAgnostic lib env bus)),
       Gyros_z (fst (simulateModelAgnostic lib env bus)))
     = (RateDesired_Roll bus + e0 (rnd_gyro env) + GyrosBias_x bus,
        RateDesired_Pitch bus + e1 (rnd_gyro env) + GyrosBias_y bus,
        RateDesired_Yaw bus + e2 (rnd_gyro env) + GyrosBias_z bus)
   \<and> (Gyros_x (fst (snd (simulateModelQuadcopter lib c ov ab env s bus))),
       Gyros_y (fst (snd (simulateModelQuadcopter lib c ov ab env s bus))),
       Gyros_z (fst (snd (simulateModelQuadcopter lib c ov ab env s bus))))
     = (e0 (quadcopter_rates (FlightStatus_Armed bus = FLIGHTSTATUS_ARMED_ARMED c) bus (rpy s))
          + e0 (rnd_gyro env),
        e1 (quadcopter_rates (FlightStatus_Armed bus = FLIGHTSTATUS_ARMED_ARMED c) bus (rpy s))
          + e1 (rnd_gyro env),
        e2 (quadcopter_rates (FlightStatus_Armed bus = FLIGHTSTATUS_ARMED_ARMED c) bus (rpy s))
          + e2 (rnd_gyro env))
   \<and> quadcopter_rates armed (bus\<lparr>GyrosBias_x := bx, GyrosBias_y := by, GyrosBias_z := bz\<rparr>) r
     = quadcopter_rates armed bus r
   \<and> (Gyros_x (fst (snd (simulateModelQuadcopter lib c ov ab env s
          (bus\<lparr>GyrosBias_x := bx, GyrosBias_y := by, GyrosBias_z := bz\<rparr>)))),
       Gyros_y (fst (snd (simulateModelQuadcopter lib c ov ab env s
          (bus\<lparr>GyrosBias_x := bx, GyrosBias_y := by, GyrosBias_z := bz\<rparr>)))),
       Gyros_z (fst (snd (simulateModelQuadcopter lib c ov ab env s
          (bus\<lparr>GyrosBias_x := bx, GyrosBias_y := by, GyrosBias_z := bz\<rparr>)))))
     = (Gyros_x (fst (snd (simulateModelQuadcopter lib c ov ab env s bus))),
        Gyros_y (fst (snd (simulateModelQuadcopter lib c ov ab env s bus))),
        Gyros_z (fst (snd (simulateModelQuadcopter lib c ov ab env s bus))))
   \<and> (Gyros_x (fst (snd (simulateModelAirplane lib c ov ab env sa bus))),
       Gyros_y (fst (snd (simulateModelAirplane lib c ov ab env sa bus))),
       Gyros_z (fst (snd (simulateModelAirplane lib c ov ab env sa bus))))
     = (e0 (airplane_rates (FlightStatus_Armed bus = FLIGHTSTATUS_ARMED_ARMED c) bus (rpy sa))
          + e0 (rnd_gyro env),
        e1 (airplane_rates (FlightStatus_Armed bus = FLIGHTSTATUS_ARMED_ARMED c) bus (rpy sa))
          + e1 (rnd_gyro env),
        e2 (airplane_rates (FlightStatus_Armed bus = FLIGHTSTATUS_ARMED_ARMED c) bus (rpy sa))
          + e2 (rnd_gyro env))
   \<and> airplane_rates armed (bus\<lparr>GyrosBias_x := bx, GyrosBias_y := by, GyrosBias_z := bz\<rparr>) r
     = airplane_rates armed bus r
   \<and> (Gyros_x (fst (snd (simulateModelAirplane lib c ov ab env sa
          (bus\<lparr>GyrosBias_x := bx, GyrosBias_y := by, GyrosBias_z := bz\<rparr>)))),
       Gyros_y (fst (snd (simulateModelAirplane lib c ov ab env sa
          (bus\<lparr>GyrosBias_x := bx, GyrosBias_y := by, GyrosBias_z := bz\<rparr>)))),
       Gyros_z (fst (snd (simulateModelAirplane lib c ov ab env sa
          (bus\<lparr>GyrosBias_x := bx, GyrosBias_y := by, GyrosBias_z := bz\<rparr>)))))
     = (Gyros_x (fst (snd (simulateModelAirplane lib c ov ab env sa bus))),
        Gyros_y (fst (snd (simulateModelAirplane lib c ov ab env sa bus))),
        Gyros_z (fst (snd (simulateModelAirplane lib c ov ab env sa bus))))"
  unfolding constant_gyros agnostic_gyros gyros_ignore_GyrosBias
  unfolding quadcopter_gyros airplane_gyros quadcopter_rates_of_tick airplane_rates_of_tick
  by (simp add: quadcopter_rates_def airplane_rates_def)

subsection \<open>The norm of the quaternion\<close>

lemma round32_err_nonneg:
  assumes "0 \<le> x"
  shows "round32 x \<le> x + x / 2 ^ 24 + 1 / 2 ^ 150" "x - x / 2 ^ 24 - 1 / 2 ^ 150 \<le> round32 x"
  using round32_err [of x] assms by (simp_all add: abs_le_iff)

lemma sum_squares32:
  fixes a b c d :: real
  defines "S \<equiv> a * a + b * b + c * c + d * d"
  defines "s3 \<equiv> round32 (round32 (round32 (round32 (a * a) + round32 (b * b)) + round32 (c * c))
                       + round32 (d * d))"
  shows "s3 \<le> S + 5 * S / 2 ^ 24 + 8 / 2 ^ 150" "S - 5 * S / 2 ^ 24 - 8 / 2 ^ 150 \<le> s3" "0 \<le> s3"
proof -
  define pa where "pa = round32 (a * a)"
  define pb where "pb = round32 (b * b)"
  define pc where "pc = round32 (c * c)"
  define pd where "pd = round32 (d * d)"
  define s1 where "s1 = round32 (pa + pb)"
  define s2 where "s2 = round32 (s1 + pc)"
  have sq: "0 \<le> a * a" "0 \<le> b * b" "0 \<le> c * c" "0 \<le> d * d"
    by simp_all
  have p0: "0 \<le> pa" "0 \<le> pb" "0 \<le> pc" "0 \<le> pd"
    unfolding pa_def pb_def pc_def pd_def by (intro round32_nonneg sq)+
  have s10: "0 \<le> s1"
    unfolding s1_def using p0 by (intro round32_nonneg) simp
  have s20: "0 \<le> s2"
    unfolding s2_def using p0 s10 by (intro round32_nonneg) simp
  have s3_eq: "s3 = round32 (s2 + pd)"
    by (simp add: s3_def s2_def s1_def pa_def pb_def pc_def pd_def)
  show "0 \<le> s3"
    unfolding s3_eq using p0 s20 by (intro round32_nonneg) simp
  note ea = round32_err_nonneg [OF sq(1), folded pa_def]
  note eb = round32_err_nonneg [OF sq(2), folded pb_def]
  note ec = round32_err_nonneg [OF sq(3), folded pc_def]
  note ed = round32_err_nonneg [OF sq(4), folded pd_def]
  have n1: "0 \<le> pa + pb" using p0 by simp
  have n2: "0 \<le> s1 + pc" using p0 s10 by simp
  have n3: "0 \<le> s2 + pd" using p0 s20 by simp
  note e1 = round32_err_nonneg [OF n1, folded s1_def]
  note e2 = round32_err_nonneg [OF n2, folded s2_def]
  note e3 = round32_err_nonneg [OF n3, folded s3_eq]
  show "s3 \<le> S + 5 * S / 2 ^ 24 + 8 / 2 ^ 150"
    using ea(1) eb(1) ec(1) ed(1) e1(1) e2(1) e3(1) sq unfolding S_def
    by (simp add: field_simps; linarith)
  show "S - 5 * S / 2 ^ 24 - 8 / 2 ^ 150 \<le> s3"
    using ea(2) eb(2) ec(2) ed(2) e1(2) e2(2) e3(2) sq p0 s10 s20 unfolding S_def
    by (simp add: field_simps; linarith)
qed

lemma qmag32_bounds:
  fixes a b c d :: real
  defines "S \<equiv> a * a + b * b + c * c + d * d"
  assumes "1 / 2 ^ 40 \<le> S" "S \<le> 2 ^ 40"
  shows "qmag32 a b c d \<le> sqrt S + 5 * sqrt S / 2 ^ 24"
    and "sqrt S - 6 * sqrt S / 2 ^ 24 \<le> qmag32 a b c d"
proof -
  define s3 where "s3 = round32 (round32 (round32 (round32 (a * a) + round32 (b * b))
                          + round32 (c * c)) + round32 (d * d))"
  define \<sigma> where "\<sigma> = sqrt S"
  have S0: "0 < S" using assms(2) by (simp add: field_simps) 
  have b: "s3 \<le> S + 5 * S / 2 ^ 24 + 8 / 2 ^ 150" "S - 5 * S / 2 ^ 24 - 8 / 2 ^ 150 \<le> s3" "0 \<le> s3"
    unfolding s3_def S_def by (rule sum_squares32)+
  have \<sigma>_lo: "1 / 2 ^ 20 \<le> \<sigma>"
  proof -
    have "sqrt ((1 / 2 ^ 20)\<^sup>2) \<le> sqrt S"
      using assms(2) by (intro real_sqrt_le_mono) (simp add: power2_eq_square)
    then show ?thesis by (simp add: \<sigma>_def)
  qed
  have \<sigma>2: "\<sigma> * \<sigma> = S"
    using S0 by (simp add: \<sigma>_def)
  have up: "sqrt s3 \<le> \<sigma> + 3 * \<sigma> / 2 ^ 24"
  proof -
    have "s3 \<le> S + 6 * S / 2 ^ 24"
      using b(1) assms(2) by (simp add: field_simps; linarith)
    also have "\<dots> \<le> (\<sigma> + 3 * \<sigma> / 2 ^ 24)\<^sup>2"
      using S0 by (simp add: power2_eq_square algebra_simps \<sigma>2 [symmetric])
    finally have "sqrt s3 \<le> sqrt ((\<sigma> + 3 * \<sigma> / 2 ^ 24)\<^sup>2)"
      by (rule real_sqrt_le_mono)
    then show ?thesis
      using \<sigma>_lo by simp
  qed
  have lo: "\<sigma> - 4 * \<sigma> / 2 ^ 24 \<le> sqrt s3"
  proof -
    have "(\<sigma> - 4 * \<sigma> / 2 ^ 24)\<^sup>2 = S * (1 - 4 / 2 ^ 24)\<^sup>2"
      by (simp add: power2_eq_square algebra_simps \<sigma>2 [symmetric])
    also have "\<dots> \<le> S * (1 - 6 / 2 ^ 24)"
      using S0 by (intro mult_left_mono) (simp_all add: power2_eq_square)
    also have "\<dots> \<le> s3"
      using b(2) assms(2) by (simp add: field_simps; linarith)
    finally have "sqrt ((\<sigma> - 4 * \<sigma> / 2 ^ 24)\<^sup>2) \<le> sqrt s3"
      by (rule real_sqrt_le_mono)
    then show ?thesis
      using \<sigma>_lo by simp
  qed
  have r0: "0 \<le> sqrt s3"
    using b(3) by simp
  have m: "qmag32 a b c d = round32 (sqrt s3)"
    by (simp add: qmag32_def s3_def)
  note e = round32_err_nonneg [OF r0, folded m]
  show "qmag32 a b c d \<le> sqrt S + 5 * sqrt S / 2 ^ 24"
    using e(1) up \<sigma>_lo unfolding \<sigma>_def [symmetric]
    by (simp add: field_simps; linarith)
  show "sqrt S - 6 * sqrt S / 2 ^ 24 \<le> qmag32 a b c d"
    using e(2) lo \<sigma>_lo unfolding \<sigma>_def [symmetric]
    by (simp add: field_simps; linarith)
qed

lemma square_err32:
  fixes b :: real
  assumes "\<bar>b\<bar> \<le> 2"
  shows "\<bar>round32 b * round32 b - b * b\<bar> \<le> 3 * (b * b) / 2 ^ 24 + 5 / 2 ^ 150"
proof -
  define q where "q = round32 b"
  define \<beta> where "\<beta> = \<bar>b\<bar>"
  have e: "\<bar>q - b\<bar> \<le> \<beta> / 2 ^ 24 + 1 / 2 ^ 150"
    unfolding q_def \<beta>_def by (rule round32_err)
  have \<beta>0: "0 \<le> \<beta>" "\<beta> \<le> 2"
    using assms by (simp_all add: \<beta>_def)
  have \<beta>2: "\<beta> * \<beta> = b * b"
    by (simp add: \<beta>_def)
  have "\<bar>q + b\<bar> \<le> \<bar>q - b\<bar> + 2 * \<beta>"
    unfolding \<beta>_def by linarith
  then have s: "\<bar>q + b\<bar> \<le> 2 * \<beta> + \<beta> / 2 ^ 24 + 1 / 2 ^ 150"
    using e by linarith
  have "\<bar>q * q - b * b\<bar> = \<bar>q - b\<bar> * \<bar>q + b\<bar>"
    by (simp add: algebra_simps flip: abs_mult)
  also have "\<dots> \<le> (\<beta> / 2 ^ 24 + 1 / 2 ^ 150) * (2 * \<beta> + \<beta> / 2 ^ 24 + 1 / 2 ^ 150)"
    using \<beta>0 by (intro mult_mono e s) simp_all
  also have "\<dots> \<le> 3 * (\<beta> * \<beta>) / 2 ^ 24 + 5 / 2 ^ 150"
  proof -
    define Z where "Z = \<beta> * \<beta>"
    have Z0: "0 \<le> Z" by (simp add: Z_def)
    have "(\<beta> / 2 ^ 24 + 1 / 2 ^ 150) * (2 * \<beta> + \<beta> / 2 ^ 24 + 1 / 2 ^ 150)
            = Z * (2 / 2 ^ 24 + 1 / 2 ^ 48) + \<beta> * (2 / 2 ^ 150 + 2 / 2 ^ 174) + 1 / 2 ^ 300"
      by (simp add: Z_def algebra_simps)
    also have "\<dots> \<le> 3 * Z / 2 ^ 24 + 5 / 2 ^ 150"
      using Z0 \<beta>0 by (simp add: field_simps; linarith)
    finally show ?thesis by (simp add: Z_def)
  qed
  finally show ?thesis
    by (simp add: q_def \<beta>2)
qed

lemma normalize32_unit_norm:
  fixes a b c d :: real
  defines "m \<equiv> qmag32 a b c d"
  assumes "1 / 2 ^ 40 \<le> a * a + b * b + c * c + d * d" "a * a + b * b + c * c + d * d \<le> 2 ^ 40"
  shows "\<bar>round32 (a / m) * round32 (a / m) + round32 (b / m) * round32 (b / m)
          + round32 (c / m) * round32 (c / m) + round32 (d / m) * round32 (d / m) - 1\<bar>
           \<le> 1 / 2 ^ 19"
    and "0 < m" "\<bar>a / m\<bar> \<le> 2" "\<bar>b / m\<bar> \<le> 2" "\<bar>c / m\<bar> \<le> 2" "\<bar>d / m\<bar> \<le> 2"
proof -
  define S where "S = a * a + b * b + c * c + d * d"
  define \<sigma> where "\<sigma> = sqrt S"
  have S: "1 / 2 ^ 40 \<le> S" "S \<le> 2 ^ 40"
    using assms by (simp_all add: S_def)
  have S0: "0 < S" using S(1) by (simp add: field_simps)
  have \<sigma>0: "0 < \<sigma>" using S0 by (simp add: \<sigma>_def)
  have \<sigma>2: "\<sigma> * \<sigma> = S" using S0 by (simp add: \<sigma>_def)
  have mb: "m \<le> \<sigma> + 5 * \<sigma> / 2 ^ 24" "\<sigma> - 6 * \<sigma> / 2 ^ 24 \<le> m"
    unfolding m_def \<sigma>_def S_def using S unfolding S_def by (rule qmag32_bounds)+
  show m0: "0 < m"
    using mb(2) \<sigma>0 by (simp add: field_simps; linarith)
  define \<rho> where "\<rho> = \<sigma> / m"
  have \<rho>m: "\<rho> * m = \<sigma>" using m0 by (simp add: \<rho>_def)
  have \<rho>_lo: "1 - 5 / 2 ^ 24 \<le> \<rho>"
  proof -
    have "(1 - 5 / 2 ^ 24) * m \<le> \<sigma>"
      using mb(1) \<sigma>0 by (simp add: field_simps; linarith)
    then show ?thesis
      using m0 by (simp add: \<rho>_def pos_le_divide_eq)
  qed
  have \<rho>_hi: "\<rho> \<le> 1 + 7 / 2 ^ 24"
  proof -
    have "\<sigma> \<le> (1 + 7 / 2 ^ 24) * m"
      using mb(2) \<sigma>0 by (simp add: field_simps; linarith)
    then show ?thesis
      using m0 by (simp add: \<rho>_def pos_divide_le_eq)
  qed
  have \<rho>0: "0 \<le> \<rho>" using \<rho>_lo by (simp add: field_simps; linarith)
  define T where "T = (a / m) * (a / m) + (b / m) * (b / m) + (c / m) * (c / m) + (d / m) * (d / m)"
  have T: "T = \<rho> * \<rho>"
    using m0 by (simp add: T_def \<rho>_def S_def \<sigma>2 [unfolded S_def] field_simps)
  have T_hi: "T \<le> 1 + 15 / 2 ^ 24"
  proof -
    have "\<rho> * \<rho> \<le> (1 + 7 / 2 ^ 24) * (1 + 7 / 2 ^ 24)"
      using \<rho>0 \<rho>_hi by (intro mult_mono) simp_all
    then show ?thesis unfolding T by simp
  qed
  have T_lo: "1 - 10 / 2 ^ 24 \<le> T"
  proof -
    have "(1 - 5 / 2 ^ 24) * (1 - 5 / 2 ^ 24) \<le> \<rho> * \<rho>"
      using \<rho>_lo by (intro mult_mono) simp_all
    then show ?thesis unfolding T by simp
  qed
  have comp: "\<bar>x / m\<bar> \<le> 2" if "x * x \<le> S" for x
  proof -
    have "(x / m) * (x / m) \<le> \<rho> * \<rho>"
      using that m0 by (simp add: \<rho>_def \<sigma>2 field_simps)
    also have "\<dots> \<le> 2 * 2"
      using \<rho>0 \<rho>_hi by (intro mult_mono) simp_all
    finally have "\<bar>x / m\<bar>\<^sup>2 \<le> 2\<^sup>2"
      by (simp add: power2_eq_square)
    then show ?thesis
      by (rule power2_le_imp_le) simp
  qed
  show ca: "\<bar>a / m\<bar> \<le> 2" by (rule comp) (simp add: S_def)
  show cb: "\<bar>b / m\<bar> \<le> 2" by (rule comp) (simp add: S_def)
  show cc: "\<bar>c / m\<bar> \<le> 2" by (rule comp) (simp add: S_def)
  show cd: "\<bar>d / m\<bar> \<le> 2" by (rule comp) (simp add: S_def)
  define xa where "xa = round32 (a / m) * round32 (a / m)"
  define xb where "xb = round32 (b / m) * round32 (b / m)"
  define xc where "xc = round32 (c / m) * round32 (c / m)"
  define xd where "xd = round32 (d / m) * round32 (d / m)"
  define ya where "ya = (a / m) * (a / m)"
  define yb where "yb = (b / m) * (b / m)"
  define yc where "yc = (c / m) * (c / m)"
  define yd where "yd = (d / m) * (d / m)"
  define N where "N = xa + xb + xc + xd"
  have Ty: "T = ya + yb + yc + yd"
    by (simp add: T_def ya_def yb_def yc_def yd_def)
  have ea: "\<bar>xa - ya\<bar> \<le> 3 * ya / 2 ^ 24 + 5 / 2 ^ 150"
    unfolding xa_def ya_def by (rule square_err32 [OF ca])
  have eb: "\<bar>xb - yb\<bar> \<le> 3 * yb / 2 ^ 24 + 5 / 2 ^ 150"
    unfolding xb_def yb_def by (rule square_err32 [OF cb])
  have ec: "\<bar>xc - yc\<bar> \<le> 3 * yc / 2 ^ 24 + 5 / 2 ^ 150"
    unfolding xc_def yc_def by (rule square_err32 [OF cc])
  have ed: "\<bar>xd - yd\<bar> \<le> 3 * yd / 2 ^ 24 + 5 / 2 ^ 150"
    unfolding xd_def yd_def by (rule square_err32 [OF cd])
  have "\<bar>N - T\<bar> \<le> 3 * T / 2 ^ 24 + 20 / 2 ^ 150"
    using ea eb ec ed unfolding N_def Ty abs_le_iff
    by (elim conjE, intro conjI; simp add: field_simps; linarith)
  then have "\<bar>N - 1\<bar> \<le> 1 / 2 ^ 19"
    using T_hi T_lo unfolding abs_le_iff
    by (elim conjE, intro conjI; simp add: field_simps; linarith)
  then show "\<bar>round32 (a / m) * round32 (a / m) + round32 (b / m) * round32 (b / m)
          + round32 (c / m) * round32 (c / m) + round32 (d / m) * round32 (d / m) - 1\<bar>
           \<le> 1 / 2 ^ 19"
    by (simp add: N_def xa_def xb_def xc_def xd_def)
qed

lemma euler_attitude_Fin:
  "euler_attitude (Fin a, Fin b, Fin c, Fin d) (Fin r0, Fin r1, Fin r2) (Fin t) =
     (Fin (a + (- b * r0 - c * r1 - d * r2) * t * pi / 180 / 2),
      Fin (b + (a * r0 - d * r1 + c * r2) * t * pi / 180 / 2),
      Fin (c + (d * r0 + a * r1 - b * r2) * t * pi / 180 / 2),
      Fin (d + (- c * r0 + b * r1 + a * r2) * t * pi / 180 / 2))"
  by (simp add: euler_attitude_def Let_def minus_cfloat_def)

lemma euler_norm_identity:
  fixes a b c d r0 r1 r2 k :: real
  shows "(a + (- b * r0 - c * r1 - d * r2) * k) * (a + (- b * r0 - c * r1 - d * r2) * k)
         + (b + (a * r0 - d * r1 + c * r2) * k) * (b + (a * r0 - d * r1 + c * r2) * k)
         + (c + (d * r0 + a * r1 - b * r2) * k) * (c + (d * r0 + a * r1 - b * r2) * k)
         + (d + (- c * r0 + b * r1 + a * r2) * k) * (d + (- c * r0 + b * r1 + a * r2) * k)
         = (a * a + b * b + c * c + d * d) * (1 + k * k * (r0 * r0 + r1 * r1 + r2 * r2))"
  by algebra

lemma euler_attitude_norm2:
  "quat_norm2 (euler_attitude (Fin a, Fin b, Fin c, Fin d) (Fin r0, Fin r1, Fin r2) (Fin t)) =
     Fin ((a * a + b * b + c * c + d * d)
          * (1 + (t * pi / 360) * (t * pi / 360) * (r0 * r0 + r1 * r1 + r2 * r2)))"
proof -
  have k: "x * t * pi / 180 / 2 = x * (t * pi / 360)" for x :: real
    by simp
  show ?thesis
    unfolding euler_attitude_Fin k quat_norm2_def prod.case times_cfloat.simps plus_cfloat.simps
    by (simp only: euler_norm_identity)
qed

lemma normalize_attitude_unit:
  assumes "0 < a * a + b * b + c * c + d * d"
  shows "unit_norm_within 0 (normalize_attitude (Fin a, Fin b, Fin c, Fin d))"
proof -
  define S where "S = a * a + b * b + c * c + d * d"
  have S0: "0 < S" using assms by (simp add: S_def)
  have m: "sqrt S \<noteq> 0" using S0 by simp
  have sq: "sqrt S * sqrt S = S" using S0 by simp
  have n: "normalize_attitude (Fin a, Fin b, Fin c, Fin d) =
             (Fin (a / sqrt S), Fin (b / sqrt S), Fin (c / sqrt S), Fin (d / sqrt S))"
    using S0 m by (simp add: normalize_attitude_def Let_def S_def)
  have e: "(x / sqrt S) * (x / sqrt S) = x * x / S" for x
    unfolding times_divide_times_eq sq by (rule refl)
  have "(a / sqrt S) * (a / sqrt S) + (b / sqrt S) * (b / sqrt S)
          + (c / sqrt S) * (c / sqrt S) + (d / sqrt S) * (d / sqrt S)
        = (a * a + b * b + c * c + d * d) / S"
    unfolding e by (simp add: add_divide_distrib)
  also have "\<dots> = 1"
    using S0 by (simp add: S_def)
  finally show ?thesis
    unfolding n by simp
qed

lemma normalize_attitude32_Fin:
  fixes a b c d :: real
  defines "m \<equiv> qmag32 a b c d"
  assumes "1 / 2 ^ 40 \<le> a * a + b * b + c * c + d * d" "a * a + b * b + c * c + d * d \<le> 2 ^ 40"
  shows "normalize_attitude32 (Fin a, Fin b, Fin c, Fin d) =
           (Fin (round32 (a / m)), Fin (round32 (b / m)), Fin (round32 (c / m)),
            Fin (round32 (d / m)))"
proof -
  define pa where "pa = round32 (a * a)"
  define pb where "pb = round32 (b * b)"
  define pc where "pc = round32 (c * c)"
  define pd where "pd = round32 (d * d)"
  define s1 where "s1 = round32 (pa + pb)"
  define s2 where "s2 = round32 (s1 + pc)"
  define s3 where "s3 = round32 (s2 + pd)"
  have sq: "0 \<le> a * a" "0 \<le> b * b" "0 \<le> c * c" "0 \<le> d * d"
    by simp_all
  have xa: "\<bar>a * a\<bar> \<le> 2 powi 40" "\<bar>b * b\<bar> \<le> 2 powi 40" "\<bar>c * c\<bar> \<le> 2 powi 40"
    "\<bar>d * d\<bar> \<le> 2 powi 40"
    using assms(3) sq by (simp_all only: abs_of_nonneg power_int_numeral)
  have ta: "to_float (Fin (a * a)) = Fin pa" "to_float (Fin (b * b)) = Fin pb"
    "to_float (Fin (c * c)) = Fin pc" "to_float (Fin (d * d)) = Fin pd"
    unfolding pa_def pb_def pc_def pd_def by (rule to_float_Fin [OF xa(1)] to_float_Fin [OF xa(2)]
        to_float_Fin [OF xa(3)] to_float_Fin [OF xa(4)]; simp)+
  have p0: "0 \<le> pa" "0 \<le> pb" "0 \<le> pc" "0 \<le> pd"
    unfolding pa_def pb_def pc_def pd_def by (intro round32_nonneg sq)+
  have pu: "pa \<le> 2 powi 40" "pb \<le> 2 powi 40" "pc \<le> 2 powi 40" "pd \<le> 2 powi 40"
    using round32_abs_le_two_powi [OF xa(1)] round32_abs_le_two_powi [OF xa(2)]
      round32_abs_le_two_powi [OF xa(3)] round32_abs_le_two_powi [OF xa(4)]
    unfolding pa_def pb_def pc_def pd_def by simp_all
  have x1: "\<bar>pa + pb\<bar> \<le> 2 powi 41"
    using p0 pu by simp
  have t1: "to_float (Fin (pa + pb)) = Fin s1"
    unfolding s1_def by (rule to_float_Fin [OF x1]) simp_all
  have s10: "0 \<le> s1"
    unfolding s1_def using p0 by (intro round32_nonneg) simp
  have s1u: "s1 \<le> 2 powi 41"
    using round32_abs_le_two_powi [OF x1] unfolding s1_def by simp
  have x2: "\<bar>s1 + pc\<bar> \<le> 2 powi 42"
    using p0 pu s10 s1u by simp
  have t2: "to_float (Fin (s1 + pc)) = Fin s2"
    unfolding s2_def by (rule to_float_Fin [OF x2]) simp_all
  have s20: "0 \<le> s2"
    unfolding s2_def using p0 s10 by (intro round32_nonneg) simp
  have s2u: "s2 \<le> 2 powi 42"
    using round32_abs_le_two_powi [OF x2] unfolding s2_def by simp
  have x3: "\<bar>s2 + pd\<bar> \<le> 2 powi 43"
    using p0 pu s20 s2u by simp
  have t3: "to_float (Fin (s2 + pd)) = Fin s3"
    unfolding s3_def by (rule to_float_Fin [OF x3]) simp_all
  have s30: "0 \<le> s3"
    unfolding s3_def using p0 s20 by (intro round32_nonneg) simp
  have s3u: "s3 \<le> 2 powi 43"
    using round32_abs_le_two_powi [OF x3] unfolding s3_def by simp
  have "sqrt s3 \<le> sqrt ((2 ^ 22)\<^sup>2)"
    using s3u by (intro real_sqrt_le_mono) simp
  then have x4: "\<bar>sqrt s3\<bar> \<le> 2 powi 22"
    using s30 by simp
  have m: "m = round32 (sqrt s3)"
    by (simp add: m_def qmag32_def s3_def s2_def s1_def pa_def pb_def pc_def pd_def)
  have t4: "to_float (Fin (sqrt s3)) = Fin m"
    unfolding m by (rule to_float_Fin [OF x4]) simp_all
  have qm: "to_float (sqrtf (to_float (to_float (to_float (to_float (Fin a * Fin a)
              + to_float (Fin b * Fin b)) + to_float (Fin c * Fin c)) + to_float (Fin d * Fin d))))
            = Fin m"
    unfolding times_cfloat.simps ta plus_cfloat.simps t1 t2 t3 using s30 t4 by simp
  note n = normalize32_unit_norm [OF assms(2,3), folded m_def]
  have m0: "m \<noteq> 0"
    using n(2) by simp
  have dv: "Fin x / Fin m = Fin (x / m)" for x
    using m0 by simp
  have td: "to_float (Fin (a / m)) = Fin (round32 (a / m))"
    "to_float (Fin (b / m)) = Fin (round32 (b / m))"
    "to_float (Fin (c / m)) = Fin (round32 (c / m))"
    "to_float (Fin (d / m)) = Fin (round32 (d / m))"
  proof -
    have two: "\<bar>x\<bar> \<le> 2 \<Longrightarrow> to_float (Fin x) = Fin (round32 x)" for x
      by (rule to_float_Fin [of _ 1]) simp_all
    show "to_float (Fin (a / m)) = Fin (round32 (a / m))"
      "to_float (Fin (b / m)) = Fin (round32 (b / m))"
      "to_float (Fin (c / m)) = Fin (round32 (c / m))"
      "to_float (Fin (d / m)) = Fin (round32 (d / m))"
      by (rule two [OF n(3)] two [OF n(4)] two [OF n(5)] two [OF n(6)])+
  qed
  show ?thesis
    unfolding normalize_attitude32_def prod.case Let_def qm dv td by (rule refl)
qed

lemma normalize_attitude32_unit:
  assumes "1 / 2 ^ 40 \<le> a * a + b * b + c * c + d * d" "a * a + b * b + c * c + d * d \<le> 2 ^ 40"
  shows "unit_norm_within (1 / 2 ^ 19) (normalize_attitude32 (Fin a, Fin b, Fin c, Fin d))"
  unfolding normalize_attitude32_Fin [OF assms] unit_norm_within.simps
  by (rule normalize32_unit_norm(1) [OF assms])

lemma quadcopter_q:
  "q (fst (simulateModelQuadcopter lib c ov ab env s bus)) =
     normalize_attitude (quadcopter_euler c env s bus)"
  unfolding quadcopter_dynamic_state
  by (simp add: quadcopter_predict_def Let_def predict_attitude_def quadcopter_euler_def)

lemma airplane_q:
  "q (fst (simulateModelAirplane lib c ov ab env s bus)) =
     normalize_attitude (airplane_euler c env s bus)"
proof -
  have "q (fst (simulateModelAirplane lib c ov ab env s bus)) =
          fst (snd (snd (snd (airplane_predict lib c env s bus))))"
    by (simp add: simulateModelAirplane_def Let_def case_prod_beta)
  then show ?thesis
    by (simp add: airplane_predict_def Let_def predict_attitude_def airplane_euler_def)
qed

text \<open>
  C2, as stated: after every integration step of the quadcopter and of the airplane the
  quaternion has unit norm within floating tolerance. A command that is not a number
  makes the four components NaN: in the first tick of the quadcopter, disarmed and at
  rest, with the roll command NaN, the quaternion becomes \<open>(NaN, NaN, NaN, NaN)\<close>, whose
  norm is not within any tolerance of 1.
\<close>

theorem attitude_nan_counterexample:
  "q (fst (simulateModelQuadcopter coord_lib_dcm consts_example False zero3 env_zero quadcopter_init
        (bus_zero\<lparr>ActuatorDesired_Roll := NaN\<rparr>))) = (NaN, NaN, NaN, NaN)
   \<and> quat_norm2 (NaN, NaN, NaN, NaN) = NaN
   \<and> \<not> unit_norm_within 1 (NaN, NaN, NaN, NaN)
   \<and> normalize_attitude32 (quadcopter_euler consts_example env_zero quadcopter_init
        (bus_zero\<lparr>ActuatorDesired_Roll := NaN\<rparr>)) = (NaN, NaN, NaN, NaN)"
proof -
  have e: "quadcopter_euler consts_example env_zero quadcopter_init
             (bus_zero\<lparr>ActuatorDesired_Roll := NaN\<rparr>) = (NaN, NaN, NaN, NaN)"
    by (simp add: quadcopter_euler_def quadcopter_init_def quadcopter_rates_def bus_zero_def
        consts_example_def bool_to_float_def zero3_def euler_attitude_def Let_def minus_cfloat_def)
  show ?thesis
    unfolding quadcopter_q e
    by (simp add: normalize_attitude_def normalize_attitude32_def quat_norm2_def Let_def)
qed

lemma elapsed_dT_Fin: "\<exists>t. elapsed_dT clock raw = Fin t"
proof -
  have "u32_to_float (PIOS_DELAY_DiffuS clock raw) / Fin 1000000
          = Fin (real (unat (PIOS_DELAY_DiffuS clock raw)) / 1000000)"
    by (simp add: u32_to_float_def)
  then show ?thesis
    unfolding elapsed_dT_def Let_def by (cases "Fin (real (unat (PIOS_DELAY_DiffuS clock raw))
          / 1000000) < Fin 0.001") (simp_all only: if_True if_False, blast+)
qed

lemma predict_attitude_unit:
  assumes "0 < a * a + b * b + c * c + d * d"
  shows "unit_norm_within 0
           (predict_attitude (Fin a, Fin b, Fin c, Fin d) (Fin r0, Fin r1, Fin r2) (Fin t))"
proof -
  define k where "k = t * pi / 360"
  have k: "x * t * pi / 180 / 2 = x * k" for x :: real
    by (simp add: k_def)
  have k2: "0 \<le> k * k"
    by simp
  have "0 \<le> r0 * r0 + (r1 * r1 + r2 * r2)"
    by (intro add_nonneg_nonneg zero_le_square)
  then have r2: "0 \<le> r0 * r0 + r1 * r1 + r2 * r2"
    by simp
  have "0 \<le> k * k * (r0 * r0 + r1 * r1 + r2 * r2)"
    using k2 r2 by (rule mult_nonneg_nonneg)
  then have "0 < 1 + k * k * (r0 * r0 + r1 * r1 + r2 * r2)"
    by linarith
  with assms
  have "0 < (a * a + b * b + c * c + d * d) * (1 + k * k * (r0 * r0 + r1 * r1 + r2 * r2))"
    by (rule mult_pos_pos)
  then have "0 < (a + (- b * r0 - c * r1 - d * r2) * k) * (a + (- b * r0 - c * r1 - d * r2) * k)
         + (b + (a * r0 - d * r1 + c * r2) * k) * (b + (a * r0 - d * r1 + c * r2) * k)
         + (c + (d * r0 + a * r1 - b * r2) * k) * (c + (d * r0 + a * r1 - b * r2) * k)
         + (d + (- c * r0 + b * r1 + a * r2) * k) * (d + (- c * r0 + b * r1 + a * r2) * k)"
    by (simp only: euler_norm_identity)
  then show ?thesis
    unfolding predict_attitude_def euler_attitude_Fin k by (rule normalize_attitude_unit)
qed

lemma quadcopter_q_predict:
  "q (fst (simulateModelQuadcopter lib c ov ab env s bus)) =
     predict_attitude (q s)
       (quadcopter_rates (FlightStatus_Armed bus = FLIGHTSTATUS_ARMED_ARMED c) bus (rpy s))
       (elapsed_dT (clk_dT env) (last_time s))"
  unfolding quadcopter_q by (simp add: quadcopter_euler_def predict_attitude_def)

lemma airplane_q_predict:
  "q (fst (simulateModelAirplane lib c ov ab env s bus)) =
     predict_attitude (q s)
       (airplane_rates (FlightStatus_Armed bus = FLIGHTSTATUS_ARMED_ARMED c) bus (rpy s))
       (elapsed_dT (clk_dT env) (last_time s))"
  unfolding airplane_q by (simp add: airplane_euler_def predict_attitude_def)

lemma normalize_attitude32_range:
  assumes "Fin (1 / 2 ^ 40) \<le> quat_norm2 (Fin a, Fin b, Fin c', Fin d)"
    and "quat_norm2 (Fin a, Fin b, Fin c', Fin d) \<le> Fin (2 ^ 40)"
  shows "unit_norm_within (1 / 2 ^ 19) (normalize_attitude32 (Fin a, Fin b, Fin c', Fin d))"
proof -
  have "1 / 2 ^ 40 \<le> a * a + b * b + c' * c' + d * d"
    using assms(1) by (simp add: quat_norm2_def)
  moreover have "a * a + b * b + c' * c' + d * d \<le> 2 ^ 40"
    using assms(2) by (simp add: quat_norm2_def)
  ultimately show ?thesis
    by (rule normalize_attitude32_unit)
qed

lemma quadcopter_euler_unit32:
  assumes "q s = (Fin a, Fin b, Fin c', Fin d)"
    and "quadcopter_rates (FlightStatus_Armed bus = FLIGHTSTATUS_ARMED_ARMED c) bus (rpy s)
           = (Fin r0, Fin r1, Fin r2)"
    and "Fin (1 / 2 ^ 40) \<le> quat_norm2 (quadcopter_euler c env s bus)"
    and "quat_norm2 (quadcopter_euler c env s bus) \<le> Fin (2 ^ 40)"
  shows "unit_norm_within (1 / 2 ^ 19) (normalize_attitude32 (quadcopter_euler c env s bus))"
proof -
  obtain t where t: "elapsed_dT (clk_dT env) (last_time s) = Fin t"
    using elapsed_dT_Fin by blast
  show ?thesis
    using assms(3,4) unfolding quadcopter_euler_def assms(1,2) t euler_attitude_Fin
    by (rule normalize_attitude32_range)
qed

lemma airplane_euler_unit32:
  assumes "q s = (Fin a, Fin b, Fin c', Fin d)"
    and "airplane_rates (FlightStatus_Armed bus = FLIGHTSTATUS_ARMED_ARMED c) bus (rpy s)
           = (Fin r0, Fin r1, Fin r2)"
    and "Fin (1 / 2 ^ 40) \<le> quat_norm2 (airplane_euler c env s bus)"
    and "quat_norm2 (airplane_euler c env s bus) \<le> Fin (2 ^ 40)"
  shows "unit_norm_within (1 / 2 ^ 19) (normalize_attitude32 (airplane_euler c env s bus))"
proof -
  obtain t where t: "elapsed_dT (clk_dT env) (last_time s) = Fin t"
    using elapsed_dT_Fin by blast
  show ?thesis
    using assms(3,4) unfolding airplane_euler_def assms(1,2) t euler_attitude_Fin
    by (rule normalize_attitude32_range)
qed

text \<open>
  C2, as amended. In every tick of the quadcopter and of the airplane in which the
  quaternion before the step is finite with a nonzero norm and the filtered rates are
  finite, the quaternion after the Euler step and the division by its norm has unit norm
  within floating tolerance. In exact arithmetic its squared norm is exactly 1. With
  every operation of the division by the norm rounded to \<^verbatim>\<open>float\<close>, its squared norm is
  within \<open>1 / 2 ^ 19\<close> of 1 when the squared norm after the Euler step lies between
  \<open>1 / 2 ^ 40\<close> and \<open>2 ^ 40\<close>; the rounded division does this to every finite quaternion in
  that range, whatever the rounding of the Euler step. The Euler step multiplies the
  squared norm by \<open>1 + (dT * pi / 360)\<^sup>2 * (r0\<^sup>2 + r1\<^sup>2 + r2\<^sup>2)\<close>, so it never lowers it.
\<close>

theorem attitude_unit_norm:
  "(\<forall>a b c' d r0 r1 r2.
       q s = (Fin a, Fin b, Fin c', Fin d) \<and> 0 < a * a + b * b + c' * c' + d * d
       \<and> quadcopter_rates (FlightStatus_Armed bus = FLIGHTSTATUS_ARMED_ARMED c) bus (rpy s)
           = (Fin r0, Fin r1, Fin r2)
     \<longrightarrow> q (fst (simulateModelQuadcopter lib c ov ab env s bus))
           = normalize_attitude (quadcopter_euler c env s bus)
         \<and> unit_norm_within 0 (q (fst (simulateModelQuadcopter lib c ov ab env s bus)))
         \<and> (Fin (1 / 2 ^ 40) \<le> quat_norm2 (quadcopter_euler c env s bus)
              \<and> quat_norm2 (quadcopter_euler c env s bus) \<le> Fin (2 ^ 40)
            \<longrightarrow> unit_norm_within (1 / 2 ^ 19)
                  (normalize_attitude32 (quadcopter_euler c env s bus))))
   \<and> (\<forall>a b c' d r0 r1 r2.
       q sa = (Fin a, Fin b, Fin c', Fin d) \<and> 0 < a * a + b * b + c' * c' + d * d
       \<and> airplane_rates (FlightStatus_Armed bus = FLIGHTSTATUS_ARMED_ARMED c) bus (rpy sa)
           = (Fin r0, Fin r1, Fin r2)
     \<longrightarrow> q (fst (simulateModelAirplane lib c ov ab env sa bus))
           = normalize_attitude (airplane_euler c env sa bus)
         \<and> unit_norm_within 0 (q (fst (simulateModelAirplane lib c ov ab env sa bus)))
         \<and> (Fin (1 / 2 ^ 40) \<le> quat_norm2 (airplane_euler c env sa bus)
              \<and> quat_norm2 (airplane_euler c env sa bus) \<le> Fin (2 ^ 40)
            \<longrightarrow> unit_norm_within (1 / 2 ^ 19)
                  (normalize_attitude32 (airplane_euler c env sa bus))))
   \<and> (\<forall>a b c' d.
       1 / 2 ^ 40 \<le> a * a + b * b + c' * c' + d * d \<and> a * a + b * b + c' * c' + d * d \<le> 2 ^ 40
     \<longrightarrow> unit_norm_within (1 / 2 ^ 19) (normalize_attitude32 (Fin a, Fin b, Fin c', Fin d)))
   \<and> quat_norm2 (euler_attitude (Fin x0, Fin x1, Fin x2, Fin x3) (Fin w0, Fin w1, Fin w2) (Fin t)) =
       Fin ((x0 * x0 + x1 * x1 + x2 * x2 + x3 * x3)
            * (1 + (t * pi / 360) * (t * pi / 360) * (w0 * w0 + w1 * w1 + w2 * w2)))"
proof (intro conjI allI impI)
  fix a b c' d r0 r1 r2
  assume h: "q s = (Fin a, Fin b, Fin c', Fin d) \<and> 0 < a * a + b * b + c' * c' + d * d
       \<and> quadcopter_rates (FlightStatus_Armed bus = FLIGHTSTATUS_ARMED_ARMED c) bus (rpy s)
           = (Fin r0, Fin r1, Fin r2)"
  obtain t where t: "elapsed_dT (clk_dT env) (last_time s) = Fin t"
    using elapsed_dT_Fin by blast
  show "q (fst (simulateModelQuadcopter lib c ov ab env s bus))
          = normalize_attitude (quadcopter_euler c env s bus)"
    by (rule quadcopter_q)
  show "unit_norm_within 0 (q (fst (simulateModelQuadcopter lib c ov ab env s bus)))"
    unfolding quadcopter_q_predict t using h by (simp add: predict_attitude_unit)
  assume "Fin (1 / 2 ^ 40) \<le> quat_norm2 (quadcopter_euler c env s bus)
            \<and> quat_norm2 (quadcopter_euler c env s bus) \<le> Fin (2 ^ 40)"
  then show "unit_norm_within (1 / 2 ^ 19) (normalize_attitude32 (quadcopter_euler c env s bus))"
    using h by (intro quadcopter_euler_unit32 [of s a b c' d bus c r0 r1 r2]) simp_all
next
  fix a b c' d r0 r1 r2
  assume h: "q sa = (Fin a, Fin b, Fin c', Fin d) \<and> 0 < a * a + b * b + c' * c' + d * d
       \<and> airplane_rates (FlightStatus_Armed bus = FLIGHTSTATUS_ARMED_ARMED c) bus (rpy sa)
           = (Fin r0, Fin r1, Fin r2)"
  obtain t where t: "elapsed_dT (clk_dT env) (last_time sa) = Fin t"
    using elapsed_dT_Fin by blast
  show "q (fst (simulateModelAirplane lib c ov ab env sa bus))
          = normalize_attitude (airplane_euler c env sa bus)"
    by (rule airplane_q)
  show "unit_norm_within 0 (q (fst (simulateModelAirplane lib c ov ab env sa bus)))"
    unfolding airplane_q_predict t using h by (simp add: predict_attitude_unit)
  assume "Fin (1 / 2 ^ 40) \<le> quat_norm2 (airplane_euler c env sa bus)
            \<and> quat_norm2 (airplane_euler c env sa bus) \<le> Fin (2 ^ 40)"
  then show "unit_norm_within (1 / 2 ^ 19) (normalize_attitude32 (airplane_euler c env sa bus))"
    using h by (intro airplane_euler_unit32 [of sa a b c' d bus c r0 r1 r2]) simp_all
next
  fix a b c' d :: real
  assume "1 / 2 ^ 40 \<le> a * a + b * b + c' * c' + d * d \<and> a * a + b * b + c' * c' + d * d \<le> 2 ^ 40"
  then show "unit_norm_within (1 / 2 ^ 19) (normalize_attitude32 (Fin a, Fin b, Fin c', Fin d))"
    by (intro normalize_attitude32_unit) simp_all
next
  show "quat_norm2 (euler_attitude (Fin x0, Fin x1, Fin x2, Fin x3) (Fin w0, Fin w1, Fin w2) (Fin t)) =
       Fin ((x0 * x0 + x1 * x1 + x2 * x2 + x3 * x3)
            * (1 + (t * pi / 360) * (t * pi / 360) * (w0 * w0 + w1 * w1 + w2 * w2)))"
    by (rule euler_attitude_norm2)
qed

text \<open>A tick of the quadcopter and one of the airplane, armed, with the roll command 1,
  10000 microseconds after the start. The filtered roll rate of the quadcopter is 2.5
  degrees per second and its Euler step turns the quaternion \<open>(1, 0, 0, 0)\<close> into
  \<open>(1, pi / 14400, 0, 0)\<close>; the airplane, whose rates follow the desired rates, keeps
  \<open>(1, 0, 0, 0)\<close>.\<close>

theorem attitude_unit_norm_witness:
  "q quadcopter_init = (Fin 1, Fin 0, Fin 0, Fin 0) \<and> (0::real) < 1 * 1 + 0 * 0 + 0 * 0 + 0 * 0
   \<and> quadcopter_rates
         (FlightStatus_Armed (bus_zero\<lparr>FlightStatus_Armed := 2, ActuatorDesired_Roll := Fin 1\<rparr>)
            = FLIGHTSTATUS_ARMED_ARMED consts_example)
         (bus_zero\<lparr>FlightStatus_Armed := 2, ActuatorDesired_Roll := Fin 1\<rparr>) (rpy quadcopter_init)
       = (Fin 2.5, Fin 0, Fin 0)
   \<and> quadcopter_euler consts_example (env_at 10000) quadcopter_init
         (bus_zero\<lparr>FlightStatus_Armed := 2, ActuatorDesired_Roll := Fin 1\<rparr>)
       = (Fin 1, Fin (pi / 14400), Fin 0, Fin 0)
   \<and> unit_norm_within 0 (q (fst (simulateModelQuadcopter coord_lib_dcm consts_example False zero3
         (env_at 10000) quadcopter_init
         (bus_zero\<lparr>FlightStatus_Armed := 2, ActuatorDesired_Roll := Fin 1\<rparr>))))
   \<and> Fin (1 / 2 ^ 40) \<le> quat_norm2 (Fin 1, Fin (pi / 14400), Fin 0, Fin 0)
   \<and> quat_norm2 (Fin 1, Fin (pi / 14400), Fin 0, Fin 0) \<le> Fin (2 ^ 40)
   \<and> unit_norm_within (1 / 2 ^ 19)
         (normalize_attitude32 (Fin 1, Fin (pi / 14400), Fin 0, Fin 0))
   \<and> q airplane_init = (Fin 1, Fin 0, Fin 0, Fin 0)
   \<and> airplane_rates
         (FlightStatus_Armed (bus_zero\<lparr>FlightStatus_Armed := 2, ActuatorDesired_Roll := Fin 1\<rparr>)
            = FLIGHTSTATUS_ARMED_ARMED consts_example)
         (bus_zero\<lparr>FlightStatus_Armed := 2, ActuatorDesired_Roll := Fin 1\<rparr>) (rpy airplane_init)
       = (Fin 0, Fin 0, Fin 0)
   \<and> q (fst (simulateModelAirplane coord_lib_dcm consts_example False zero3
         (env_at 10000) airplane_init
         (bus_zero\<lparr>FlightStatus_Armed := 2, ActuatorDesired_Roll := Fin 1\<rparr>)))
       = (Fin 1, Fin 0, Fin 0, Fin 0)
   \<and> (1 / 2 ^ 40 :: real) \<le> 1 * 1 + 0 * 0 + 0 * 0 + 0 * 0
   \<and> (1 * 1 + 0 * 0 + 0 * 0 + 0 * 0 :: real) \<le> 2 ^ 40
   \<and> unit_norm_within (1 / 2 ^ 19) (normalize_attitude32 (Fin 1, Fin 0, Fin 0, Fin 0))"
proof -
  let ?bus = "bus_zero\<lparr>FlightStatus_Armed := 2, ActuatorDesired_Roll := Fin 1\<rparr>"
  have q0: "q quadcopter_init = (Fin 1, Fin 0, Fin 0, Fin 0)"
    "q airplane_init = (Fin 1, Fin 0, Fin 0, Fin 0)"
    by (simp_all add: quadcopter_init_def airplane_init_def)
  have p: "(0::real) < 1 * 1 + 0 * 0 + 0 * 0 + 0 * 0"
    by simp
  have rq: "quadcopter_rates (FlightStatus_Armed ?bus = FLIGHTSTATUS_ARMED_ARMED consts_example)
              ?bus (rpy quadcopter_init) = (Fin 2.5, Fin 0, Fin 0)"
    by (simp add: quadcopter_init_def quadcopter_rates_def bus_zero_def consts_example_def
        bool_to_float_def zero3_def Let_def minus_cfloat_def)
  have ra: "airplane_rates (FlightStatus_Armed ?bus = FLIGHTSTATUS_ARMED_ARMED consts_example)
              ?bus (rpy airplane_init) = (Fin 0, Fin 0, Fin 0)"
    by (simp add: airplane_init_def airplane_rates_def bus_zero_def consts_example_def
        bool_to_float_def zero3_def Let_def minus_cfloat_def)
  have e: "quadcopter_euler consts_example (env_at 10000) quadcopter_init ?bus
             = (Fin 1, Fin (pi / 14400), Fin 0, Fin 0)"
    by (simp add: quadcopter_euler_def quadcopter_init_def quadcopter_rates_def bus_zero_def
        consts_example_def bool_to_float_def zero3_def euler_attitude_def Let_def minus_cfloat_def
        elapsed_dT_def env_at_def u32_to_float_def PIOS_DELAY_DiffuS_def)
  have ea: "airplane_euler consts_example (env_at 10000) airplane_init ?bus
              = (Fin 1, Fin 0, Fin 0, Fin 0)"
    by (simp add: airplane_euler_def airplane_init_def airplane_rates_def bus_zero_def
        consts_example_def bool_to_float_def zero3_def euler_attitude_def Let_def minus_cfloat_def
        elapsed_dT_def env_at_def u32_to_float_def PIOS_DELAY_DiffuS_def)
  have "\<bar>pi / 14400\<bar> \<le> 1"
    using pi_gt_zero pi_less_4 by simp
  then have "(pi / 14400) * (pi / 14400) \<le> 1 * 1"
    by (intro mult_mono') (simp_all add: abs_le_iff)
  then have r: "Fin (1 / 2 ^ 40) \<le> quat_norm2 (Fin 1, Fin (pi / 14400), Fin 0, Fin 0)"
    "quat_norm2 (Fin 1, Fin (pi / 14400), Fin 0, Fin 0) \<le> Fin (2 ^ 40)"
    by (simp_all add: quat_norm2_def)
  have r1: "(1 / 2 ^ 40 :: real) \<le> 1 * 1 + 0 * 0 + 0 * 0 + 0 * 0"
    "(1 * 1 + 0 * 0 + 0 * 0 + 0 * 0 :: real) \<le> 2 ^ 40"
    by simp_all
  note T = attitude_unit_norm [where s = quadcopter_init and sa = airplane_init and bus = ?bus
      and c = consts_example and lib = coord_lib_dcm and ov = False and ab = zero3
      and env = "env_at 10000"]
  note Tq = T [THEN conjunct1, rule_format, OF conjI [OF q0(1) conjI [OF p rq]]]
  note Ta = T [THEN conjunct2, THEN conjunct1, rule_format, OF conjI [OF q0(2) conjI [OF p ra]]]
  have Q: "unit_norm_within 0 (q (fst (simulateModelQuadcopter coord_lib_dcm consts_example False
             zero3 (env_at 10000) quadcopter_init ?bus)))"
    by (rule Tq [THEN conjunct2, THEN conjunct1])
  have N: "unit_norm_within (1 / 2 ^ 19)
             (normalize_attitude32 (Fin 1, Fin (pi / 14400), Fin 0, Fin 0))"
    using Tq [THEN conjunct2, THEN conjunct2, rule_format] r unfolding e by blast
  have n: "normalize_attitude (Fin 1, Fin 0, Fin 0, Fin 0) = (Fin 1, Fin 0, Fin 0, Fin 0)"
    by (simp add: normalize_attitude_def)
  have A: "q (fst (simulateModelAirplane coord_lib_dcm consts_example False zero3 (env_at 10000)
             airplane_init ?bus)) = (Fin 1, Fin 0, Fin 0, Fin 0)"
    using Ta [THEN conjunct1] unfolding ea n .
  have N1: "unit_norm_within (1 / 2 ^ 19) (normalize_attitude32 (Fin 1, Fin 0, Fin 0, Fin 0))"
    by (rule T [THEN conjunct2, THEN conjunct2, THEN conjunct1, rule_format, OF conjI [OF r1]])
  show ?thesis
    by (intro conjI q0 p rq e Q r N ra A r1 N1)
qed

end
